theory Spec2Isabelle
  imports Main
begin

section \<open>Go strings, runes and number formatting\<close>

text \<open>
  A Go string is a sequence of bytes; it is modelled as a HOL \<open>string\<close>, one
  \<open>char\<close> per byte. The non-ASCII literals of event.go are written as their UTF-8
  bytes. A rune is a Unicode code point.
\<close>

type_synonym rune = nat

definition byte :: "char \<Rightarrow> nat" where
  "byte c = of_char c"

definition is_cont :: "char \<Rightarrow> bool" where
  \<comment> \<open>a UTF-8 continuation byte, 0x80..0xBF\<close>
  "is_cont c = (0x80 \<le> byte c \<and> byte c \<le> 0xBF)"

definition RuneError :: rune where
  "RuneError = 0xFFFD"

text \<open>
  \<open>decoderune\<close> is the decoder behind the conversion \<open>[]rune(s)\<close>: the rune at the
  head of a non-empty string and the number of bytes it takes. A byte that does not
  start a well-formed, shortest-form sequence is one \<open>RuneError\<close> of width 1.
\<close>

definition decoderune :: "string \<Rightarrow> rune \<times> nat" where
  "decoderune str = (case str of [] \<Rightarrow> (RuneError, 1) | c0 # s \<Rightarrow>
     (if byte c0 < 0x80 then (byte c0, 1)
      else if 0xC0 \<le> byte c0 \<and> byte c0 < 0xE0 then
        (case s of
           c1 # _ \<Rightarrow>
             (let r = (byte c0 mod 32) * 64 + byte c1 mod 64
              in if is_cont c1 \<and> 0x7F < r then (r, 2) else (RuneError, 1))
         | _ \<Rightarrow> (RuneError, 1))
      else if 0xE0 \<le> byte c0 \<and> byte c0 < 0xF0 then
        (case s of
           c1 # c2 # _ \<Rightarrow>
             (let r = (byte c0 mod 16) * 4096 + (byte c1 mod 64) * 64 + byte c2 mod 64
              in if is_cont c1 \<and> is_cont c2 \<and> 0x7FF < r \<and> \<not> (0xD800 \<le> r \<and> r \<le> 0xDFFF)
                 then (r, 3) else (RuneError, 1))
         | _ \<Rightarrow> (RuneError, 1))
      else if 0xF0 \<le> byte c0 \<and> byte c0 < 0xF8 then
        (case s of
           c1 # c2 # c3 # _ \<Rightarrow>
             (let r = (byte c0 mod 8) * 262144 + (byte c1 mod 64) * 4096
                      + (byte c2 mod 64) * 64 + byte c3 mod 64
              in if is_cont c1 \<and> is_cont c2 \<and> is_cont c3 \<and> 0xFFFF < r \<and> r \<le> 0x10FFFF
                 then (r, 4) else (RuneError, 1))
         | _ \<Rightarrow> (RuneError, 1))
      else (RuneError, 1)))"

lemma decoderune_width: "0 < snd (decoderune s)"
  unfolding decoderune_def by (simp add: Let_def split: list.split)

text \<open>\<open>runes s\<close> is \<open>[]rune(s)\<close>: the runes of \<open>s\<close>, from the left.\<close>

function runes :: "string \<Rightarrow> rune list" where
  "runes s =
     (if s = [] then [] else fst (decoderune s) # runes (drop (snd (decoderune s)) s))"
  by pat_completeness auto
termination
proof (relation "measure length")
  show "wf (measure length)" by simp
next
  fix s :: string
  assume "s \<noteq> []"
  then have "length (drop (snd (decoderune s)) s) < length s"
    using decoderune_width [of s] by simp
  then show "(drop (snd (decoderune s)) s, s) \<in> measure length" by simp
qed

declare runes.simps [simp del]

text \<open>
  \<open>encoderune r\<close> is the UTF-8 encoding of one rune, as \<open>string(rs)\<close> writes it: a
  surrogate or a value beyond U+10FFFF is written as \<open>RuneError\<close>.
\<close>

definition encoderune :: "rune \<Rightarrow> string" where
  "encoderune r =
     (if r \<le> 0x7F then [char_of r]
      else if r \<le> 0x7FF then [char_of (0xC0 + r div 64), char_of (0x80 + r mod 64)]
      else if 0x10FFFF < r \<or> (0xD800 \<le> r \<and> r \<le> 0xDFFF) then
        [CHR 0xEF, CHR 0xBF, CHR 0xBD]
      else if r \<le> 0xFFFF then
        [char_of (0xE0 + r div 4096), char_of (0x80 + (r div 64) mod 64),
         char_of (0x80 + r mod 64)]
      else
        [char_of (0xF0 + r div 262144), char_of (0x80 + (r div 4096) mod 64),
         char_of (0x80 + (r div 64) mod 64), char_of (0x80 + r mod 64)])"

definition string_of_runes :: "rune list \<Rightarrow> string" where
  "string_of_runes rs = concat (map encoderune rs)"

text \<open>\<open>itoa i\<close> is what the verb \<open>%d\<close> of \<open>fmt.Sprintf\<close> prints for an integer.\<close>

fun digits :: "nat \<Rightarrow> string" where
  "digits n = (if n < 10 then [char_of (48 + n)]
               else digits (n div 10) @ [char_of (48 + n mod 10)])"

declare digits.simps [simp del]

definition itoa :: "int \<Rightarrow> string" where
  "itoa i = (if i < 0 then CHR ''-'' # digits (nat (- i)) else digits (nat i))"

text \<open>
  \<open>strings_Replace s old new\<close> is \<open>strings.Replace(s, old, new, -1)\<close> for a non-empty
  \<open>old\<close>: every non-overlapping occurrence, from the left. (For an empty \<open>old\<close> Go
  inserts \<open>new\<close> around every rune; event.go never passes one, and the model returns
  \<open>s\<close>.)
\<close>

function strings_Replace :: "string \<Rightarrow> string \<Rightarrow> string \<Rightarrow> string" where
  "strings_Replace s old new =
     (if s = [] \<or> old = [] then s
      else if take (length old) s = old
        then new @ strings_Replace (drop (length old) s) old new
        else hd s # strings_Replace (tl s) old new)"
  by pat_completeness auto
termination
  by (relation "measure (\<lambda>(s, old, new). length s)") auto

declare strings_Replace.simps [simp del]

text \<open>
  Panics. \<open>PanicString\<close> is \<open>panic\<close> of a string, \<open>PanicError\<close> is \<open>panic(err)\<close> of the
  error of \<open>json.Unmarshal\<close>, \<open>SliceBounds\<close> the runtime panic of a slice expression
  out of range.
\<close>

datatype json_error =
    InvalidUnmarshalError   \<comment> \<open>\<open>json: Unmarshal(nil)\<close>: the target is a nil interface\<close>
  | UnmarshalFailed         \<comment> \<open>any other error: a value that does not fit its field\<close>

datatype panic = PanicString string | PanicError json_error | SliceBounds

text \<open>
  The slice expressions \<open>xs[:hi]\<close> and \<open>xs[lo:]\<close>. Go checks \<open>hi\<close> against the
  capacity; the model checks it against the length, which is never larger.
\<close>

definition slice_to :: "'a list \<Rightarrow> int \<Rightarrow> panic + 'a list" where
  "slice_to xs hi =
     (if 0 \<le> hi \<and> hi \<le> int (length xs) then Inr (take (nat hi) xs) else Inl SliceBounds)"

definition slice_from :: "'a list \<Rightarrow> int \<Rightarrow> panic + 'a list" where
  "slice_from xs lo =
     (if 0 \<le> lo \<and> lo \<le> int (length xs) then Inr (drop (nat lo) xs) else Inl SliceBounds)"


section \<open>JSON payloads and the two libraries that read them\<close>

text \<open>
  A payload is a parsed JSON document. An object keeps its members in the order of the
  text, repeated keys included: \<open>gjson\<close> reads the first member of a name and
  \<open>encoding/json\<close> lets the last one win. A number is \<open>JInt n\<close> when its literal has
  neither a fraction nor an exponent (the only literals \<open>strconv.ParseInt\<close> accepts),
  and \<open>JFloat lit\<close> otherwise. Strings hold their unescaped contents.
\<close>

datatype json =
    JNull
  | JBool bool
  | JInt int
  | JFloat string
  | JStr string
  | JArr "json list"
  | JObj "(string \<times> json) list"

text \<open>
  What \<open>gjson\<close> does that the parsed document does not determine is a parameter:
  \<open>path_expr\<close> evaluates a path that holds anything but letters, digits and
  underscores (dots, wildcards, modifiers, pipes, ...), and \<open>raw_text\<close> is the text
  \<open>String()\<close> returns for a number, an array or an object.
\<close>

record gjson_ext =
  path_expr :: "json \<Rightarrow> string \<Rightarrow> json option"
  raw_text :: "json \<Rightarrow> string"

definition plain_char :: "char \<Rightarrow> bool" where
  "plain_char c =
     ((48 \<le> byte c \<and> byte c \<le> 57) \<or> (65 \<le> byte c \<and> byte c \<le> 90)
      \<or> (97 \<le> byte c \<and> byte c \<le> 122) \<or> byte c = 95)"

definition plain_key :: "string \<Rightarrow> bool" where
  "plain_key p = list_all plain_char p"

text \<open>
  \<open>gjson_Get G obj path\<close> is \<open>obj.Get(path)\<close>; \<open>None\<close> is the result that does not
  exist. A plain path names a member of an object, the first of that name.
\<close>

definition gjson_Get :: "gjson_ext \<Rightarrow> json \<Rightarrow> string \<Rightarrow> json option" where
  "gjson_Get G obj path =
     (if plain_key path then (case obj of JObj kvs \<Rightarrow> map_of kvs path | _ \<Rightarrow> None)
      else path_expr G obj path)"

definition gjson_Exists :: "json option \<Rightarrow> bool" where
  "gjson_Exists r = (r \<noteq> None)"

definition gjson_String :: "gjson_ext \<Rightarrow> json option \<Rightarrow> string" where
  "gjson_String G r =
     (case r of
        None \<Rightarrow> []
      | Some JNull \<Rightarrow> []
      | Some (JStr s) \<Rightarrow> s
      | Some (JBool b) \<Rightarrow> (if b then ''true'' else ''false'')
      | Some v \<Rightarrow> raw_text G v)"

subsection \<open>encoding/json: decoding an object into a struct\<close>

text \<open>
  \<open>foldName\<close> is the case folding under which \<open>encoding/json\<close> matches a key that
  is not exactly a field's name: ASCII letters in upper case, and the two runes that
  fold to an ASCII letter, the Kelvin sign (E2 84 AA) to K and the long s (C5 BF) to S.
  Other bytes beyond ASCII stay as they are: they fold to no ASCII letter, and every
  field name here is ASCII.
\<close>

definition upper :: "char \<Rightarrow> char" where
  "upper c = (if 97 \<le> byte c \<and> byte c \<le> 122 then char_of (byte c - 32) else c)"

fun foldName :: "string \<Rightarrow> string" where
  "foldName [] = []"
| "foldName (c # s) =
     (if c = CHR 0xE2 \<and> take 2 s = [CHR 0x84, CHR 0xAA]
        then CHR ''K'' # foldName (drop 2 s)
      else if c = CHR 0xC5 \<and> take 1 s = [CHR 0xBF]
        then CHR ''S'' # foldName (drop 1 s)
      else upper c # foldName s)"

declare foldName.simps [simp del]

text \<open>
  The kind of a struct field, and a field as \<open>encoding/json\<close> sees it: the name of its
  tag (the Go name when it has none), its kind, and what storing a JSON value in it does
  to the struct; \<open>None\<close> is an error of \<open>json.Unmarshal\<close>.
\<close>

datatype kind = KInt nat | KString | KBool | KStruct | KPtr | KMessage

type_synonym 's decoder = "json \<Rightarrow> 's \<Rightarrow> 's option"

type_synonym 's field = "string \<times> kind \<times> 's decoder"

text \<open>The field of a key: an exact match first, then the first match under folding.\<close>

definition find_field :: "'s field list \<Rightarrow> string \<Rightarrow> 's field option" where
  "find_field fs key =
     (case find (\<lambda>f. fst f = key) fs of
        Some f \<Rightarrow> Some f
      | None \<Rightarrow> find (\<lambda>f. foldName (fst f) = foldName key) fs)"

text \<open>
  The members of the object are stored one after the other; a key with no field is
  skipped, so a later member of a field overwrites an earlier one. \<open>json.Unmarshal\<close>
  returns an error when any member does not fit its field, whatever comes after it.
\<close>

fun unmarshal_object :: "'s field list \<Rightarrow> (string \<times> json) list \<Rightarrow> 's \<Rightarrow> 's option" where
  "unmarshal_object fs [] s = Some s"
| "unmarshal_object fs (kv # kvs) s =
     (case find_field fs (fst kv) of
        None \<Rightarrow> unmarshal_object fs kvs s
      | Some f \<Rightarrow>
          (case snd (snd f) (snd kv) s of
             None \<Rightarrow> None
           | Some s' \<Rightarrow> unmarshal_object fs kvs s'))"

text \<open>
  The decoders by kind. \<open>null\<close> leaves a field that is not a pointer as it is and sets
  a pointer to nil. An integer field takes a literal \<open>strconv.ParseInt\<close> accepts that
  fits its width. A pointer to a struct that is nil is allocated before the object is
  stored in it.
\<close>

definition int_field :: "nat \<Rightarrow> ((int \<Rightarrow> int) \<Rightarrow> 's \<Rightarrow> 's) \<Rightarrow> kind \<times> 's decoder" where
  "int_field bits upd =
     (KInt bits, \<lambda>v s. case v of
        JNull \<Rightarrow> Some s
      | JInt n \<Rightarrow> if - (2 ^ (bits - 1)) \<le> n \<and> n < 2 ^ (bits - 1) then Some (upd (\<lambda>_. n) s) else None
      | _ \<Rightarrow> None)"

definition string_field :: "((string \<Rightarrow> string) \<Rightarrow> 's \<Rightarrow> 's) \<Rightarrow> kind \<times> 's decoder" where
  "string_field upd =
     (KString, \<lambda>v s. case v of
        JNull \<Rightarrow> Some s
      | JStr x \<Rightarrow> Some (upd (\<lambda>_. x) s)
      | _ \<Rightarrow> None)"

definition bool_field :: "((bool \<Rightarrow> bool) \<Rightarrow> 's \<Rightarrow> 's) \<Rightarrow> kind \<times> 's decoder" where
  "bool_field upd =
     (KBool, \<lambda>v s. case v of
        JNull \<Rightarrow> Some s
      | JBool b \<Rightarrow> Some (upd (\<lambda>_. b) s)
      | _ \<Rightarrow> None)"

definition struct_field ::
  "'t field list \<Rightarrow> ('s \<Rightarrow> 't) \<Rightarrow> (('t \<Rightarrow> 't) \<Rightarrow> 's \<Rightarrow> 's) \<Rightarrow> kind \<times> 's decoder" where
  "struct_field fs get upd =
     (KStruct, \<lambda>v s. case v of
        JNull \<Rightarrow> Some s
      | JObj kvs \<Rightarrow> map_option (\<lambda>t. upd (\<lambda>_. t) s) (unmarshal_object fs kvs (get s))
      | _ \<Rightarrow> None)"

definition ptr_field ::
  "'t field list \<Rightarrow> 't \<Rightarrow> ('s \<Rightarrow> 't option) \<Rightarrow> (('t option \<Rightarrow> 't option) \<Rightarrow> 's \<Rightarrow> 's)
   \<Rightarrow> kind \<times> 's decoder" where
  "ptr_field fs zero get upd =
     (KPtr, \<lambda>v s. case v of
        JNull \<Rightarrow> Some (upd (\<lambda>_. None) s)
      | JObj kvs \<Rightarrow>
          map_option (\<lambda>t. upd (\<lambda>_. Some t) s)
            (unmarshal_object fs kvs (case get s of None \<Rightarrow> zero | Some t \<Rightarrow> t))
      | _ \<Rightarrow> None)"

text \<open>
  The message-content type \<open>Message\<close> is not part of these sources. Its operations
  are parameters: how a JSON value is stored in a \<open>Message\<close> (\<open>None\<close> is an error),
  \<open>String()\<close>, its zero value, and whether its content addresses an account.
\<close>

record 'm Message_ops =
  Message_Unmarshal :: "json \<Rightarrow> 'm \<Rightarrow> 'm option"
  Message_String :: "'m \<Rightarrow> string"
  Message_zero :: 'm
  Message_IsToMe :: "'m \<Rightarrow> int \<Rightarrow> bool"

definition message_field ::
  "'m Message_ops \<Rightarrow> ('s \<Rightarrow> 'm) \<Rightarrow> (('m \<Rightarrow> 'm) \<Rightarrow> 's \<Rightarrow> 's) \<Rightarrow> kind \<times> 's decoder" where
  "message_field M get upd =
     (KMessage, \<lambda>v s. map_option (\<lambda>m. upd (\<lambda>_. m) s) (Message_Unmarshal M v (get s)))"

section \<open>The event taxonomy of event.go\<close>

text \<open>
  One record per struct; an embedded struct is the parent record, so its fields are
  promoted as Go promotes them. \<open>int64\<close> and \<open>int32\<close> fields hold an \<open>int\<close>: the
  decoder checks the width, and nothing computes with them. A pointer field is an
  \<open>option\<close>, \<open>None\<close> the nil pointer. The anonymous structs of \<open>Status\<close> and \<open>File\<close>
  are the records \<open>HeartbeatStatus\<close> and \<open>GroupUploadFile\<close>.
\<close>

record Event =
  Time :: int
  SelfId :: int
  PostType :: string
  EventName :: string
  ToMe :: bool

record 'm MessageEvent = Event +
  MessageType :: string
  SubType :: string
  MessageId :: int
  UserId :: int
  Message :: 'm
  RawMessage :: string
  Font :: int

record MessageEventSender =
  UserId :: int
  Nickname :: string
  Sex :: string
  Age :: int

record GroupMessageEventSender = MessageEventSender +
  Card :: string
  Area :: string
  Level :: string
  Role :: string
  Title :: string

record 'm PrivateMessageEvent = "'m MessageEvent" +
  Sender :: "MessageEventSender option"

record Anonymous =
  Id :: int
  Name :: string
  Flag :: string

record 'm GroupMessageEvent = "'m MessageEvent" +
  GroupId :: int
  Sender :: "GroupMessageEventSender option"
  Anonymous :: "Anonymous option"

record LifeCycleMetaEvent = Event +
  MetaEventType :: string
  SubType :: string

record HeartbeatStatus =
  Online :: bool
  Good :: bool

record HeartbeatMetaEvent = Event +
  MetaEventType :: string
  Status :: HeartbeatStatus
  Interval :: int

record NoticeEvent = Event +
  NoticeType :: string

record GroupUploadFile =
  Id :: string
  Name :: string
  Size :: int
  BusId :: string

record GroupUploadNoticeEvent = NoticeEvent +
  GroupId :: int
  UserId :: int
  File :: GroupUploadFile

record GroupAdminNoticeEvent = NoticeEvent +
  SubType :: string
  GroupId :: int
  UserId :: int

record GroupIncreaseNoticeEvent = NoticeEvent +
  SubType :: string
  GroupId :: int
  UserId :: int
  OperatorId :: int

record GroupDecreaseNoticeEvent = NoticeEvent +
  SubType :: string
  GroupId :: int
  UserId :: int
  OperatorId :: int

record GroupBanNoticeEvent = NoticeEvent +
  SubType :: string
  GroupId :: int
  UserId :: int
  OperatorId :: int
  Duration :: int

record FriendAddNoticeEvent = NoticeEvent +
  UserId :: int

record GroupRecallNoticeEvent = NoticeEvent +
  GroupId :: int
  UserId :: int
  OperatorId :: int
  MessageId :: int

record FriendRecallNoticeEvent = NoticeEvent +
  UserId :: int
  MessageId :: int

record PokeNoticeEvent = NoticeEvent +
  SubType :: string
  GroupId :: int
  UserId :: int
  TargetId :: int

record LuckyKingNoticeEvent = NoticeEvent +
  SubType :: string
  GroupId :: int
  UserId :: int
  TargetId :: int

record HonorNoticeEvent = NoticeEvent +
  SubType :: string
  GroupId :: int
  UserId :: int
  HonorType :: string

record FriendRequestEvent = Event +
  RequestType :: string
  UserId :: int
  Comment :: string
  Flag :: string

record GroupRequestEvent = Event +
  RequestType :: string
  SubType :: string
  GroupId :: int
  UserId :: int
  Comment :: string
  Flag :: string

text \<open>The zero value of each struct, as \<open>&T{}\<close> allocates it.\<close>

definition Event_zero :: Event where
  "Event_zero =
     \<lparr>Time = 0, SelfId = 0, PostType = [], EventName = [], ToMe = False\<rparr>"

definition MessageEvent_zero :: "'m Message_ops \<Rightarrow> 'm MessageEvent" where
  "MessageEvent_zero M =
     \<lparr>Time = 0, SelfId = 0, PostType = [], EventName = [], ToMe = False, MessageType = [],
       MessageEvent.SubType = [], MessageEvent.MessageId = 0, MessageEvent.UserId = 0,
       Message = Message_zero M, RawMessage = [], Font = 0\<rparr>"

definition MessageEventSender_zero :: MessageEventSender where
  "MessageEventSender_zero =
     \<lparr>MessageEventSender.UserId = 0, Nickname = [], Sex = [], Age = 0\<rparr>"

definition GroupMessageEventSender_zero :: GroupMessageEventSender where
  "GroupMessageEventSender_zero =
     \<lparr>MessageEventSender.UserId = 0, Nickname = [], Sex = [], Age = 0, Card = [],
       Area = [], Level = [], Role = [], Title = []\<rparr>"

definition PrivateMessageEvent_zero :: "'m Message_ops \<Rightarrow> 'm PrivateMessageEvent" where
  "PrivateMessageEvent_zero M =
     \<lparr>Time = 0, SelfId = 0, PostType = [], EventName = [], ToMe = False, MessageType = [],
       MessageEvent.SubType = [], MessageEvent.MessageId = 0, MessageEvent.UserId = 0,
       Message = Message_zero M, RawMessage = [], Font = 0,
       PrivateMessageEvent.Sender = None\<rparr>"

definition Anonymous_zero :: Anonymous where
  "Anonymous_zero =
     \<lparr>Anonymous.Id = 0, Anonymous.Name = [], Anonymous.Flag = []\<rparr>"

definition GroupMessageEvent_zero :: "'m Message_ops \<Rightarrow> 'm GroupMessageEvent" where
  "GroupMessageEvent_zero M =
     \<lparr>Time = 0, SelfId = 0, PostType = [], EventName = [], ToMe = False, MessageType = [],
       MessageEvent.SubType = [], MessageEvent.MessageId = 0, MessageEvent.UserId = 0,
       Message = Message_zero M, RawMessage = [], Font = 0, GroupMessageEvent.GroupId = 0,
       GroupMessageEvent.Sender = None, Anonymous = None\<rparr>"

definition LifeCycleMetaEvent_zero :: LifeCycleMetaEvent where
  "LifeCycleMetaEvent_zero =
     \<lparr>Time = 0, SelfId = 0, PostType = [], EventName = [], ToMe = False,
       LifeCycleMetaEvent.MetaEventType = [], LifeCycleMetaEvent.SubType = []\<rparr>"

definition HeartbeatStatus_zero :: HeartbeatStatus where
  "HeartbeatStatus_zero =
     \<lparr>Online = False, Good = False\<rparr>"

definition HeartbeatMetaEvent_zero :: HeartbeatMetaEvent where
  "HeartbeatMetaEvent_zero =
     \<lparr>Time = 0, SelfId = 0, PostType = [], EventName = [], ToMe = False,
       HeartbeatMetaEvent.MetaEventType = [], Status = HeartbeatStatus_zero, Interval = 0\<rparr>"

definition NoticeEvent_zero :: NoticeEvent where
  "NoticeEvent_zero =
     \<lparr>Time = 0, SelfId = 0, PostType = [], EventName = [], ToMe = False, NoticeType =
         []\<rparr>"

definition GroupUploadFile_zero :: GroupUploadFile where
  "GroupUploadFile_zero =
     \<lparr>GroupUploadFile.Id = [], GroupUploadFile.Name = [], Size = 0, BusId = []\<rparr>"

definition GroupUploadNoticeEvent_zero :: GroupUploadNoticeEvent where
  "GroupUploadNoticeEvent_zero =
     \<lparr>Time = 0, SelfId = 0, PostType = [], EventName = [], ToMe = False, NoticeType = [],
       GroupUploadNoticeEvent.GroupId = 0, GroupUploadNoticeEvent.UserId = 0,
       File = GroupUploadFile_zero\<rparr>"

definition GroupAdminNoticeEvent_zero :: GroupAdminNoticeEvent where
  "GroupAdminNoticeEvent_zero =
     \<lparr>Time = 0, SelfId = 0, PostType = [], EventName = [], ToMe = False, NoticeType = [],
       GroupAdminNoticeEvent.SubType = [], GroupAdminNoticeEvent.GroupId = 0,
       GroupAdminNoticeEvent.UserId = 0\<rparr>"

definition GroupIncreaseNoticeEvent_zero :: GroupIncreaseNoticeEvent where
  "GroupIncreaseNoticeEvent_zero =
     \<lparr>Time = 0, SelfId = 0, PostType = [], EventName = [], ToMe = False, NoticeType = [],
       GroupIncreaseNoticeEvent.SubType = [], GroupIncreaseNoticeEvent.GroupId = 0,
       GroupIncreaseNoticeEvent.UserId = 0, GroupIncreaseNoticeEvent.OperatorId = 0\<rparr>"

definition GroupDecreaseNoticeEvent_zero :: GroupDecreaseNoticeEvent where
  "GroupDecreaseNoticeEvent_zero =
     \<lparr>Time = 0, SelfId = 0, PostType = [], EventName = [], ToMe = False, NoticeType = [],
       GroupDecreaseNoticeEvent.SubType = [], GroupDecreaseNoticeEvent.GroupId = 0,
       GroupDecreaseNoticeEvent.UserId = 0, GroupDecreaseNoticeEvent.OperatorId = 0\<rparr>"

definition GroupBanNoticeEvent_zero :: GroupBanNoticeEvent where
  "GroupBanNoticeEvent_zero =
     \<lparr>Time = 0, SelfId = 0, PostType = [], EventName = [], ToMe = False, NoticeType = [],
       GroupBanNoticeEvent.SubType = [], GroupBanNoticeEvent.GroupId = 0,
       GroupBanNoticeEvent.UserId = 0, GroupBanNoticeEvent.OperatorId = 0, Duration = 0\<rparr>"

definition FriendAddNoticeEvent_zero :: FriendAddNoticeEvent where
  "FriendAddNoticeEvent_zero =
     \<lparr>Time = 0, SelfId = 0, PostType = [], EventName = [], ToMe = False, NoticeType = [],
       FriendAddNoticeEvent.UserId = 0\<rparr>"

definition GroupRecallNoticeEvent_zero :: GroupRecallNoticeEvent where
  "GroupRecallNoticeEvent_zero =
     \<lparr>Time = 0, SelfId = 0, PostType = [], EventName = [], ToMe = False, NoticeType = [],
       GroupRecallNoticeEvent.GroupId = 0, GroupRecallNoticeEvent.UserId = 0,
       GroupRecallNoticeEvent.OperatorId = 0, GroupRecallNoticeEvent.MessageId = 0\<rparr>"

definition FriendRecallNoticeEvent_zero :: FriendRecallNoticeEvent where
  "FriendRecallNoticeEvent_zero =
     \<lparr>Time = 0, SelfId = 0, PostType = [], EventName = [], ToMe = False, NoticeType = [],
       FriendRecallNoticeEvent.UserId = 0, FriendRecallNoticeEvent.MessageId = 0\<rparr>"

definition PokeNoticeEvent_zero :: PokeNoticeEvent where
  "PokeNoticeEvent_zero =
     \<lparr>Time = 0, SelfId = 0, PostType = [], EventName = [], ToMe = False, NoticeType = [],
       PokeNoticeEvent.SubType = [], PokeNoticeEvent.GroupId = 0,
       PokeNoticeEvent.UserId = 0, PokeNoticeEvent.TargetId = 0\<rparr>"

definition LuckyKingNoticeEvent_zero :: LuckyKingNoticeEvent where
  "LuckyKingNoticeEvent_zero =
     \<lparr>Time = 0, SelfId = 0, PostType = [], EventName = [], ToMe = False, NoticeType = [],
       LuckyKingNoticeEvent.SubType = [], LuckyKingNoticeEvent.GroupId = 0,
       LuckyKingNoticeEvent.UserId = 0, LuckyKingNoticeEvent.TargetId = 0\<rparr>"

definition HonorNoticeEvent_zero :: HonorNoticeEvent where
  "HonorNoticeEvent_zero =
     \<lparr>Time = 0, SelfId = 0, PostType = [], EventName = [], ToMe = False, NoticeType = [],
       HonorNoticeEvent.SubType = [], HonorNoticeEvent.GroupId = 0,
       HonorNoticeEvent.UserId = 0, HonorType = []\<rparr>"

definition FriendRequestEvent_zero :: FriendRequestEvent where
  "FriendRequestEvent_zero =
     \<lparr>Time = 0, SelfId = 0, PostType = [], EventName = [], ToMe = False,
       FriendRequestEvent.RequestType = [], FriendRequestEvent.UserId = 0,
       FriendRequestEvent.Comment = [], FriendRequestEvent.Flag = []\<rparr>"

definition GroupRequestEvent_zero :: GroupRequestEvent where
  "GroupRequestEvent_zero =
     \<lparr>Time = 0, SelfId = 0, PostType = [], EventName = [], ToMe = False,
       GroupRequestEvent.RequestType = [], GroupRequestEvent.SubType = [],
       GroupRequestEvent.GroupId = 0, GroupRequestEvent.UserId = 0,
       GroupRequestEvent.Comment = [], GroupRequestEvent.Flag = []\<rparr>"

text \<open>
  The fields of each struct as \<open>encoding/json\<close> sees them: the promoted fields of the
  embedded struct, then its own, each under the name of its tag. \<open>EventName\<close> and
  \<open>ToMe\<close> are tagged \<open>json:"-"\<close> and are no fields for the decoder. \<open>Sender\<close> of
  \<open>PrivateMessageEvent\<close> has no tag and goes by its Go name.
\<close>

definition Event_fields :: "('a Event_scheme) field list" where
  "Event_fields =
       [(''time'', int_field 64 Time_update),
        (''self_id'', int_field 64 SelfId_update),
        (''post_type'', string_field PostType_update)]"

definition MessageEvent_fields :: "'m Message_ops \<Rightarrow> (('m, 'a) MessageEvent_scheme)
    field list" where
  "MessageEvent_fields M =
     Event_fields @
       [(''message_type'', string_field MessageType_update),
        (''sub_type'', string_field MessageEvent.SubType_update),
        (''message_id'', int_field 32 MessageEvent.MessageId_update),
        (''user_id'', int_field 64 MessageEvent.UserId_update),
        (''message'', message_field M Message Message_update),
        (''raw_message'', string_field RawMessage_update),
        (''font'', int_field 32 Font_update)]"

definition MessageEventSender_fields :: "('a MessageEventSender_scheme) field list" where
  "MessageEventSender_fields =
       [(''user_id'', int_field 64 MessageEventSender.UserId_update),
        (''nickname'', string_field Nickname_update),
        (''sex'', string_field Sex_update),
        (''age'', int_field 32 Age_update)]"

definition GroupMessageEventSender_fields :: "('a GroupMessageEventSender_scheme) field list"
    where
  "GroupMessageEventSender_fields =
     MessageEventSender_fields @
       [(''card'', string_field Card_update),
        (''area'', string_field Area_update),
        (''level'', string_field Level_update),
        (''role'', string_field Role_update),
        (''title'', string_field Title_update)]"

definition PrivateMessageEvent_fields :: "'m Message_ops \<Rightarrow> (('m, 'a)
    PrivateMessageEvent_scheme) field list" where
  "PrivateMessageEvent_fields M =
     MessageEvent_fields M @
       [(''Sender'', ptr_field MessageEventSender_fields MessageEventSender_zero
           PrivateMessageEvent.Sender PrivateMessageEvent.Sender_update)]"

definition Anonymous_fields :: "('a Anonymous_scheme) field list" where
  "Anonymous_fields =
       [(''id'', int_field 64 Anonymous.Id_update),
        (''name'', string_field Anonymous.Name_update),
        (''flag'', string_field Anonymous.Flag_update)]"

definition GroupMessageEvent_fields :: "'m Message_ops \<Rightarrow> (('m, 'a)
    GroupMessageEvent_scheme) field list" where
  "GroupMessageEvent_fields M =
     MessageEvent_fields M @
       [(''group_id'', int_field 64 GroupMessageEvent.GroupId_update),
        (''sender'', ptr_field GroupMessageEventSender_fields GroupMessageEventSender_zero
            GroupMessageEvent.Sender GroupMessageEvent.Sender_update),
        (''anonymous'', ptr_field Anonymous_fields Anonymous_zero Anonymous Anonymous_update)]"

definition LifeCycleMetaEvent_fields :: "('a LifeCycleMetaEvent_scheme) field list" where
  "LifeCycleMetaEvent_fields =
     Event_fields @
       [(''meta_event_type'', string_field LifeCycleMetaEvent.MetaEventType_update),
        (''sub_type'', string_field LifeCycleMetaEvent.SubType_update)]"

definition HeartbeatStatus_fields :: "('a HeartbeatStatus_scheme) field list" where
  "HeartbeatStatus_fields =
       [(''online'', bool_field Online_update),
        (''good'', bool_field Good_update)]"

definition HeartbeatMetaEvent_fields :: "('a HeartbeatMetaEvent_scheme) field list" where
  "HeartbeatMetaEvent_fields =
     Event_fields @
       [(''meta_event_type'', string_field HeartbeatMetaEvent.MetaEventType_update),
        (''status'', struct_field HeartbeatStatus_fields Status Status_update),
        (''interval'', int_field 64 Interval_update)]"

definition NoticeEvent_fields :: "('a NoticeEvent_scheme) field list" where
  "NoticeEvent_fields =
     Event_fields @
       [(''notice_type'', string_field NoticeType_update)]"

definition GroupUploadFile_fields :: "('a GroupUploadFile_scheme) field list" where
  "GroupUploadFile_fields =
       [(''id'', string_field GroupUploadFile.Id_update),
        (''name'', string_field GroupUploadFile.Name_update),
        (''size'', int_field 64 Size_update),
        (''bus_id'', string_field BusId_update)]"

definition GroupUploadNoticeEvent_fields :: "('a GroupUploadNoticeEvent_scheme) field list" where
  "GroupUploadNoticeEvent_fields =
     NoticeEvent_fields @
       [(''group_id'', int_field 64 GroupUploadNoticeEvent.GroupId_update),
        (''user_id'', int_field 64 GroupUploadNoticeEvent.UserId_update),
        (''file'', struct_field GroupUploadFile_fields File File_update)]"

definition GroupAdminNoticeEvent_fields :: "('a GroupAdminNoticeEvent_scheme) field list" where
  "GroupAdminNoticeEvent_fields =
     NoticeEvent_fields @
       [(''sub_type'', string_field GroupAdminNoticeEvent.SubType_update),
        (''group_id'', int_field 64 GroupAdminNoticeEvent.GroupId_update),
        (''user_id'', int_field 64 GroupAdminNoticeEvent.UserId_update)]"

definition GroupIncreaseNoticeEvent_fields :: "('a GroupIncreaseNoticeEvent_scheme) field list"
    where
  "GroupIncreaseNoticeEvent_fields =
     NoticeEvent_fields @
       [(''sub_type'', string_field GroupIncreaseNoticeEvent.SubType_update),
        (''group_id'', int_field 64 GroupIncreaseNoticeEvent.GroupId_update),
        (''user_id'', int_field 64 GroupIncreaseNoticeEvent.UserId_update),
        (''operator_id'', int_field 64 GroupIncreaseNoticeEvent.OperatorId_update)]"

definition GroupDecreaseNoticeEvent_fields :: "('a GroupDecreaseNoticeEvent_scheme) field list"
    where
  "GroupDecreaseNoticeEvent_fields =
     NoticeEvent_fields @
       [(''sub_type'', string_field GroupDecreaseNoticeEvent.SubType_update),
        (''group_id'', int_field 64 GroupDecreaseNoticeEvent.GroupId_update),
        (''user_id'', int_field 64 GroupDecreaseNoticeEvent.UserId_update),
        (''operator_id'', int_field 64 GroupDecreaseNoticeEvent.OperatorId_update)]"

definition GroupBanNoticeEvent_fields :: "('a GroupBanNoticeEvent_scheme) field list" where
  "GroupBanNoticeEvent_fields =
     NoticeEvent_fields @
       [(''sub_type'', string_field GroupBanNoticeEvent.SubType_update),
        (''group_id'', int_field 64 GroupBanNoticeEvent.GroupId_update),
        (''user_id'', int_field 64 GroupBanNoticeEvent.UserId_update),
        (''operator_id'', int_field 64 GroupBanNoticeEvent.OperatorId_update),
        (''duration'', int_field 64 Duration_update)]"

definition FriendAddNoticeEvent_fields :: "('a FriendAddNoticeEvent_scheme) field list" where
  "FriendAddNoticeEvent_fields =
     NoticeEvent_fields @
       [(''user_id'', int_field 64 FriendAddNoticeEvent.UserId_update)]"

definition GroupRecallNoticeEvent_fields :: "('a GroupRecallNoticeEvent_scheme) field list" where
  "GroupRecallNoticeEvent_fields =
     NoticeEvent_fields @
       [(''group_id'', int_field 64 GroupRecallNoticeEvent.GroupId_update),
        (''user_id'', int_field 64 GroupRecallNoticeEvent.UserId_update),
        (''operator_id'', int_field 64 GroupRecallNoticeEvent.OperatorId_update),
        (''message_id'', int_field 64 GroupRecallNoticeEvent.MessageId_update)]"

definition FriendRecallNoticeEvent_fields :: "('a FriendRecallNoticeEvent_scheme) field list"
    where
  "FriendRecallNoticeEvent_fields =
     NoticeEvent_fields @
       [(''user_id'', int_field 64 FriendRecallNoticeEvent.UserId_update),
        (''message_id'', int_field 64 FriendRecallNoticeEvent.MessageId_update)]"

definition PokeNoticeEvent_fields :: "('a PokeNoticeEvent_scheme) field list" where
  "PokeNoticeEvent_fields =
     NoticeEvent_fields @
       [(''sub_type'', string_field PokeNoticeEvent.SubType_update),
        (''group_id'', int_field 64 PokeNoticeEvent.GroupId_update),
        (''user_id'', int_field 64 PokeNoticeEvent.UserId_update),
        (''target_id'', int_field 64 PokeNoticeEvent.TargetId_update)]"

definition LuckyKingNoticeEvent_fields :: "('a LuckyKingNoticeEvent_scheme) field list" where
  "LuckyKingNoticeEvent_fields =
     NoticeEvent_fields @
       [(''sub_type'', string_field LuckyKingNoticeEvent.SubType_update),
        (''group_id'', int_field 64 LuckyKingNoticeEvent.GroupId_update),
        (''user_id'', int_field 64 LuckyKingNoticeEvent.UserId_update),
        (''target_id'', int_field 64 LuckyKingNoticeEvent.TargetId_update)]"

definition HonorNoticeEvent_fields :: "('a HonorNoticeEvent_scheme) field list" where
  "HonorNoticeEvent_fields =
     NoticeEvent_fields @
       [(''sub_type'', string_field HonorNoticeEvent.SubType_update),
        (''group_id'', int_field 64 HonorNoticeEvent.GroupId_update),
        (''user_id'', int_field 64 HonorNoticeEvent.UserId_update),
        (''honor_type'', string_field HonorType_update)]"

definition FriendRequestEvent_fields :: "('a FriendRequestEvent_scheme) field list" where
  "FriendRequestEvent_fields =
     Event_fields @
       [(''request_type'', string_field FriendRequestEvent.RequestType_update),
        (''user_id'', int_field 64 FriendRequestEvent.UserId_update),
        (''comment'', string_field FriendRequestEvent.Comment_update),
        (''flag'', string_field FriendRequestEvent.Flag_update)]"

definition GroupRequestEvent_fields :: "('a GroupRequestEvent_scheme) field list" where
  "GroupRequestEvent_fields =
     Event_fields @
       [(''request_type'', string_field GroupRequestEvent.RequestType_update),
        (''sub_type'', string_field GroupRequestEvent.SubType_update),
        (''group_id'', int_field 64 GroupRequestEvent.GroupId_update),
        (''user_id'', int_field 64 GroupRequestEvent.UserId_update),
        (''comment'', string_field GroupRequestEvent.Comment_update),
        (''flag'', string_field GroupRequestEvent.Flag_update)]"

text \<open>
  An \<open>I_Event\<close> is one of the seventeen pointer types the switch of
  \<open>convertJsonObjectToEvent\<close> allocates; the nil interface is \<open>None\<close> of
  \<open>'m I_Event option\<close>.
\<close>

datatype 'm I_Event =
    I_PrivateMessageEvent "'m PrivateMessageEvent"
  | I_GroupMessageEvent "'m GroupMessageEvent"
  | I_GroupUploadNoticeEvent GroupUploadNoticeEvent
  | I_GroupAdminNoticeEvent GroupAdminNoticeEvent
  | I_GroupDecreaseNoticeEvent GroupDecreaseNoticeEvent
  | I_GroupIncreaseNoticeEvent GroupIncreaseNoticeEvent
  | I_GroupBanNoticeEvent GroupBanNoticeEvent
  | I_FriendAddNoticeEvent FriendAddNoticeEvent
  | I_GroupRecallNoticeEvent GroupRecallNoticeEvent
  | I_FriendRecallNoticeEvent FriendRecallNoticeEvent
  | I_PokeNoticeEvent PokeNoticeEvent
  | I_LuckyKingNoticeEvent LuckyKingNoticeEvent
  | I_HonorNoticeEvent HonorNoticeEvent
  | I_FriendRequestEvent FriendRequestEvent
  | I_GroupRequestEvent GroupRequestEvent
  | I_LifeCycleMetaEvent LifeCycleMetaEvent
  | I_HeartbeatMetaEvent HeartbeatMetaEvent

text \<open>
  \<open>newEvent\<close> is the switch of \<open>convertJsonObjectToEvent\<close>, and of \<open>FromJsonObject\<close>
  alike: the value of \<open>ev\<close> after it. The inner switch on \<open>subType\<close> has no default
  case, so \<open>ev\<close> stays the nil interface there.
\<close>

definition newEvent :: "'m Message_ops \<Rightarrow> string \<Rightarrow> string \<Rightarrow>
    panic + 'm I_Event option" where
  "newEvent M typeName subType =
     (if typeName = ''message.private'' then
        Inr (Some (I_PrivateMessageEvent (PrivateMessageEvent_zero M)))
      else if typeName = ''message.group'' then
        Inr (Some (I_GroupMessageEvent (GroupMessageEvent_zero M)))
      else if typeName = ''notice.group_upload'' then
        Inr (Some (I_GroupUploadNoticeEvent GroupUploadNoticeEvent_zero))
      else if typeName = ''notice.group_admin'' then
        Inr (Some (I_GroupAdminNoticeEvent GroupAdminNoticeEvent_zero))
      else if typeName = ''notice.group_decrease'' then
        Inr (Some (I_GroupDecreaseNoticeEvent GroupDecreaseNoticeEvent_zero))
      else if typeName = ''notice.group_increase'' then
        Inr (Some (I_GroupIncreaseNoticeEvent GroupIncreaseNoticeEvent_zero))
      else if typeName = ''notice.group_ban'' then
        Inr (Some (I_GroupBanNoticeEvent GroupBanNoticeEvent_zero))
      else if typeName = ''notice.friend_add'' then
        Inr (Some (I_FriendAddNoticeEvent FriendAddNoticeEvent_zero))
      else if typeName = ''notice.group_recall'' then
        Inr (Some (I_GroupRecallNoticeEvent GroupRecallNoticeEvent_zero))
      else if typeName = ''notice.friend_recall'' then
        Inr (Some (I_FriendRecallNoticeEvent FriendRecallNoticeEvent_zero))
      else if typeName = ''notice.notify'' then
        (if subType = ''poke'' then Inr (Some (I_PokeNoticeEvent PokeNoticeEvent_zero))
         else if subType = ''lucky_king'' then Inr (Some (I_LuckyKingNoticeEvent
             LuckyKingNoticeEvent_zero))
         else if subType = ''honor'' then Inr (Some (I_HonorNoticeEvent HonorNoticeEvent_zero))
         else Inr None)
      else if typeName = ''request.friend'' then
        Inr (Some (I_FriendRequestEvent FriendRequestEvent_zero))
      else if typeName = ''request.group'' then
        Inr (Some (I_GroupRequestEvent GroupRequestEvent_zero))
      else if typeName = ''meta_event.lifecycle'' then
        Inr (Some (I_LifeCycleMetaEvent LifeCycleMetaEvent_zero))
      else if typeName = ''meta_event.heartbeat'' then
        Inr (Some (I_HeartbeatMetaEvent HeartbeatMetaEvent_zero))
      else Inl (PanicString (''unknown event type: '' @ typeName)))"

text \<open>
  \<open>json_Unmarshal M obj ev\<close> is \<open>json.Unmarshal([]byte(obj.Raw), ev)\<close> with the event
  it has filled. A nil \<open>ev\<close> is an \<open>InvalidUnmarshalError\<close>; \<open>null\<close> leaves the struct
  as it is; a document that is neither an object nor \<open>null\<close> does not fit a struct.
\<close>

fun unmarshal_struct :: "'m Message_ops \<Rightarrow> (string \<times> json) list \<Rightarrow>
    'm I_Event \<Rightarrow> 'm I_Event option" where
  "unmarshal_struct M kvs (I_PrivateMessageEvent e) = map_option I_PrivateMessageEvent
      (unmarshal_object (PrivateMessageEvent_fields M) kvs e)"
| "unmarshal_struct M kvs (I_GroupMessageEvent e) = map_option I_GroupMessageEvent
    (unmarshal_object (GroupMessageEvent_fields M) kvs e)"
| "unmarshal_struct M kvs (I_GroupUploadNoticeEvent e) = map_option I_GroupUploadNoticeEvent
    (unmarshal_object GroupUploadNoticeEvent_fields kvs e)"
| "unmarshal_struct M kvs (I_GroupAdminNoticeEvent e) = map_option I_GroupAdminNoticeEvent
    (unmarshal_object GroupAdminNoticeEvent_fields kvs e)"
| "unmarshal_struct M kvs (I_GroupDecreaseNoticeEvent e) = map_option I_GroupDecreaseNoticeEvent
    (unmarshal_object GroupDecreaseNoticeEvent_fields kvs e)"
| "unmarshal_struct M kvs (I_GroupIncreaseNoticeEvent e) = map_option I_GroupIncreaseNoticeEvent
    (unmarshal_object GroupIncreaseNoticeEvent_fields kvs e)"
| "unmarshal_struct M kvs (I_GroupBanNoticeEvent e) = map_option I_GroupBanNoticeEvent
    (unmarshal_object GroupBanNoticeEvent_fields kvs e)"
| "unmarshal_struct M kvs (I_FriendAddNoticeEvent e) = map_option I_FriendAddNoticeEvent
    (unmarshal_object FriendAddNoticeEvent_fields kvs e)"
| "unmarshal_struct M kvs (I_GroupRecallNoticeEvent e) = map_option I_GroupRecallNoticeEvent
    (unmarshal_object GroupRecallNoticeEvent_fields kvs e)"
| "unmarshal_struct M kvs (I_FriendRecallNoticeEvent e) = map_option I_FriendRecallNoticeEvent
    (unmarshal_object FriendRecallNoticeEvent_fields kvs e)"
| "unmarshal_struct M kvs (I_PokeNoticeEvent e) = map_option I_PokeNoticeEvent (unmarshal_object
    PokeNoticeEvent_fields kvs e)"
| "unmarshal_struct M kvs (I_LuckyKingNoticeEvent e) = map_option I_LuckyKingNoticeEvent
    (unmarshal_object LuckyKingNoticeEvent_fields kvs e)"
| "unmarshal_struct M kvs (I_HonorNoticeEvent e) = map_option I_HonorNoticeEvent
    (unmarshal_object HonorNoticeEvent_fields kvs e)"
| "unmarshal_struct M kvs (I_FriendRequestEvent e) = map_option I_FriendRequestEvent
    (unmarshal_object FriendRequestEvent_fields kvs e)"
| "unmarshal_struct M kvs (I_GroupRequestEvent e) = map_option I_GroupRequestEvent
    (unmarshal_object GroupRequestEvent_fields kvs e)"
| "unmarshal_struct M kvs (I_LifeCycleMetaEvent e) = map_option I_LifeCycleMetaEvent
    (unmarshal_object LifeCycleMetaEvent_fields kvs e)"
| "unmarshal_struct M kvs (I_HeartbeatMetaEvent e) = map_option I_HeartbeatMetaEvent
    (unmarshal_object HeartbeatMetaEvent_fields kvs e)"

definition json_Unmarshal ::
  "'m Message_ops \<Rightarrow> json \<Rightarrow> 'm I_Event option \<Rightarrow> json_error +
      'm I_Event" where
  "json_Unmarshal M obj ev =
     (case ev of
        None \<Rightarrow> Inl InvalidUnmarshalError
      | Some e \<Rightarrow>
          (case obj of
             JObj kvs \<Rightarrow>
               (case unmarshal_struct M kvs e of None \<Rightarrow> Inl UnmarshalFailed | Some e'
                   \<Rightarrow> Inr e')
           | JNull \<Rightarrow> Inr e
           | _ \<Rightarrow> Inl UnmarshalFailed))"

text \<open>
  Modelled from the spec: \<open>setEventField\<close>, which event.go calls and these sources do not
  hold. The spec (4.3) has the enricher set the derived field by name, overwriting what
  is there, as \<open>FromJsonObject\<close> does with \<open>reflect\<close>. One function per field it is
  called with.
\<close>

fun setEventField_EventName :: "'m I_Event \<Rightarrow> string \<Rightarrow> 'm I_Event" where
  "setEventField_EventName (I_PrivateMessageEvent e) x = I_PrivateMessageEvent
      (e\<lparr>EventName := x\<rparr>)"
| "setEventField_EventName (I_GroupMessageEvent e) x = I_GroupMessageEvent (e\<lparr>EventName :=
    x\<rparr>)"
| "setEventField_EventName (I_GroupUploadNoticeEvent e) x = I_GroupUploadNoticeEvent
    (e\<lparr>EventName := x\<rparr>)"
| "setEventField_EventName (I_GroupAdminNoticeEvent e) x = I_GroupAdminNoticeEvent
    (e\<lparr>EventName := x\<rparr>)"
| "setEventField_EventName (I_GroupDecreaseNoticeEvent e) x = I_GroupDecreaseNoticeEvent
    (e\<lparr>EventName := x\<rparr>)"
| "setEventField_EventName (I_GroupIncreaseNoticeEvent e) x = I_GroupIncreaseNoticeEvent
    (e\<lparr>EventName := x\<rparr>)"
| "setEventField_EventName (I_GroupBanNoticeEvent e) x = I_GroupBanNoticeEvent
    (e\<lparr>EventName := x\<rparr>)"
| "setEventField_EventName (I_FriendAddNoticeEvent e) x = I_FriendAddNoticeEvent
    (e\<lparr>EventName := x\<rparr>)"
| "setEventField_EventName (I_GroupRecallNoticeEvent e) x = I_GroupRecallNoticeEvent
    (e\<lparr>EventName := x\<rparr>)"
| "setEventField_EventName (I_FriendRecallNoticeEvent e) x = I_FriendRecallNoticeEvent
    (e\<lparr>EventName := x\<rparr>)"
| "setEventField_EventName (I_PokeNoticeEvent e) x = I_PokeNoticeEvent (e\<lparr>EventName :=
    x\<rparr>)"
| "setEventField_EventName (I_LuckyKingNoticeEvent e) x = I_LuckyKingNoticeEvent
    (e\<lparr>EventName := x\<rparr>)"
| "setEventField_EventName (I_HonorNoticeEvent e) x = I_HonorNoticeEvent (e\<lparr>EventName :=
    x\<rparr>)"
| "setEventField_EventName (I_FriendRequestEvent e) x = I_FriendRequestEvent (e\<lparr>EventName
    := x\<rparr>)"
| "setEventField_EventName (I_GroupRequestEvent e) x = I_GroupRequestEvent (e\<lparr>EventName :=
    x\<rparr>)"
| "setEventField_EventName (I_LifeCycleMetaEvent e) x = I_LifeCycleMetaEvent (e\<lparr>EventName
    := x\<rparr>)"
| "setEventField_EventName (I_HeartbeatMetaEvent e) x = I_HeartbeatMetaEvent (e\<lparr>EventName
    := x\<rparr>)"

fun setEventField_ToMe :: "'m I_Event \<Rightarrow> bool \<Rightarrow> 'm I_Event" where
  "setEventField_ToMe (I_PrivateMessageEvent e) x = I_PrivateMessageEvent (e\<lparr>ToMe :=
      x\<rparr>)"
| "setEventField_ToMe (I_GroupMessageEvent e) x = I_GroupMessageEvent (e\<lparr>ToMe :=
    x\<rparr>)"
| "setEventField_ToMe (I_GroupUploadNoticeEvent e) x = I_GroupUploadNoticeEvent (e\<lparr>ToMe :=
    x\<rparr>)"
| "setEventField_ToMe (I_GroupAdminNoticeEvent e) x = I_GroupAdminNoticeEvent (e\<lparr>ToMe :=
    x\<rparr>)"
| "setEventField_ToMe (I_GroupDecreaseNoticeEvent e) x = I_GroupDecreaseNoticeEvent
    (e\<lparr>ToMe := x\<rparr>)"
| "setEventField_ToMe (I_GroupIncreaseNoticeEvent e) x = I_GroupIncreaseNoticeEvent
    (e\<lparr>ToMe := x\<rparr>)"
| "setEventField_ToMe (I_GroupBanNoticeEvent e) x = I_GroupBanNoticeEvent (e\<lparr>ToMe :=
    x\<rparr>)"
| "setEventField_ToMe (I_FriendAddNoticeEvent e) x = I_FriendAddNoticeEvent (e\<lparr>ToMe :=
    x\<rparr>)"
| "setEventField_ToMe (I_GroupRecallNoticeEvent e) x = I_GroupRecallNoticeEvent (e\<lparr>ToMe :=
    x\<rparr>)"
| "setEventField_ToMe (I_FriendRecallNoticeEvent e) x = I_FriendRecallNoticeEvent (e\<lparr>ToMe
    := x\<rparr>)"
| "setEventField_ToMe (I_PokeNoticeEvent e) x = I_PokeNoticeEvent (e\<lparr>ToMe := x\<rparr>)"
| "setEventField_ToMe (I_LuckyKingNoticeEvent e) x = I_LuckyKingNoticeEvent (e\<lparr>ToMe :=
    x\<rparr>)"
| "setEventField_ToMe (I_HonorNoticeEvent e) x = I_HonorNoticeEvent (e\<lparr>ToMe := x\<rparr>)"
| "setEventField_ToMe (I_FriendRequestEvent e) x = I_FriendRequestEvent (e\<lparr>ToMe :=
    x\<rparr>)"
| "setEventField_ToMe (I_GroupRequestEvent e) x = I_GroupRequestEvent (e\<lparr>ToMe :=
    x\<rparr>)"
| "setEventField_ToMe (I_LifeCycleMetaEvent e) x = I_LifeCycleMetaEvent (e\<lparr>ToMe :=
    x\<rparr>)"
| "setEventField_ToMe (I_HeartbeatMetaEvent e) x = I_HeartbeatMetaEvent (e\<lparr>ToMe :=
    x\<rparr>)"

text \<open>The embedded \<open>Event\<close> of an event, on which the methods of \<open>*Event\<close> work.\<close>

fun Event_of :: "'m I_Event \<Rightarrow> Event" where
  "Event_of (I_PrivateMessageEvent e) = Event.truncate e"
| "Event_of (I_GroupMessageEvent e) = Event.truncate e"
| "Event_of (I_GroupUploadNoticeEvent e) = Event.truncate e"
| "Event_of (I_GroupAdminNoticeEvent e) = Event.truncate e"
| "Event_of (I_GroupDecreaseNoticeEvent e) = Event.truncate e"
| "Event_of (I_GroupIncreaseNoticeEvent e) = Event.truncate e"
| "Event_of (I_GroupBanNoticeEvent e) = Event.truncate e"
| "Event_of (I_FriendAddNoticeEvent e) = Event.truncate e"
| "Event_of (I_GroupRecallNoticeEvent e) = Event.truncate e"
| "Event_of (I_FriendRecallNoticeEvent e) = Event.truncate e"
| "Event_of (I_PokeNoticeEvent e) = Event.truncate e"
| "Event_of (I_LuckyKingNoticeEvent e) = Event.truncate e"
| "Event_of (I_HonorNoticeEvent e) = Event.truncate e"
| "Event_of (I_FriendRequestEvent e) = Event.truncate e"
| "Event_of (I_GroupRequestEvent e) = Event.truncate e"
| "Event_of (I_LifeCycleMetaEvent e) = Event.truncate e"
| "Event_of (I_HeartbeatMetaEvent e) = Event.truncate e"

definition GetPostType :: "'m I_Event \<Rightarrow> string" where
  "GetPostType ev = PostType (Event_of ev)"

definition GetEventName :: "'m I_Event \<Rightarrow> string" where
  "GetEventName ev = EventName (Event_of ev)"

definition IsMessageEvent :: "'m I_Event \<Rightarrow> bool" where
  "IsMessageEvent ev = (PostType (Event_of ev) = ''message'')"

definition IsToMe :: "'m I_Event \<Rightarrow> bool" where
  "IsToMe ev = ToMe (Event_of ev)"

text \<open>The dynamic type of an event: which struct the interface value points to.\<close>

datatype event_type =
    T_PrivateMessageEvent
  | T_GroupMessageEvent
  | T_GroupUploadNoticeEvent
  | T_GroupAdminNoticeEvent
  | T_GroupDecreaseNoticeEvent
  | T_GroupIncreaseNoticeEvent
  | T_GroupBanNoticeEvent
  | T_FriendAddNoticeEvent
  | T_GroupRecallNoticeEvent
  | T_FriendRecallNoticeEvent
  | T_PokeNoticeEvent
  | T_LuckyKingNoticeEvent
  | T_HonorNoticeEvent
  | T_FriendRequestEvent
  | T_GroupRequestEvent
  | T_LifeCycleMetaEvent
  | T_HeartbeatMetaEvent

fun TypeOf :: "'m I_Event \<Rightarrow> event_type" where
  "TypeOf (I_PrivateMessageEvent e) = T_PrivateMessageEvent"
| "TypeOf (I_GroupMessageEvent e) = T_GroupMessageEvent"
| "TypeOf (I_GroupUploadNoticeEvent e) = T_GroupUploadNoticeEvent"
| "TypeOf (I_GroupAdminNoticeEvent e) = T_GroupAdminNoticeEvent"
| "TypeOf (I_GroupDecreaseNoticeEvent e) = T_GroupDecreaseNoticeEvent"
| "TypeOf (I_GroupIncreaseNoticeEvent e) = T_GroupIncreaseNoticeEvent"
| "TypeOf (I_GroupBanNoticeEvent e) = T_GroupBanNoticeEvent"
| "TypeOf (I_FriendAddNoticeEvent e) = T_FriendAddNoticeEvent"
| "TypeOf (I_GroupRecallNoticeEvent e) = T_GroupRecallNoticeEvent"
| "TypeOf (I_FriendRecallNoticeEvent e) = T_FriendRecallNoticeEvent"
| "TypeOf (I_PokeNoticeEvent e) = T_PokeNoticeEvent"
| "TypeOf (I_LuckyKingNoticeEvent e) = T_LuckyKingNoticeEvent"
| "TypeOf (I_HonorNoticeEvent e) = T_HonorNoticeEvent"
| "TypeOf (I_FriendRequestEvent e) = T_FriendRequestEvent"
| "TypeOf (I_GroupRequestEvent e) = T_GroupRequestEvent"
| "TypeOf (I_LifeCycleMetaEvent e) = T_LifeCycleMetaEvent"
| "TypeOf (I_HeartbeatMetaEvent e) = T_HeartbeatMetaEvent"

section \<open>Decoding: convertJsonObjectToEvent\<close>

text \<open>
  The local variables of \<open>convertJsonObjectToEvent\<close>, each a function of the payload;
  \<open>fmt.Sprintf("%s.%s", a, b)\<close> is \<open>a @ ''.'' @ b\<close>.
\<close>

definition postType_of :: "gjson_ext \<Rightarrow> json \<Rightarrow> string" where
  "postType_of G obj = gjson_String G (gjson_Get G obj ''post_type'')"

definition nextType_of :: "gjson_ext \<Rightarrow> json \<Rightarrow> string" where
  "nextType_of G obj = gjson_String G (gjson_Get G obj (postType_of G obj @ ''_type''))"

definition typeName_of :: "gjson_ext \<Rightarrow> json \<Rightarrow> string" where
  "typeName_of G obj = postType_of G obj @ ''.'' @ nextType_of G obj"

definition subType_of :: "gjson_ext \<Rightarrow> json \<Rightarrow> string" where
  "subType_of G obj =
     (if gjson_Exists (gjson_Get G obj ''sub_type'')
      then gjson_String G (gjson_Get G obj ''sub_type'') else [])"

definition fullTypeName_of :: "gjson_ext \<Rightarrow> json \<Rightarrow> string" where
  "fullTypeName_of G obj =
     (if gjson_Exists (gjson_Get G obj ''sub_type'')
      then typeName_of G obj @ ''.'' @ subType_of G obj else typeName_of G obj)"

text \<open>
  \<open>convertJsonObjectToEvent\<close>: the switch, the decoding, then the enrichment. A panic
  is \<open>Inl\<close>. \<open>isEventRelativeToBot\<close>, which these sources do not hold, is a parameter:
  any predicate on the decoded event.
\<close>

definition convertJsonObjectToEvent ::
  "gjson_ext \<Rightarrow> 'm Message_ops \<Rightarrow> ('m I_Event \<Rightarrow> bool) \<Rightarrow> json \<Rightarrow> panic + 'm I_Event" where
  "convertJsonObjectToEvent G M isEventRelativeToBot obj =
     (case newEvent M (typeName_of G obj) (subType_of G obj) of
        Inl p \<Rightarrow> Inl p
      | Inr ev0 \<Rightarrow>
          (case json_Unmarshal M obj ev0 of
             Inl err \<Rightarrow> Inl (PanicError err)
           | Inr ev1 \<Rightarrow>
               (let ev2 = setEventField_EventName ev1 (fullTypeName_of G obj)
                in Inr (if isEventRelativeToBot ev2 then setEventField_ToMe ev2 True else ev2))))"

text \<open>
  \<open>FromJsonObject\<close> of the older copy of the file (package \<open>event\<close>) has the same
  switch and decoding, and sets \<open>EventName\<close> through \<open>reflect\<close> itself; its \<open>Event\<close>
  has no \<open>ToMe\<close>, which stays false here.
\<close>

definition FromJsonObject :: "gjson_ext \<Rightarrow> 'm Message_ops \<Rightarrow> json \<Rightarrow> panic + 'm I_Event" where
  "FromJsonObject G M obj =
     (case newEvent M (typeName_of G obj) (subType_of G obj) of
        Inl p \<Rightarrow> Inl p
      | Inr ev0 \<Rightarrow>
          (case json_Unmarshal M obj ev0 of
             Inl err \<Rightarrow> Inl (PanicError err)
           | Inr ev1 \<Rightarrow> Inr (setEventField_EventName ev1 (fullTypeName_of G obj))))"

text \<open>
  Modelled from the spec: \<open>isEventRelativeToBot\<close>, which these sources do not hold. The
  spec (4.3) sets \<open>toMe\<close> for a private message, a group message whose content
  addresses \<open>selfId\<close> (the message adapter decides), a group decrease whose user is
  \<open>selfId\<close>, a poke whose target is \<open>selfId\<close>, a friend add and every request, and for
  nothing else.
\<close>

fun isEventRelativeToBot :: "'m Message_ops \<Rightarrow> 'm I_Event \<Rightarrow> bool" where
  "isEventRelativeToBot M (I_PrivateMessageEvent e) = True"
| "isEventRelativeToBot M (I_GroupMessageEvent e) = Message_IsToMe M (Message e) (SelfId e)"
| "isEventRelativeToBot M (I_GroupDecreaseNoticeEvent e) =
     (GroupDecreaseNoticeEvent.UserId e = SelfId e)"
| "isEventRelativeToBot M (I_PokeNoticeEvent e) = (PokeNoticeEvent.TargetId e = SelfId e)"
| "isEventRelativeToBot M (I_FriendAddNoticeEvent e) = True"
| "isEventRelativeToBot M (I_FriendRequestEvent e) = True"
| "isEventRelativeToBot M (I_GroupRequestEvent e) = True"
| "isEventRelativeToBot M _ = False"

section \<open>The methods of the message events\<close>

definition MessageEvent_GetSessionId :: "('m, 'a) MessageEvent_scheme \<Rightarrow> string" where
  "MessageEvent_GetSessionId e = itoa (MessageEvent.UserId e)"

definition GroupMessageEvent_GetSessionId :: "('m, 'a) GroupMessageEvent_scheme \<Rightarrow> string" where
  "GroupMessageEvent_GetSessionId e =
     itoa (MessageEvent.UserId e) @ ''@'' @ itoa (GroupMessageEvent.GroupId e)"

text \<open>
  \<open>GetSessionId\<close> through the interface \<open>I_MessageEvent\<close>: \<open>*PrivateMessageEvent\<close> has
  the method of the embedded \<open>MessageEvent\<close>, \<open>*GroupMessageEvent\<close> its own; the other
  events do not have the method (\<open>None\<close>).
\<close>

fun GetSessionId :: "'m I_Event \<Rightarrow> string option" where
  "GetSessionId (I_PrivateMessageEvent e) = Some (MessageEvent_GetSessionId e)"
| "GetSessionId (I_GroupMessageEvent e) = Some (GroupMessageEvent_GetSessionId e)"
| "GetSessionId _ = None"

text \<open>
  The preview of a message in both \<open>GetEventDescription\<close> methods: beyond 100 runes,
  the first 50, the marker with the count, the last 50; then every newline escaped.
  The marker's literal is written in its UTF-8 bytes.
\<close>

definition elision :: "int \<Rightarrow> string" where
  "elision n =
     ''...('' @ [CHR 0xE7, CHR 0x9C, CHR 0x81, CHR 0xE7, CHR 0x95, CHR 0xA5] @ itoa n
     @ [CHR 0xE4, CHR 0xB8, CHR 0xAA, CHR 0xE5, CHR 0xAD, CHR 0x97, CHR 0xE7, CHR 0xAC, CHR 0xA6]
     @ '')...''"

definition truncate_msg :: "string \<Rightarrow> panic + string" where
  "truncate_msg msg =
     (let msgRune = runes msg in
      if 100 < int (length msgRune) then
        (case slice_to msgRune 50 of
           Inl p \<Rightarrow> Inl p
         | Inr front \<Rightarrow>
             (case slice_from msgRune (int (length msgRune) - 50) of
                Inl p \<Rightarrow> Inl p
              | Inr back \<Rightarrow>
                  Inr (string_of_runes front @ elision (int (length msgRune) - 100)
                       @ string_of_runes back)))
      else Inr msg)"

definition escape_newlines :: "string \<Rightarrow> string" where
  "escape_newlines msg = strings_Replace msg [CHR 0x0A] [CHR 0x5C, CHR ''n'']"

definition private_header :: "int \<Rightarrow> int \<Rightarrow> string" where
  \<comment> \<open>the format up to \<open>%v\<close>, with \<open>MessageId\<close> and \<open>UserId\<close> filled in\<close>
  "private_header mid uid =
     ''[''
     @ [CHR 0xE7, CHR 0xA7, CHR 0x81, CHR 0xE8, CHR 0x81, CHR 0x8A, CHR 0xE6, CHR 0xB6, CHR 0x88,
        CHR 0xE6, CHR 0x81, CHR 0xAF]
     @ ''](#'' @ itoa mid @ '' '' @ [CHR 0xE6, CHR 0x9D, CHR 0xA5, CHR 0xE8, CHR 0x87, CHR 0xAA]
     @ itoa uid @ ''): ''"

definition group_header :: "int \<Rightarrow> int \<Rightarrow> int \<Rightarrow> string" where
  \<comment> \<open>the format up to \<open>%v\<close>, with \<open>MessageId\<close>, \<open>UserId\<close> and \<open>GroupId\<close> filled in\<close>
  "group_header mid uid gid =
     ''[''
     @ [CHR 0xE7, CHR 0xBE, CHR 0xA4, CHR 0xE8, CHR 0x81, CHR 0x8A, CHR 0xE6, CHR 0xB6, CHR 0x88,
        CHR 0xE6, CHR 0x81, CHR 0xAF]
     @ ''](#'' @ itoa mid @ '' '' @ [CHR 0xE6, CHR 0x9D, CHR 0xA5, CHR 0xE8, CHR 0x87, CHR 0xAA]
     @ itoa uid @ ''@'' @ [CHR 0xE7, CHR 0xBE, CHR 0xA4] @ itoa gid @ ''): ''"

definition PrivateMessageEvent_GetEventDescription ::
  "'m Message_ops \<Rightarrow> ('m, 'a) PrivateMessageEvent_scheme \<Rightarrow> panic + string" where
  "PrivateMessageEvent_GetEventDescription M e =
     (case truncate_msg (Message_String M (Message e)) of
        Inl p \<Rightarrow> Inl p
      | Inr msg \<Rightarrow>
          Inr (private_header (MessageEvent.MessageId e) (MessageEvent.UserId e)
               @ escape_newlines msg))"

definition GroupMessageEvent_GetEventDescription ::
  "'m Message_ops \<Rightarrow> ('m, 'a) GroupMessageEvent_scheme \<Rightarrow> panic + string" where
  "GroupMessageEvent_GetEventDescription M e =
     (case truncate_msg (Message_String M (Message e)) of
        Inl p \<Rightarrow> Inl p
      | Inr msg \<Rightarrow>
          Inr (group_header (MessageEvent.MessageId e) (MessageEvent.UserId e)
                 (GroupMessageEvent.GroupId e)
               @ escape_newlines msg))"

section \<open>Notions the properties are stated with\<close>

text \<open>
  The type of a JSON value, the types a field of each kind takes, and a value whose
  type its field does not take. Nothing is said of a \<open>Message\<close> field: its decoding
  is the adapter's.
\<close>

datatype json_type = TNull | TBool | TNumber | TString | TArray | TObject

fun json_type_of :: "json \<Rightarrow> json_type" where
  "json_type_of JNull = TNull"
| "json_type_of (JBool b) = TBool"
| "json_type_of (JInt n) = TNumber"
| "json_type_of (JFloat x) = TNumber"
| "json_type_of (JStr x) = TString"
| "json_type_of (JArr xs) = TArray"
| "json_type_of (JObj kvs) = TObject"

fun accepts :: "kind \<Rightarrow> json_type list" where
  "accepts (KInt bits) = [TNull, TNumber]"
| "accepts KString = [TNull, TString]"
| "accepts KBool = [TNull, TBool]"
| "accepts KStruct = [TNull, TObject]"
| "accepts KPtr = [TNull, TObject]"
| "accepts KMessage = [TNull, TBool, TNumber, TString, TArray, TObject]"

definition type_mismatch :: "kind \<Rightarrow> json \<Rightarrow> bool" where
  "type_mismatch k v = (json_type_of v \<notin> set (accepts k))"

text \<open>The kind of the field a key of the payload is stored in, if it has one.\<close>

definition kind_of_key :: "'s field list \<Rightarrow> 's \<Rightarrow> string \<Rightarrow> kind
    option" where
  "kind_of_key fs s key = map_option (\<lambda>f. fst (snd f)) (find_field fs key)"

fun field_kind :: "'m Message_ops \<Rightarrow> 'm I_Event \<Rightarrow> string \<Rightarrow>
    kind option" where
  "field_kind M (I_PrivateMessageEvent e) key = kind_of_key (PrivateMessageEvent_fields M) e key"
| "field_kind M (I_GroupMessageEvent e) key = kind_of_key (GroupMessageEvent_fields M) e key"
| "field_kind M (I_GroupUploadNoticeEvent e) key = kind_of_key GroupUploadNoticeEvent_fields e
    key"
| "field_kind M (I_GroupAdminNoticeEvent e) key = kind_of_key GroupAdminNoticeEvent_fields e key"
| "field_kind M (I_GroupDecreaseNoticeEvent e) key = kind_of_key GroupDecreaseNoticeEvent_fields
    e key"
| "field_kind M (I_GroupIncreaseNoticeEvent e) key = kind_of_key GroupIncreaseNoticeEvent_fields
    e key"
| "field_kind M (I_GroupBanNoticeEvent e) key = kind_of_key GroupBanNoticeEvent_fields e key"
| "field_kind M (I_FriendAddNoticeEvent e) key = kind_of_key FriendAddNoticeEvent_fields e key"
| "field_kind M (I_GroupRecallNoticeEvent e) key = kind_of_key GroupRecallNoticeEvent_fields e
    key"
| "field_kind M (I_FriendRecallNoticeEvent e) key = kind_of_key FriendRecallNoticeEvent_fields e
    key"
| "field_kind M (I_PokeNoticeEvent e) key = kind_of_key PokeNoticeEvent_fields e key"
| "field_kind M (I_LuckyKingNoticeEvent e) key = kind_of_key LuckyKingNoticeEvent_fields e key"
| "field_kind M (I_HonorNoticeEvent e) key = kind_of_key HonorNoticeEvent_fields e key"
| "field_kind M (I_FriendRequestEvent e) key = kind_of_key FriendRequestEvent_fields e key"
| "field_kind M (I_GroupRequestEvent e) key = kind_of_key GroupRequestEvent_fields e key"
| "field_kind M (I_LifeCycleMetaEvent e) key = kind_of_key LifeCycleMetaEvent_fields e key"
| "field_kind M (I_HeartbeatMetaEvent e) key = kind_of_key HeartbeatMetaEvent_fields e key"

text \<open>
  The name of the field a key is stored in, and the kind of the field that a member of
  the object under a key is stored in: the fields of \<open>Sender\<close>, \<open>Anonymous\<close>,
  \<open>File\<close> and \<open>Status\<close>.
\<close>

definition name_of_key :: "'s field list \<Rightarrow> 's \<Rightarrow> string \<Rightarrow> string option" where
  "name_of_key fs s key = map_option fst (find_field fs key)"

fun nested_field_kind :: "'m Message_ops \<Rightarrow> 'm I_Event \<Rightarrow> string \<Rightarrow> string \<Rightarrow> kind option" where
  "nested_field_kind M (I_PrivateMessageEvent e) key key2 =
     (if name_of_key (PrivateMessageEvent_fields M) e key = Some ''Sender''
      then kind_of_key MessageEventSender_fields MessageEventSender_zero key2 else None)"
| "nested_field_kind M (I_GroupMessageEvent e) key key2 =
     (if name_of_key (GroupMessageEvent_fields M) e key = Some ''sender''
      then kind_of_key GroupMessageEventSender_fields GroupMessageEventSender_zero key2
      else if name_of_key (GroupMessageEvent_fields M) e key = Some ''anonymous''
      then kind_of_key Anonymous_fields Anonymous_zero key2 else None)"
| "nested_field_kind M (I_GroupUploadNoticeEvent e) key key2 =
     (if name_of_key GroupUploadNoticeEvent_fields e key = Some ''file''
      then kind_of_key GroupUploadFile_fields GroupUploadFile_zero key2 else None)"
| "nested_field_kind M (I_HeartbeatMetaEvent e) key key2 =
     (if name_of_key HeartbeatMetaEvent_fields e key = Some ''status''
      then kind_of_key HeartbeatStatus_fields HeartbeatStatus_zero key2 else None)"
| "nested_field_kind M ev key key2 = None"

text \<open>
  The lookup table of the switch: the pairs of \<open>post_type\<close> and second-level type
  that have a case.
\<close>

definition typeName_table :: "(string \<times> string) list" where
  "typeName_table =
     [(''message'', ''private''), (''message'', ''group''),
      (''notice'', ''group_upload''), (''notice'', ''group_admin''),
      (''notice'', ''group_decrease''), (''notice'', ''group_increase''),
      (''notice'', ''group_ban''), (''notice'', ''friend_add''),
      (''notice'', ''group_recall''), (''notice'', ''friend_recall''),
      (''notice'', ''notify''),
      (''request'', ''friend''), (''request'', ''group''),
      (''meta_event'', ''lifecycle''), (''meta_event'', ''heartbeat'')]"

text \<open>The struct the switch allocates for a payload, if it allocates one.\<close>

definition resolved_type :: "gjson_ext \<Rightarrow> 'm Message_ops \<Rightarrow> json
    \<Rightarrow> event_type option" where
  "resolved_type G M obj =
     (case newEvent M (typeName_of G obj) (subType_of G obj) of
        Inr (Some ev) \<Rightarrow> Some (TypeOf ev)
      | _ \<Rightarrow> None)"

text \<open>
  The first segment of a dotted name, the number of its dots, and the number of its
  segments: the parts the dots separate, one more than the dots.
\<close>

definition first_segment :: "string \<Rightarrow> string" where
  "first_segment s = takeWhile (\<lambda>c. c \<noteq> CHR ''.'') s"

definition dots :: "string \<Rightarrow> nat" where
  "dots s = length (filter (\<lambda>c. c = CHR ''.'') s)"

definition segment_count :: "string \<Rightarrow> nat" where
  "segment_count s = Suc (dots s)"

text \<open>
  A key that \<open>encoding/json\<close> takes for the name \<open>n\<close>, and the members of a payload
  but those of such keys.
\<close>

definition key_matches :: "string \<Rightarrow> string \<Rightarrow> bool" where
  "key_matches n key = (key = n \<or> foldName key = foldName n)"

definition without_keys :: "string list \<Rightarrow> (string \<times> json) list \<Rightarrow>
    (string \<times> json) list" where
  "without_keys ns kvs = filter (\<lambda>kv. \<not> list_ex (\<lambda>n. key_matches n (fst kv))
      ns) kvs"

text \<open>
  The value \<open>encoding/json\<close> stores last in the field of the name \<open>n\<close>: that of the
  last member of the payload with a key it takes for \<open>n\<close>, if there is one.
\<close>

definition stored_member :: "string \<Rightarrow> (string \<times> json) list \<Rightarrow> json option" where
  "stored_member n kvs =
     (case filter (\<lambda>kv. key_matches n (fst kv)) kvs of
        [] \<Rightarrow> None
      | m # ms \<Rightarrow> Some (snd (last (m # ms))))"

text \<open>
  The number a string of decimal digits stands for, read digit by digit from the left;
  \<open>None\<close> for the empty string and for a string with any other byte.
\<close>

definition decimal_value :: "string \<Rightarrow> nat option" where
  "decimal_value s =
     (if s \<noteq> [] \<and> list_all (\<lambda>c. 48 \<le> byte c \<and> byte c \<le> 57) s
      then Some (foldl (\<lambda>n c. 10 * n + (byte c - 48)) 0 s) else None)"

text \<open>
  The preview the spec describes for a long message: the first 50 runes, the marker
  with the number of runes left out, the last 50 runes. The marker is written out here,
  byte by byte, around the decimal digits of the number: three dots and a bracket, the
  two characters U+7701 U+7565 (left out), the number, the three characters U+4E2A
  U+5B57 U+7B26 (characters), a bracket and three dots.
\<close>

definition omitted_marker :: "nat \<Rightarrow> string" where
  "omitted_marker n =
     ''...('' @ [CHR 0xE7, CHR 0x9C, CHR 0x81, CHR 0xE7, CHR 0x95, CHR 0xA5] @ itoa (int n)
     @ [CHR 0xE4, CHR 0xB8, CHR 0xAA, CHR 0xE5, CHR 0xAD, CHR 0x97, CHR 0xE7, CHR 0xAC, CHR 0xA6]
     @ '')...''"

definition bounded_preview :: "rune list \<Rightarrow> string" where
  "bounded_preview rs =
     string_of_runes (take 50 rs) @ omitted_marker (length rs - 100)
     @ string_of_runes (drop (length rs - 50) rs)"

text \<open>
  What the properties need of a field of an event struct: its decoder refuses a value
  of a type its kind does not take; storing a value leaves \<open>ToMe\<close> and \<open>EventName\<close>
  as they are, and \<open>PostType\<close> too unless the field is \<open>post_type\<close>, which takes a
  string; and its name is neither \<open>EventName\<close> nor \<open>ToMe\<close> in any case.
\<close>

definition field_ok :: "('a Event_scheme) field \<Rightarrow> bool" where
  "field_ok f =
     ((\<forall>v s. type_mismatch (fst (snd f)) v \<longrightarrow> snd (snd f) v s = None)
      \<and> (\<forall>v s s'. snd (snd f) v s = Some s' \<longrightarrow>
            ToMe s' = ToMe s \<and> EventName s' = EventName s
            \<and> (if foldName (fst f) = ''POST_TYPE''
               then (v = JNull \<and> PostType s' = PostType s) \<or> v = JStr (PostType s')
               else PostType s' = PostType s))
      \<and> foldName (fst f) \<noteq> ''EVENTNAME'' \<and> foldName (fst f) \<noteq> ''TOME'')"

text \<open>
  A concrete setting to evaluate the model in: no path expressions, empty raw texts,
  and a \<open>Message\<close> that is the string of the payload, addressed to nobody.
\<close>

definition G0 :: gjson_ext where
  "G0 = \<lparr>path_expr = (\<lambda>obj path. None), raw_text = (\<lambda>v. [])\<rparr>"

definition M0 :: "string Message_ops" where
  "M0 =
     \<lparr>Message_Unmarshal = (\<lambda>v m. case v of JStr s \<Rightarrow> Some s | JNull
         \<Rightarrow> Some m | _ \<Rightarrow> None),
      Message_String = (\<lambda>m. m),
      Message_zero = [],
      Message_IsToMe = (\<lambda>m selfId. False)\<rparr>"

text \<open>
  Payloads to evaluate the model on, and the events they decode to: the first example
  of the spec (8), and a payload with a second member that \<open>encoding/json\<close> takes
  for \<open>post_type\<close>.
\<close>

definition private_message_payload :: json where
  "private_message_payload =
     JObj [(''post_type'', JStr ''message''), (''message_type'', JStr ''private''),
           (''time'', JInt 100), (''self_id'', JInt 1), (''user_id'', JInt 2),
           (''message_id'', JInt 5), (''message'', JStr ''hi'')]"

definition private_message_event :: "string I_Event" where
  "private_message_event =
     I_PrivateMessageEvent
       \<lparr>Time = 100, SelfId = 1, PostType = ''message'', EventName = ''message.private'',
        ToMe = True, MessageType = ''private'', MessageEvent.SubType = [],
        MessageEvent.MessageId = 5, MessageEvent.UserId = 2, Message = ''hi'',
        RawMessage = [], Font = 0, PrivateMessageEvent.Sender = None\<rparr>"

definition shadowed_post_type_payload :: json where
  "shadowed_post_type_payload =
     JObj [(''post_type'', JStr ''message''), (''message_type'', JStr ''private''),
           (''POST_TYPE'', JStr ''notice'')]"

definition shadowed_post_type_event :: "string I_Event" where
  "shadowed_post_type_event =
     I_PrivateMessageEvent
       \<lparr>Time = 0, SelfId = 0, PostType = ''notice'', EventName = ''message.private'',
        ToMe = True, MessageType = ''private'', MessageEvent.SubType = [],
        MessageEvent.MessageId = 0, MessageEvent.UserId = 0, Message = [],
        RawMessage = [], Font = 0, PrivateMessageEvent.Sender = None\<rparr>"

text \<open>
  The second example of the spec (8), a group message without \<open>sender\<close> and
  \<open>anonymous\<close>, a \<open>notice.notify\<close> payload whose \<open>sub_type\<close> has no case, and a
  payload of an unknown \<open>post_type\<close>.
\<close>

definition poke_payload :: json where
  "poke_payload =
     JObj [(''post_type'', JStr ''notice''), (''notice_type'', JStr ''notify''),
           (''sub_type'', JStr ''poke''), (''group_id'', JInt 10), (''user_id'', JInt 2),
           (''target_id'', JInt 1), (''self_id'', JInt 1)]"

definition poke_event :: "string I_Event" where
  "poke_event =
     I_PokeNoticeEvent
       \<lparr>Time = 0, SelfId = 1, PostType = ''notice'', EventName = ''notice.notify.poke'',
        ToMe = True, NoticeType = ''notify'', PokeNoticeEvent.SubType = ''poke'',
        PokeNoticeEvent.GroupId = 10, PokeNoticeEvent.UserId = 2,
        PokeNoticeEvent.TargetId = 1\<rparr>"

definition group_message_payload :: json where
  "group_message_payload =
     JObj [(''post_type'', JStr ''message''), (''message_type'', JStr ''group''),
           (''time'', JInt 100), (''self_id'', JInt 1), (''user_id'', JInt 2),
           (''group_id'', JInt 10), (''message_id'', JInt 5), (''message'', JStr ''hi'')]"

definition group_message_event :: "string I_Event" where
  "group_message_event =
     I_GroupMessageEvent
       \<lparr>Time = 100, SelfId = 1, PostType = ''message'', EventName = ''message.group'',
        ToMe = False, MessageType = ''group'', MessageEvent.SubType = [],
        MessageEvent.MessageId = 5, MessageEvent.UserId = 2, Message = ''hi'',
        RawMessage = [], Font = 0, GroupMessageEvent.GroupId = 10,
        GroupMessageEvent.Sender = None, Anonymous = None\<rparr>"

definition unknown_notify_payload :: json where
  "unknown_notify_payload =
     JObj [(''post_type'', JStr ''notice''), (''notice_type'', JStr ''notify''),
           (''sub_type'', JStr ''unknown_sub'')]"

definition oracle_payload :: json where
  "oracle_payload = JObj [(''post_type'', JStr ''oracle'')]"

text \<open>
  A friend-add notice whose \<open>sub_type\<close> holds a dot, and the two message payloads
  with an empty object for \<open>sender\<close> (and \<open>anonymous\<close>).
\<close>

definition dotted_sub_type_payload :: json where
  "dotted_sub_type_payload =
     JObj [(''post_type'', JStr ''notice''), (''notice_type'', JStr ''friend_add''),
           (''sub_type'', JStr ''a.b''), (''self_id'', JInt 1), (''user_id'', JInt 2)]"

definition dotted_sub_type_event :: "string I_Event" where
  "dotted_sub_type_event =
     I_FriendAddNoticeEvent
       \<lparr>Time = 0, SelfId = 1, PostType = ''notice'', EventName = ''notice.friend_add.a.b'',
        ToMe = True, NoticeType = ''friend_add'', FriendAddNoticeEvent.UserId = 2\<rparr>"

definition group_message_sender_payload :: json where
  "group_message_sender_payload =
     JObj [(''post_type'', JStr ''message''), (''message_type'', JStr ''group''),
           (''time'', JInt 100), (''self_id'', JInt 1), (''user_id'', JInt 2),
           (''group_id'', JInt 10), (''message_id'', JInt 5), (''message'', JStr ''hi''),
           (''sender'', JObj []), (''anonymous'', JObj [])]"

definition group_message_sender_event :: "string I_Event" where
  "group_message_sender_event =
     I_GroupMessageEvent
       \<lparr>Time = 100, SelfId = 1, PostType = ''message'', EventName = ''message.group'',
        ToMe = False, MessageType = ''group'', MessageEvent.SubType = [],
        MessageEvent.MessageId = 5, MessageEvent.UserId = 2, Message = ''hi'',
        RawMessage = [], Font = 0, GroupMessageEvent.GroupId = 10,
        GroupMessageEvent.Sender = Some GroupMessageEventSender_zero,
        Anonymous = Some Anonymous_zero\<rparr>"

definition private_message_sender_payload :: json where
  "private_message_sender_payload =
     JObj [(''post_type'', JStr ''message''), (''message_type'', JStr ''private''),
           (''time'', JInt 100), (''self_id'', JInt 1), (''user_id'', JInt 2),
           (''message_id'', JInt 5), (''message'', JStr ''hi''), (''sender'', JObj [])]"

definition private_message_sender_event :: "string I_Event" where
  "private_message_sender_event =
     I_PrivateMessageEvent
       \<lparr>Time = 100, SelfId = 1, PostType = ''message'', EventName = ''message.private'',
        ToMe = True, MessageType = ''private'', MessageEvent.SubType = [],
        MessageEvent.MessageId = 5, MessageEvent.UserId = 2, Message = ''hi'',
        RawMessage = [], Font = 0, PrivateMessageEvent.Sender = Some MessageEventSender_zero\<rparr>"

text \<open>
  The first example with two members more, named as the derived fields are; and two
  payloads with a string where a field takes an integer.
\<close>

definition forged_payload :: json where
  "forged_payload =
     JObj [(''EventName'', JStr ''notice.forged''), (''post_type'', JStr ''message''),
           (''message_type'', JStr ''private''), (''time'', JInt 100), (''self_id'', JInt 1),
           (''user_id'', JInt 2), (''message_id'', JInt 5), (''message'', JStr ''hi''),
           (''tome'', JBool False)]"

definition bad_user_id_payload :: json where
  "bad_user_id_payload =
     JObj [(''post_type'', JStr ''message''), (''message_type'', JStr ''private''),
           (''user_id'', JStr ''2'')]"

definition bad_sender_age_payload :: json where
  "bad_sender_age_payload =
     JObj [(''post_type'', JStr ''message''), (''message_type'', JStr ''group''),
           (''sender'', JObj [(''age'', JStr ''old'')])]"

section \<open>Properties: formatting\<close>

subsection \<open>Decimal numbers\<close>

lemma digits_unfold:
  "digits n = (if n < 10 then [char_of (48 + n)] else digits (n div 10) @ [char_of (48 + n mod 10)])"
  by (rule digits.simps)

lemma digits_not_Nil: "digits n \<noteq> []"
  by (subst digits_unfold) simp

lemma digit_char_inj: "a < 10 \<Longrightarrow> b < 10 \<Longrightarrow> char_of (48 + a :: nat) = char_of (48 + b) \<Longrightarrow> a = b"
proof -
  assume a: "a < 10" and b: "b < 10" and eq: "char_of (48 + a :: nat) = char_of (48 + b)"
  from eq have "(of_char (char_of (48 + a :: nat)) :: nat) = of_char (char_of (48 + b))"
    by simp
  then have "(48 + a) mod 256 = (48 + b) mod 256"
    by (simp only: of_char_of)
  with a b show "a = b" by simp
qed

lemma byte_digit_char: "a < 10 \<Longrightarrow> byte (char_of (48 + a :: nat)) = 48 + a"
  by (simp add: byte_def)

lemma digits_bytes: "c \<in> set (digits n) \<Longrightarrow> 48 \<le> byte c \<and> byte c \<le> 57"
proof (induction n arbitrary: c rule: digits.induct)
  case (1 n)
  show ?case
  proof (cases "n < 10")
    case True
    with "1.prems" have "c = char_of (48 + n)"
      by (subst (asm) digits_unfold) simp
    with True show ?thesis by (simp add: byte_digit_char)
  next
    case False
    with "1.prems" have "c \<in> set (digits (n div 10)) \<or> c = char_of (48 + n mod 10)"
      by (subst (asm) digits_unfold) auto
    then show ?thesis
    proof
      assume "c \<in> set (digits (n div 10))"
      with False "1.IH" show ?thesis by blast
    next
      assume "c = char_of (48 + n mod 10)"
      then show ?thesis by (simp add: byte_digit_char)
    qed
  qed
qed

lemma digits_inj: "digits n = digits m \<Longrightarrow> n = m"
proof (induction n arbitrary: m rule: digits.induct)
  case (1 n)
  show ?case
  proof (cases "n < 10")
    case n: True
    show ?thesis
    proof (cases "m < 10")
      case True
      from "1.prems" n True have "char_of (48 + n) = char_of (48 + m)"
        by (subst (asm) digits_unfold, subst (asm) (2) digits_unfold) simp
      with n True show ?thesis by (rule digit_char_inj)
    next
      case False
      from "1.prems" n False have "[char_of (48 + n)] = digits (m div 10) @ [char_of (48 + m mod 10)]"
        by (subst (asm) digits_unfold, subst (asm) (2) digits_unfold) simp
      then have "digits (m div 10) = []" by simp
      with digits_not_Nil show ?thesis by blast
    qed
  next
    case n: False
    show ?thesis
    proof (cases "m < 10")
      case True
      from "1.prems" n True have "digits (n div 10) @ [char_of (48 + n mod 10)] = [char_of (48 + m)]"
        by (subst (asm) digits_unfold, subst (asm) (2) digits_unfold) simp
      then have "digits (n div 10) = []" by simp
      with digits_not_Nil show ?thesis by blast
    next
      case False
      from "1.prems" n False
      have "digits (n div 10) @ [char_of (48 + n mod 10)] = digits (m div 10) @ [char_of (48 + m mod 10)]"
        by (subst (asm) digits_unfold, subst (asm) (2) digits_unfold) simp
      then have d: "digits (n div 10) = digits (m div 10)"
        and c: "char_of (48 + n mod 10) = char_of (48 + m mod 10)" by simp_all
      from d n "1.IH" have "n div 10 = m div 10" by blast
      moreover from c have "n mod 10 = m mod 10" by (intro digit_char_inj) simp_all
      ultimately show ?thesis by (metis div_mult_mod_eq)
    qed
  qed
qed

lemma itoa_bytes: "c \<in> set (itoa i) \<Longrightarrow> c = CHR ''-'' \<or> (48 \<le> byte c \<and> byte c \<le> 57)"
  by (auto simp: itoa_def dest: digits_bytes split: if_splits)

lemma itoa_inj: "itoa i = itoa j \<Longrightarrow> i = j"
proof -
  assume eq: "itoa i = itoa j"
  have nd: "\<And>n. hd (digits n) \<noteq> CHR ''-''"
  proof
    fix n assume h: "hd (digits n) = CHR ''-''"
    have "hd (digits n) \<in> set (digits n)" using digits_not_Nil by simp
    then have "48 \<le> byte (hd (digits n))" using digits_bytes by blast
    with h show False by (simp add: byte_def)
  qed
  have ne: "\<And>n m. CHR ''-'' # digits n \<noteq> digits m"
  proof
    fix n m assume "CHR ''-'' # digits n = digits m"
    then have "hd (digits m) = CHR ''-''" by (metis list.sel(1))
    with nd show False by blast
  qed
  show "i = j"
  proof (cases "i < 0")
    case i: True
    show ?thesis
    proof (cases "j < 0")
      case True
      with i eq have "digits (nat (- i)) = digits (nat (- j))" by (simp add: itoa_def)
      then have "nat (- i) = nat (- j)" by (rule digits_inj)
      with i True show ?thesis by simp
    next
      case False
      with i eq ne show ?thesis by (simp add: itoa_def)
    qed
  next
    case i: False
    show ?thesis
    proof (cases "j < 0")
      case True
      with i eq ne [of "nat (- j)" "nat i"] show ?thesis by (simp add: itoa_def)
    next
      case False
      with i eq have "digits (nat i) = digits (nat j)" by (simp add: itoa_def)
      then have "nat i = nat j" by (rule digits_inj)
      with i False show ?thesis by simp
    qed
  qed
qed

lemma itoa_no_at: "CHR ''@'' \<notin> set (itoa i)"
  using itoa_bytes [of "CHR ''@''" i] by (auto simp: byte_def)

lemma itoa_no_newline: "CHR 0x0A \<notin> set (itoa i)"
  using itoa_bytes [of "CHR 0x0A" i] by (auto simp: byte_def)

lemma split_at_sep:
  "c \<notin> set a \<Longrightarrow> c \<notin> set a' \<Longrightarrow> a @ c # b = a' @ c # b' \<Longrightarrow> a = a' \<and> b = b'"
proof (induction a arbitrary: a')
  case Nil
  then show ?case by (cases a') auto
next
  case (Cons x a)
  then show ?case by (cases a') auto
qed

lemma session_key_inj:
  "itoa u @ ''@'' @ itoa g = itoa u' @ ''@'' @ itoa g' \<Longrightarrow> u = u' \<and> g = g'"
proof -
  assume "itoa u @ ''@'' @ itoa g = itoa u' @ ''@'' @ itoa g'"
  then have "itoa u @ CHR ''@'' # itoa g = itoa u' @ CHR ''@'' # itoa g'" by simp
  then have "itoa u = itoa u' \<and> itoa g = itoa g'"
    using split_at_sep [OF itoa_no_at itoa_no_at] by blast
  then show ?thesis using itoa_inj by blast
qed

subsection \<open>Runes of ASCII strings\<close>

lemma runes_Nil: "runes [] = []"
  by (subst runes.simps) simp

lemma runes_ascii_Cons: "byte c < 0x80 \<Longrightarrow> runes (c # s) = byte c # runes s"
  by (subst runes.simps) (simp add: decoderune_def)

lemma runes_ascii: "\<forall>c \<in> set s. byte c < 0x80 \<Longrightarrow> runes s = map byte s"
  by (induction s) (simp_all add: runes_Nil runes_ascii_Cons)

lemma encoderune_ascii: "byte c < 0x80 \<Longrightarrow> encoderune (byte c) = [c]"
  by (simp add: encoderune_def byte_def)

lemma string_of_runes_ascii: "\<forall>c \<in> set s. byte c < 0x80 \<Longrightarrow> string_of_runes (map byte s) = s"
  by (induction s) (simp_all add: string_of_runes_def encoderune_ascii)

subsection \<open>Escaping and truncation\<close>

lemma escape_newlines_Nil: "escape_newlines [] = []"
  unfolding escape_newlines_def by (subst strings_Replace.simps) simp

lemma escape_newlines_Cons:
  "escape_newlines (c # s) =
     (if c = CHR 0x0A then [CHR 0x5C, CHR ''n''] else [c]) @ escape_newlines s"
  unfolding escape_newlines_def by (subst strings_Replace.simps) simp

lemma escape_newlines_concat:
  "escape_newlines s = concat (map (\<lambda>c. if c = CHR 0x0A then [CHR 0x5C, CHR ''n''] else [c]) s)"
  by (induction s) (simp_all add: escape_newlines_Nil escape_newlines_Cons)

lemma escape_newlines_append: "escape_newlines (a @ b) = escape_newlines a @ escape_newlines b"
  by (simp add: escape_newlines_concat)

lemma escape_newlines_no_newline: "CHR 0x0A \<notin> set (escape_newlines s)"
  by (induction s) (simp_all add: escape_newlines_Nil escape_newlines_Cons)

lemma escape_newlines_id: "CHR 0x0A \<notin> set s \<Longrightarrow> escape_newlines s = s"
  by (induction s) (auto simp: escape_newlines_Nil escape_newlines_Cons)

lemma truncate_msg_long:
  assumes "100 < length (runes msg)"
  shows "truncate_msg msg =
           Inr (string_of_runes (take 50 (runes msg))
                @ elision (int (length (runes msg)) - 100)
                @ string_of_runes (drop (length (runes msg) - 50) (runes msg)))"
proof -
  from assms have "nat (int (length (runes msg)) - 50) = length (runes msg) - 50"
    by simp
  with assms show ?thesis
    by (simp add: truncate_msg_def slice_to_def slice_from_def Let_def)
qed

lemma truncate_msg_short: "length (runes msg) \<le> 100 \<Longrightarrow> truncate_msg msg = Inr msg"
  by (simp add: truncate_msg_def Let_def)

lemma truncate_msg_total: "\<exists>s. truncate_msg msg = Inr s"
proof (cases "100 < length (runes msg)")
  case True
  then show ?thesis using truncate_msg_long by blast
next
  case False
  then show ?thesis using truncate_msg_short [of msg] by simp
qed

lemma private_header_no_newline: "CHR 0x0A \<notin> set (private_header mid uid)"
  using itoa_no_newline by (simp add: private_header_def)

lemma group_header_no_newline: "CHR 0x0A \<notin> set (group_header mid uid gid)"
  using itoa_no_newline by (simp add: group_header_def)

section \<open>Properties: session keys and descriptions\<close>

lemma itoa_2: "itoa 2 = ''2''"
  by code_simp

lemma itoa_10: "itoa 10 = ''10''"
  by code_simp

lemma decimal_value_digits: "decimal_value (digits n) = Some n"
proof -
  have all: "list_all (\<lambda>c. 48 \<le> byte c \<and> byte c \<le> 57) (digits n)"
    using digits_bytes by (auto simp: list_all_iff)
  have val: "foldl (\<lambda>n c. 10 * n + (byte c - 48)) 0 (digits n) = n"
  proof (induction n rule: digits.induct)
    case (1 n)
    show ?case
    proof (cases "n < 10")
      case True
      then show ?thesis
        by (subst digits_unfold) (simp add: byte_digit_char)
    next
      case False
      with "1.IH" show ?thesis
        by (subst digits_unfold) (simp add: byte_digit_char)
    qed
  qed
  from all val digits_not_Nil show ?thesis
    by (simp add: decimal_value_def)
qed

lemma decimal_value_itoa: "decimal_value (itoa (int n)) = Some n"
  by (simp add: itoa_def decimal_value_digits)

lemma itoa_100: "itoa 100 = ''100''"
  by (simp add: itoa_def digits.simps char_of_def bit_Suc_0_iff)

lemma omitted_marker_no_newline: "CHR 0x0A \<notin> set (omitted_marker n)"
  using itoa_no_newline by (simp add: omitted_marker_def)

lemma omitted_marker_elision: "0 \<le> n \<Longrightarrow> elision n = omitted_marker (nat n)"
  by (simp add: elision_def omitted_marker_def)

text \<open>
  C4. The session key of a private message event is the decimal string of its
  \<open>UserId\<close>; that of a group message event is \<open>UserId@GroupId\<close>. Two keys of private
  messages are equal only for the same user, two keys of group messages only for the
  same user in the same group, and a private key never equals a group key. This holds
  of every event value, so of every decoded one.
\<close>

theorem GetSessionId_partitions:
  fixes e e' :: "'m PrivateMessageEvent" and g g' :: "'m GroupMessageEvent"
  shows
  "GetSessionId (I_PrivateMessageEvent e) = Some (itoa (MessageEvent.UserId e))
   \<and> GetSessionId (I_GroupMessageEvent g)
       = Some (itoa (MessageEvent.UserId g) @ ''@'' @ itoa (GroupMessageEvent.GroupId g))
   \<and> ((GetSessionId (I_PrivateMessageEvent e) = GetSessionId (I_PrivateMessageEvent e'))
        = (MessageEvent.UserId e = MessageEvent.UserId e'))
   \<and> ((GetSessionId (I_GroupMessageEvent g) = GetSessionId (I_GroupMessageEvent g'))
        = (MessageEvent.UserId g = MessageEvent.UserId g'
           \<and> GroupMessageEvent.GroupId g = GroupMessageEvent.GroupId g'))
   \<and> GetSessionId (I_PrivateMessageEvent e) \<noteq> GetSessionId (I_GroupMessageEvent g)"
proof -
  have priv: "(itoa (MessageEvent.UserId e) = itoa (MessageEvent.UserId e'))
               = (MessageEvent.UserId e = MessageEvent.UserId e')"
  proof
    assume "itoa (MessageEvent.UserId e) = itoa (MessageEvent.UserId e')"
    then show "MessageEvent.UserId e = MessageEvent.UserId e'" by (rule itoa_inj)
  next
    assume "MessageEvent.UserId e = MessageEvent.UserId e'"
    then show "itoa (MessageEvent.UserId e) = itoa (MessageEvent.UserId e')" by (rule arg_cong)
  qed
  have grp: "(itoa (MessageEvent.UserId g) @ ''@'' @ itoa (GroupMessageEvent.GroupId g)
                = itoa (MessageEvent.UserId g') @ ''@'' @ itoa (GroupMessageEvent.GroupId g'))
             = (MessageEvent.UserId g = MessageEvent.UserId g'
                \<and> GroupMessageEvent.GroupId g = GroupMessageEvent.GroupId g')"
  proof
    assume "itoa (MessageEvent.UserId g) @ ''@'' @ itoa (GroupMessageEvent.GroupId g)
                = itoa (MessageEvent.UserId g') @ ''@'' @ itoa (GroupMessageEvent.GroupId g')"
    then show "MessageEvent.UserId g = MessageEvent.UserId g'
                \<and> GroupMessageEvent.GroupId g = GroupMessageEvent.GroupId g'"
      by (rule session_key_inj)
  next
    assume "MessageEvent.UserId g = MessageEvent.UserId g'
                \<and> GroupMessageEvent.GroupId g = GroupMessageEvent.GroupId g'"
    then show "itoa (MessageEvent.UserId g) @ ''@'' @ itoa (GroupMessageEvent.GroupId g)
                = itoa (MessageEvent.UserId g') @ ''@'' @ itoa (GroupMessageEvent.GroupId g')"
      by simp
  qed
  have "CHR ''@'' \<in> set (itoa (MessageEvent.UserId g) @ ''@'' @ itoa (GroupMessageEvent.GroupId g))"
    by simp
  then have diff: "itoa (MessageEvent.UserId e)
                     \<noteq> itoa (MessageEvent.UserId g) @ ''@'' @ itoa (GroupMessageEvent.GroupId g)"
    using itoa_no_at [of "MessageEvent.UserId e"] by metis
  show ?thesis
    unfolding GetSessionId.simps MessageEvent_GetSessionId_def GroupMessageEvent_GetSessionId_def
      option.inject
    using priv grp diff by blast
qed

theorem GetSessionId_partitions_witness:
  "GetSessionId (I_PrivateMessageEvent (PrivateMessageEvent_zero M0\<lparr>MessageEvent.UserId := 2\<rparr>))
     = Some ''2''
   \<and> GetSessionId (I_GroupMessageEvent
        (GroupMessageEvent_zero M0\<lparr>MessageEvent.UserId := 2, GroupMessageEvent.GroupId := 10\<rparr>))
     = Some ''2@10''"
  using GetSessionId_partitions
    [of "PrivateMessageEvent_zero M0\<lparr>MessageEvent.UserId := 2\<rparr>"
        "GroupMessageEvent_zero M0\<lparr>MessageEvent.UserId := 2, GroupMessageEvent.GroupId := 10\<rparr>"]
  by (simp add: itoa_2 itoa_10)

text \<open>
  C7. A message of more than 100 runes is described by its first 50 runes, the marker
  and its last 50 runes (\<open>bounded_preview\<close>), behind the header of the event. The
  marker is the text written out below around the decimal digits \<open>itoa\<close> prints, and
  these digits read back (\<open>decimal_value\<close>) as the number of runes left out, the
  length minus 100. \<open>escape_newlines\<close> writes backslash-n for every newline of the
  two kept parts and leaves the marker as it is, so no description holds a newline. For
  200 runes the marker holds \<open>100\<close> and both kept parts have 50 runes.
\<close>

theorem GetEventDescription_long:
  fixes e :: "('m, 'a) PrivateMessageEvent_scheme" and g :: "('m, 'b) GroupMessageEvent_scheme"
  shows
  "(100 < length (runes (Message_String M (Message e))) \<longrightarrow>
      PrivateMessageEvent_GetEventDescription M e
        = Inr (private_header (MessageEvent.MessageId e) (MessageEvent.UserId e)
               @ escape_newlines (bounded_preview (runes (Message_String M (Message e))))))
   \<and> (100 < length (runes (Message_String M (Message g))) \<longrightarrow>
      GroupMessageEvent_GetEventDescription M g
        = Inr (group_header (MessageEvent.MessageId g) (MessageEvent.UserId g)
                 (GroupMessageEvent.GroupId g)
               @ escape_newlines (bounded_preview (runes (Message_String M (Message g))))))
   \<and> escape_newlines (bounded_preview rs)
       = escape_newlines (string_of_runes (take 50 rs))
         @ ''...('' @ [CHR 0xE7, CHR 0x9C, CHR 0x81, CHR 0xE7, CHR 0x95, CHR 0xA5]
         @ itoa (int (length rs - 100))
         @ [CHR 0xE4, CHR 0xB8, CHR 0xAA, CHR 0xE5, CHR 0xAD, CHR 0x97, CHR 0xE7, CHR 0xAC, CHR 0xA6]
         @ '')...''
         @ escape_newlines (string_of_runes (drop (length rs - 50) rs))
   \<and> decimal_value (itoa (int (length rs - 100))) = Some (length rs - 100)
   \<and> escape_newlines x
       = concat (map (\<lambda>c. if c = CHR 0x0A then [CHR 0x5C, CHR ''n''] else [c]) x)
   \<and> (PrivateMessageEvent_GetEventDescription M e = Inr s \<longrightarrow> CHR 0x0A \<notin> set s)
   \<and> (GroupMessageEvent_GetEventDescription M g = Inr s \<longrightarrow> CHR 0x0A \<notin> set s)
   \<and> (length rs = 200 \<longrightarrow>
        bounded_preview rs
          = string_of_runes (take 50 rs)
            @ ''...('' @ [CHR 0xE7, CHR 0x9C, CHR 0x81, CHR 0xE7, CHR 0x95, CHR 0xA5] @ ''100''
            @ [CHR 0xE4, CHR 0xB8, CHR 0xAA, CHR 0xE5, CHR 0xAD, CHR 0x97, CHR 0xE7, CHR 0xAC, CHR 0xA6]
            @ '')...'' @ string_of_runes (drop 150 rs)
        \<and> length (take 50 rs) = 50 \<and> length (drop 150 rs) = 50)"
proof (intro conjI impI)
  assume "100 < length (runes (Message_String M (Message e)))"
  then show "PrivateMessageEvent_GetEventDescription M e
        = Inr (private_header (MessageEvent.MessageId e) (MessageEvent.UserId e)
               @ escape_newlines (bounded_preview (runes (Message_String M (Message e)))))"
    by (simp add: PrivateMessageEvent_GetEventDescription_def truncate_msg_long bounded_preview_def
        omitted_marker_elision nat_diff_distrib)
next
  assume "100 < length (runes (Message_String M (Message g)))"
  then show "GroupMessageEvent_GetEventDescription M g
        = Inr (group_header (MessageEvent.MessageId g) (MessageEvent.UserId g)
                 (GroupMessageEvent.GroupId g)
               @ escape_newlines (bounded_preview (runes (Message_String M (Message g)))))"
    by (simp add: GroupMessageEvent_GetEventDescription_def truncate_msg_long bounded_preview_def
        omitted_marker_elision nat_diff_distrib)
next
  have "escape_newlines (omitted_marker (length rs - 100)) = omitted_marker (length rs - 100)"
    using omitted_marker_no_newline by (rule escape_newlines_id)
  then have "escape_newlines (bounded_preview rs)
       = escape_newlines (string_of_runes (take 50 rs)) @ omitted_marker (length rs - 100)
         @ escape_newlines (string_of_runes (drop (length rs - 50) rs))"
    by (simp add: bounded_preview_def escape_newlines_append)
  then show "escape_newlines (bounded_preview rs)
       = escape_newlines (string_of_runes (take 50 rs))
         @ ''...('' @ [CHR 0xE7, CHR 0x9C, CHR 0x81, CHR 0xE7, CHR 0x95, CHR 0xA5]
         @ itoa (int (length rs - 100))
         @ [CHR 0xE4, CHR 0xB8, CHR 0xAA, CHR 0xE5, CHR 0xAD, CHR 0x97, CHR 0xE7, CHR 0xAC, CHR 0xA6]
         @ '')...''
         @ escape_newlines (string_of_runes (drop (length rs - 50) rs))"
    by (simp add: omitted_marker_def)
next
  show "decimal_value (itoa (int (length rs - 100))) = Some (length rs - 100)"
    by (rule decimal_value_itoa)
next
  show "escape_newlines x
       = concat (map (\<lambda>c. if c = CHR 0x0A then [CHR 0x5C, CHR ''n''] else [c]) x)"
    by (rule escape_newlines_concat)
next
  assume "PrivateMessageEvent_GetEventDescription M e = Inr s"
  then show "CHR 0x0A \<notin> set s"
    using private_header_no_newline escape_newlines_no_newline
    by (auto simp: PrivateMessageEvent_GetEventDescription_def split: sum.splits)
next
  assume "GroupMessageEvent_GetEventDescription M g = Inr s"
  then show "CHR 0x0A \<notin> set s"
    using group_header_no_newline escape_newlines_no_newline
    by (auto simp: GroupMessageEvent_GetEventDescription_def split: sum.splits)
next
  assume "length rs = 200"
  then show "bounded_preview rs
          = string_of_runes (take 50 rs)
            @ ''...('' @ [CHR 0xE7, CHR 0x9C, CHR 0x81, CHR 0xE7, CHR 0x95, CHR 0xA5] @ ''100''
            @ [CHR 0xE4, CHR 0xB8, CHR 0xAA, CHR 0xE5, CHR 0xAD, CHR 0x97, CHR 0xE7, CHR 0xAC, CHR 0xA6]
            @ '')...'' @ string_of_runes (drop 150 rs)"
    by (simp add: bounded_preview_def omitted_marker_def itoa_100)
next
  assume "length rs = 200"
  then show "length (take 50 rs) = 50" by simp
next
  assume "length rs = 200"
  then show "length (drop 150 rs) = 50" by simp
qed

theorem GetEventDescription_long_witness:
  "100 < length (runes (Message_String M0
            (Message (PrivateMessageEvent_zero M0\<lparr>Message := CHR 0x0A # replicate 199 (CHR ''a'')\<rparr>))))
   \<and> PrivateMessageEvent_GetEventDescription M0
        (PrivateMessageEvent_zero M0\<lparr>Message := CHR 0x0A # replicate 199 (CHR ''a'')\<rparr>)
      = Inr (private_header 0 0 @ [CHR 0x5C, CHR ''n''] @ replicate 49 (CHR ''a'')
             @ ''...('' @ [CHR 0xE7, CHR 0x9C, CHR 0x81, CHR 0xE7, CHR 0x95, CHR 0xA5] @ ''100''
             @ [CHR 0xE4, CHR 0xB8, CHR 0xAA, CHR 0xE5, CHR 0xAD, CHR 0x97, CHR 0xE7, CHR 0xAC, CHR 0xA6]
             @ '')...'' @ replicate 50 (CHR ''a''))"
proof -
  define msg where "msg = CHR 0x0A # replicate 199 (CHR ''a'')"
  define e where "e = PrivateMessageEvent_zero M0\<lparr>Message := msg\<rparr>"
  have m: "Message_String M0 (Message e) = msg"
    by (simp add: e_def M0_def)
  have ascii: "\<forall>c \<in> set msg. byte c < 0x80"
    by (simp add: msg_def byte_def)
  then have r: "runes msg = map byte msg"
    by (rule runes_ascii)
  have len: "length (runes msg) = 200"
    by (simp add: r) (simp add: msg_def)
  have fr: "string_of_runes (take 50 (runes msg)) = CHR 0x0A # replicate 49 (CHR ''a'')"
  proof -
    have "take 50 (runes msg) = map byte (take 50 msg)"
      by (simp add: r take_map)
    moreover have "\<forall>c \<in> set (take 50 msg). byte c < 0x80"
      using ascii by (meson in_set_takeD)
    ultimately have "string_of_runes (take 50 (runes msg)) = take 50 msg"
      by (simp add: string_of_runes_ascii)
    then show ?thesis by (simp add: msg_def)
  qed
  have bk: "string_of_runes (drop 150 (runes msg)) = replicate 50 (CHR ''a'')"
  proof -
    have "drop 150 (runes msg) = map byte (drop 150 msg)"
      by (simp add: r drop_map)
    moreover have "\<forall>c \<in> set (drop 150 msg). byte c < 0x80"
      using ascii by (meson in_set_dropD)
    ultimately have "string_of_runes (drop 150 (runes msg)) = drop 150 msg"
      by (simp add: string_of_runes_ascii)
    then show ?thesis by (simp add: msg_def)
  qed
  note th = GetEventDescription_long [where M = M0 and e = e and g = "GroupMessageEvent_zero M0"
      and rs = "runes msg" and x = "[]" and s = "[]"]
  have a: "escape_newlines (replicate n (CHR ''a'')) = replicate n (CHR ''a'')" for n
    by (rule escape_newlines_id) simp
  from th have "escape_newlines (bounded_preview (runes msg))
       = escape_newlines (string_of_runes (take 50 (runes msg)))
         @ ''...('' @ [CHR 0xE7, CHR 0x9C, CHR 0x81, CHR 0xE7, CHR 0x95, CHR 0xA5]
         @ itoa (int (length (runes msg) - 100))
         @ [CHR 0xE4, CHR 0xB8, CHR 0xAA, CHR 0xE5, CHR 0xAD, CHR 0x97, CHR 0xE7, CHR 0xAC, CHR 0xA6]
         @ '')...''
         @ escape_newlines (string_of_runes (drop (length (runes msg) - 50) (runes msg)))"
    by blast
  then have esc: "escape_newlines (bounded_preview (runes msg))
               = [CHR 0x5C, CHR ''n''] @ replicate 49 (CHR ''a'')
                 @ ''...('' @ [CHR 0xE7, CHR 0x9C, CHR 0x81, CHR 0xE7, CHR 0x95, CHR 0xA5] @ ''100''
                 @ [CHR 0xE4, CHR 0xB8, CHR 0xAA, CHR 0xE5, CHR 0xAD, CHR 0x97, CHR 0xE7, CHR 0xAC,
                    CHR 0xA6]
                 @ '')...'' @ replicate 50 (CHR ''a'')"
    by (simp add: len fr bk itoa_100 escape_newlines_Cons a)
  have long: "100 < length (runes (Message_String M0 (Message e)))"
    by (simp add: m len)
  have ids: "MessageEvent.MessageId e = 0" "MessageEvent.UserId e = 0"
    by (simp_all add: e_def PrivateMessageEvent_zero_def)
  from th long
  have "PrivateMessageEvent_GetEventDescription M0 e
          = Inr (private_header (MessageEvent.MessageId e) (MessageEvent.UserId e)
                 @ escape_newlines (bounded_preview (runes (Message_String M0 (Message e)))))"
    by blast
  then have "PrivateMessageEvent_GetEventDescription M0 e
      = Inr (private_header 0 0 @ [CHR 0x5C, CHR ''n''] @ replicate 49 (CHR ''a'')
             @ ''...('' @ [CHR 0xE7, CHR 0x9C, CHR 0x81, CHR 0xE7, CHR 0x95, CHR 0xA5] @ ''100''
             @ [CHR 0xE4, CHR 0xB8, CHR 0xAA, CHR 0xE5, CHR 0xAD, CHR 0x97, CHR 0xE7, CHR 0xAC, CHR 0xA6]
             @ '')...'' @ replicate 50 (CHR ''a''))"
    by (simp only: m esc ids)
  with long show ?thesis
    unfolding e_def msg_def by blast
qed

text \<open>
  C8. \<open>GetEventDescription\<close> returns for every message event: no slice expression is
  out of range, whatever the content. For a content of at most 100 runes, the empty
  one included, the truncation leaves it as it is and only the newlines are escaped.
\<close>

theorem GetEventDescription_total:
  fixes e :: "('m, 'a) PrivateMessageEvent_scheme" and g :: "('m, 'b) GroupMessageEvent_scheme"
  shows
  "(\<exists>s. PrivateMessageEvent_GetEventDescription M e = Inr s)
   \<and> (\<exists>s. GroupMessageEvent_GetEventDescription M g = Inr s)
   \<and> (length (runes msg) \<le> 100 \<longrightarrow> truncate_msg msg = Inr msg)
   \<and> (length (runes (Message_String M (Message e))) \<le> 100 \<longrightarrow>
        PrivateMessageEvent_GetEventDescription M e
          = Inr (private_header (MessageEvent.MessageId e) (MessageEvent.UserId e)
                 @ escape_newlines (Message_String M (Message e))))
   \<and> (length (runes (Message_String M (Message g))) \<le> 100 \<longrightarrow>
        GroupMessageEvent_GetEventDescription M g
          = Inr (group_header (MessageEvent.MessageId g) (MessageEvent.UserId g)
                   (GroupMessageEvent.GroupId g)
                 @ escape_newlines (Message_String M (Message g))))
   \<and> truncate_msg [] = Inr []"
proof (intro conjI impI)
  obtain s where "truncate_msg (Message_String M (Message e)) = Inr s"
    using truncate_msg_total by blast
  then show "\<exists>s. PrivateMessageEvent_GetEventDescription M e = Inr s"
    by (simp add: PrivateMessageEvent_GetEventDescription_def)
next
  obtain s where "truncate_msg (Message_String M (Message g)) = Inr s"
    using truncate_msg_total by blast
  then show "\<exists>s. GroupMessageEvent_GetEventDescription M g = Inr s"
    by (simp add: GroupMessageEvent_GetEventDescription_def)
next
  assume "length (runes msg) \<le> 100"
  then show "truncate_msg msg = Inr msg" by (rule truncate_msg_short)
next
  assume "length (runes (Message_String M (Message e))) \<le> 100"
  then show "PrivateMessageEvent_GetEventDescription M e
          = Inr (private_header (MessageEvent.MessageId e) (MessageEvent.UserId e)
                 @ escape_newlines (Message_String M (Message e)))"
    by (simp add: PrivateMessageEvent_GetEventDescription_def truncate_msg_short)
next
  assume "length (runes (Message_String M (Message g))) \<le> 100"
  then show "GroupMessageEvent_GetEventDescription M g
          = Inr (group_header (MessageEvent.MessageId g) (MessageEvent.UserId g)
                   (GroupMessageEvent.GroupId g)
                 @ escape_newlines (Message_String M (Message g)))"
    by (simp add: GroupMessageEvent_GetEventDescription_def truncate_msg_short)
next
  show "truncate_msg [] = Inr []"
    by (simp add: truncate_msg_short runes_Nil)
qed

theorem GetEventDescription_total_witness:
  "length (runes (Message_String M0 (Message (PrivateMessageEvent_zero M0\<lparr>Message := ''hi''\<rparr>))))
     \<le> 100
   \<and> PrivateMessageEvent_GetEventDescription M0 (PrivateMessageEvent_zero M0\<lparr>Message := ''hi''\<rparr>)
      = Inr (private_header 0 0 @ ''hi'')
   \<and> PrivateMessageEvent_GetEventDescription M0 (PrivateMessageEvent_zero M0)
      = Inr (private_header 0 0)"
proof -
  define e where "e = PrivateMessageEvent_zero M0\<lparr>Message := ''hi''\<rparr>"
  have m: "Message_String M0 (Message e) = ''hi''"
    by (simp add: e_def M0_def)
  have "runes ''hi'' = map byte ''hi''"
    by (rule runes_ascii) (simp add: byte_def)
  then have short: "length (runes (Message_String M0 (Message e))) \<le> 100"
    by (simp add: m)
  have ids: "MessageEvent.MessageId e = 0" "MessageEvent.UserId e = 0"
    by (simp_all add: e_def PrivateMessageEvent_zero_def)
  have esc: "escape_newlines ''hi'' = ''hi''"
    by (rule escape_newlines_id) simp
  from GetEventDescription_total [of M0 e] short
  have "PrivateMessageEvent_GetEventDescription M0 e
          = Inr (private_header (MessageEvent.MessageId e) (MessageEvent.UserId e)
                 @ escape_newlines (Message_String M0 (Message e)))"
    by blast
  then have one: "PrivateMessageEvent_GetEventDescription M0 e = Inr (private_header 0 0 @ ''hi'')"
    by (simp only: m ids esc)
  define z :: "string PrivateMessageEvent" where "z = PrivateMessageEvent_zero M0"
  have mz: "Message_String M0 (Message z) = []"
    by (simp add: z_def M0_def PrivateMessageEvent_zero_def)
  have shortz: "length (runes (Message_String M0 (Message z))) \<le> 100"
    by (simp add: mz runes_Nil)
  have idz: "MessageEvent.MessageId z = 0" "MessageEvent.UserId z = 0"
    by (simp_all add: z_def PrivateMessageEvent_zero_def)
  from GetEventDescription_total [of M0 z] shortz
  have "PrivateMessageEvent_GetEventDescription M0 z
          = Inr (private_header (MessageEvent.MessageId z) (MessageEvent.UserId z)
                 @ escape_newlines (Message_String M0 (Message z)))"
    by blast
  then have two: "PrivateMessageEvent_GetEventDescription M0 z = Inr (private_header 0 0)"
    by (simp only: mz idz escape_newlines_Nil append_Nil2)
  from short one two show ?thesis
    unfolding e_def z_def by blast
qed

section \<open>Properties: decoding into a struct\<close>

lemma foldName_names:
  "foldName ''time'' = ''TIME''"
  "foldName ''self_id'' = ''SELF_ID''"
  "foldName ''post_type'' = ''POST_TYPE''"
  "foldName ''message_type'' = ''MESSAGE_TYPE''"
  "foldName ''sub_type'' = ''SUB_TYPE''"
  "foldName ''message_id'' = ''MESSAGE_ID''"
  "foldName ''user_id'' = ''USER_ID''"
  "foldName ''message'' = ''MESSAGE''"
  "foldName ''raw_message'' = ''RAW_MESSAGE''"
  "foldName ''font'' = ''FONT''"
  "foldName ''Sender'' = ''SENDER''"
  "foldName ''sender'' = ''SENDER''"
  "foldName ''group_id'' = ''GROUP_ID''"
  "foldName ''anonymous'' = ''ANONYMOUS''"
  "foldName ''meta_event_type'' = ''META_EVENT_TYPE''"
  "foldName ''status'' = ''STATUS''"
  "foldName ''interval'' = ''INTERVAL''"
  "foldName ''notice_type'' = ''NOTICE_TYPE''"
  "foldName ''file'' = ''FILE''"
  "foldName ''operator_id'' = ''OPERATOR_ID''"
  "foldName ''duration'' = ''DURATION''"
  "foldName ''target_id'' = ''TARGET_ID''"
  "foldName ''honor_type'' = ''HONOR_TYPE''"
  "foldName ''request_type'' = ''REQUEST_TYPE''"
  "foldName ''comment'' = ''COMMENT''"
  "foldName ''flag'' = ''FLAG''"
  "foldName ''EventName'' = ''EVENTNAME''"
  "foldName ''ToMe'' = ''TOME''"
  by (simp_all add: foldName.simps upper_def byte_def char_of_def bit_Suc_0_iff)

lemma type_mismatch_simps:
  "type_mismatch (KInt b) v = (v \<noteq> JNull \<and> (\<forall>n. v \<noteq> JInt n) \<and> (\<forall>x. v \<noteq> JFloat x))"
  "type_mismatch KString v = (v \<noteq> JNull \<and> (\<forall>x. v \<noteq> JStr x))"
  "type_mismatch KBool v = (v \<noteq> JNull \<and> (\<forall>x. v \<noteq> JBool x))"
  "type_mismatch KStruct v = (v \<noteq> JNull \<and> (\<forall>x. v \<noteq> JObj x))"
  "type_mismatch KPtr v = (v \<noteq> JNull \<and> (\<forall>x. v \<noteq> JObj x))"
  "type_mismatch KMessage v = False"
  by (cases v; simp add: type_mismatch_def)+

lemma field_ok_int:
  assumes "foldName n \<noteq> ''POST_TYPE''" "foldName n \<noteq> ''EVENTNAME''" "foldName n \<noteq> ''TOME''"
    and "\<forall>g s. ToMe (upd g s) = ToMe s \<and> EventName (upd g s) = EventName s
              \<and> PostType (upd g s) = PostType s"
  shows "field_ok (n, int_field b upd)"
  using assms
  by (auto simp: field_ok_def int_field_def type_mismatch_simps split: json.splits if_splits)

lemma field_ok_string:
  assumes "foldName n \<noteq> ''POST_TYPE''" "foldName n \<noteq> ''EVENTNAME''" "foldName n \<noteq> ''TOME''"
    and "\<forall>g s. ToMe (upd g s) = ToMe s \<and> EventName (upd g s) = EventName s
              \<and> PostType (upd g s) = PostType s"
  shows "field_ok (n, string_field upd)"
  using assms
  by (auto simp: field_ok_def string_field_def type_mismatch_simps split: json.splits)

lemma field_ok_bool:
  assumes "foldName n \<noteq> ''POST_TYPE''" "foldName n \<noteq> ''EVENTNAME''" "foldName n \<noteq> ''TOME''"
    and "\<forall>g s. ToMe (upd g s) = ToMe s \<and> EventName (upd g s) = EventName s
              \<and> PostType (upd g s) = PostType s"
  shows "field_ok (n, bool_field upd)"
  using assms
  by (auto simp: field_ok_def bool_field_def type_mismatch_simps split: json.splits)

lemma field_ok_struct:
  assumes "foldName n \<noteq> ''POST_TYPE''" "foldName n \<noteq> ''EVENTNAME''" "foldName n \<noteq> ''TOME''"
    and "\<forall>g s. ToMe (upd g s) = ToMe s \<and> EventName (upd g s) = EventName s
              \<and> PostType (upd g s) = PostType s"
  shows "field_ok (n, struct_field fs get upd)"
  using assms
  by (auto simp: field_ok_def struct_field_def type_mismatch_simps split: json.splits)

lemma field_ok_ptr:
  assumes "foldName n \<noteq> ''POST_TYPE''" "foldName n \<noteq> ''EVENTNAME''" "foldName n \<noteq> ''TOME''"
    and "\<forall>g s. ToMe (upd g s) = ToMe s \<and> EventName (upd g s) = EventName s
              \<and> PostType (upd g s) = PostType s"
  shows "field_ok (n, ptr_field fs zero get upd)"
  using assms
  by (auto simp: field_ok_def ptr_field_def type_mismatch_simps split: json.splits)

lemma field_ok_message:
  assumes "foldName n \<noteq> ''POST_TYPE''" "foldName n \<noteq> ''EVENTNAME''" "foldName n \<noteq> ''TOME''"
    and "\<forall>g s. ToMe (upd g s) = ToMe s \<and> EventName (upd g s) = EventName s
              \<and> PostType (upd g s) = PostType s"
  shows "field_ok (n, message_field M get upd)"
  using assms
  by (auto simp: field_ok_def message_field_def type_mismatch_simps)

lemma field_ok_post_type: "field_ok (''post_type'', string_field PostType_update)"
  by (auto simp: field_ok_def string_field_def type_mismatch_simps foldName_names split: json.splits)

lemmas field_ok_intros = field_ok_int field_ok_string field_ok_bool field_ok_struct field_ok_ptr
  field_ok_message

lemma find_field_SomeD:
  assumes "find_field fs k = Some f"
  shows "f \<in> set fs \<and> foldName (fst f) = foldName k"
proof (cases "find (\<lambda>f. fst f = k) fs")
  case None
  with assms have "find (\<lambda>f. foldName (fst f) = foldName k) fs = Some f"
    by (simp add: find_field_def)
  then show ?thesis
    by (auto simp: find_Some_iff)
next
  case (Some g)
  with assms have "find (\<lambda>f. fst f = k) fs = Some f"
    by (simp add: find_field_def)
  then show ?thesis
    by (auto simp: find_Some_iff)
qed

lemma find_field_NoneI:
  assumes "\<forall>f \<in> set fs. foldName (fst f) \<noteq> foldName k"
  shows "find_field fs k = None"
proof -
  from assms have "find (\<lambda>f. foldName (fst f) = foldName k) fs = None"
    by (fastforce simp: find_None_iff)
  moreover from assms have "find (\<lambda>f. fst f = k) fs = None"
    by (auto simp: find_None_iff)
  ultimately show ?thesis
    by (simp add: find_field_def)
qed

lemma find_field_SomeI:
  assumes "g \<in> set fs" and "foldName (fst g) = foldName k"
  shows "\<exists>f. find_field fs k = Some f"
proof (cases "find (\<lambda>f. fst f = k) fs")
  case None
  have "find (\<lambda>f. foldName (fst f) = foldName k) fs \<noteq> None"
  proof
    assume "find (\<lambda>f. foldName (fst f) = foldName k) fs = None"
    then have "\<forall>f \<in> set fs. foldName (fst f) \<noteq> foldName k"
      unfolding find_None_iff by blast
    with assms show False by blast
  qed
  then obtain f where "find (\<lambda>f. foldName (fst f) = foldName k) fs = Some f"
    by blast
  with None have "find_field fs k = Some f"
    by (simp add: find_field_def)
  then show ?thesis by blast
next
  case (Some f)
  then have "find_field fs k = Some f"
    by (simp add: find_field_def)
  then show ?thesis by blast
qed

lemma field_okD:
  assumes "list_all field_ok fs" and "find_field fs k = Some f"
  shows "field_ok f" and "foldName (fst f) = foldName k"
  using assms find_field_SomeD [of fs k f] by (auto simp: list_all_iff)

lemma unmarshal_object_derived:
  assumes ok: "list_all field_ok fs" and un: "unmarshal_object fs kvs s = Some s'"
  shows "ToMe s' = ToMe s \<and> EventName s' = EventName s"
  using un
proof (induction kvs arbitrary: s)
  case Nil
  then show ?case by simp
next
  case (Cons kv kvs)
  show ?case
  proof (cases "find_field fs (fst kv)")
    case None
    with Cons show ?thesis by simp
  next
    case (Some f)
    with Cons.prems obtain s1 where d: "snd (snd f) (snd kv) s = Some s1"
      and r: "unmarshal_object fs kvs s1 = Some s'"
      by (auto split: option.splits)
    from field_okD(1) [OF ok Some] d have "ToMe s1 = ToMe s \<and> EventName s1 = EventName s"
      unfolding field_ok_def by blast
    with Cons.IH [OF r] show ?thesis by simp
  qed
qed

lemma unmarshal_object_PostType_frame:
  assumes ok: "list_all field_ok fs" and un: "unmarshal_object fs kvs s = Some s'"
    and no: "\<forall>kv \<in> set kvs. foldName (fst kv) \<noteq> ''POST_TYPE''"
  shows "PostType s' = PostType s"
  using un no
proof (induction kvs arbitrary: s)
  case Nil
  then show ?case by simp
next
  case (Cons kv kvs)
  show ?case
  proof (cases "find_field fs (fst kv)")
    case None
    with Cons show ?thesis by simp
  next
    case (Some f)
    with Cons.prems obtain s1 where d: "snd (snd f) (snd kv) s = Some s1"
      and r: "unmarshal_object fs kvs s1 = Some s'"
      by (auto split: option.splits)
    from field_okD [OF ok Some] Cons.prems(2) have "foldName (fst f) \<noteq> ''POST_TYPE''"
      by simp
    with field_okD(1) [OF ok Some] d have "PostType s1 = PostType s"
      unfolding field_ok_def by metis
    moreover from Cons.IH [OF r] Cons.prems(2) have "PostType s' = PostType s1" by simp
    ultimately show ?thesis by simp
  qed
qed

lemma unmarshal_object_PostType:
  assumes ok: "list_all field_ok fs" and has: "\<exists>f \<in> set fs. foldName (fst f) = ''POST_TYPE''"
    and un: "unmarshal_object fs kvs s = Some s'"
    and one: "filter (\<lambda>kv. foldName (fst kv) = ''POST_TYPE'') kvs = [(k, JStr p)]"
  shows "PostType s' = p"
  using un one
proof (induction kvs arbitrary: s)
  case Nil
  then show ?case by simp
next
  case (Cons kv kvs)
  show ?case
  proof (cases "foldName (fst kv) = ''POST_TYPE''")
    case True
    with Cons.prems(2) have kv: "kv = (k, JStr p)"
      and rest: "\<forall>kv \<in> set kvs. foldName (fst kv) \<noteq> ''POST_TYPE''"
      by (auto simp: filter_empty_conv)
    from has True obtain f where f: "find_field fs (fst kv) = Some f"
      using find_field_SomeI [of _ fs "fst kv"] by metis
    with Cons.prems(1) obtain s1 where d: "snd (snd f) (snd kv) s = Some s1"
      and r: "unmarshal_object fs kvs s1 = Some s'"
      by (auto split: option.splits)
    from field_okD [OF ok f] True have "foldName (fst f) = ''POST_TYPE''" by simp
    with field_okD(1) [OF ok f] d kv have "JStr p = JStr (PostType s1)"
      unfolding field_ok_def by (metis json.distinct(7) snd_conv)
    then have "PostType s1 = p" by simp
    with unmarshal_object_PostType_frame [OF ok r rest] show ?thesis by simp
  next
    case False
    with Cons.prems(2) have one': "filter (\<lambda>kv. foldName (fst kv) = ''POST_TYPE'') kvs = [(k, JStr p)]"
      by simp
    show ?thesis
    proof (cases "find_field fs (fst kv)")
      case None
      with Cons.prems(1) have "unmarshal_object fs kvs s = Some s'" by simp
      from Cons.IH [OF this one'] show ?thesis .
    next
      case (Some f)
      with Cons.prems(1) obtain s1 where r: "unmarshal_object fs kvs s1 = Some s'"
        by (auto split: option.splits)
      from Cons.IH [OF r one'] show ?thesis .
    qed
  qed
qed

lemma unmarshal_object_sound:
  assumes ok: "list_all field_ok fs" and un: "unmarshal_object fs kvs s = Some s'"
    and mem: "(k, v) \<in> set kvs" and f: "find_field fs k = Some f"
  shows "\<not> type_mismatch (fst (snd f)) v"
  using un mem
proof (induction kvs arbitrary: s)
  case Nil
  then show ?case by simp
next
  case (Cons kv kvs)
  show ?case
  proof (cases "kv = (k, v)")
    case True
    with Cons.prems(1) f obtain s1 where "snd (snd f) v s = Some s1"
      by (auto split: option.splits)
    with field_okD(1) [OF ok f] show ?thesis
      unfolding field_ok_def by (metis option.distinct(1))
  next
    case False
    with Cons.prems(2) have m: "(k, v) \<in> set kvs" by simp
    show ?thesis
    proof (cases "find_field fs (fst kv)")
      case None
      with Cons.prems(1) have "unmarshal_object fs kvs s = Some s'" by simp
      from Cons.IH [OF this m] show ?thesis .
    next
      case (Some g)
      with Cons.prems(1) obtain s1 where r: "unmarshal_object fs kvs s1 = Some s'"
        by (auto split: option.splits)
      from Cons.IH [OF r m] show ?thesis .
    qed
  qed
qed

lemma derived_key_no_field:
  assumes ok: "list_all field_ok fs"
    and k: "key_matches ''EventName'' k \<or> key_matches ''ToMe'' k"
  shows "find_field fs k = None"
proof (rule find_field_NoneI, rule ballI)
  fix f assume "f \<in> set fs"
  with ok have "foldName (fst f) \<noteq> ''EVENTNAME'' \<and> foldName (fst f) \<noteq> ''TOME''"
    by (auto simp: list_all_iff field_ok_def)
  moreover from k have "foldName k = ''EVENTNAME'' \<or> foldName k = ''TOME''"
    by (auto simp: key_matches_def foldName_names)
  ultimately show "foldName (fst f) \<noteq> foldName k" by auto
qed

lemma unmarshal_object_without_derived:
  assumes ok: "list_all field_ok fs"
  shows "unmarshal_object fs (without_keys [''EventName'', ''ToMe''] kvs) s = unmarshal_object fs kvs s"
proof (induction kvs arbitrary: s)
  case Nil
  then show ?case by (simp add: without_keys_def)
next
  case (Cons kv kvs)
  have w: "without_keys [''EventName'', ''ToMe''] (kv # kvs) =
        (if key_matches ''EventName'' (fst kv) \<or> key_matches ''ToMe'' (fst kv)
         then without_keys [''EventName'', ''ToMe''] kvs
         else kv # without_keys [''EventName'', ''ToMe''] kvs)"
    by (simp add: without_keys_def)
  show ?case
  proof (cases "key_matches ''EventName'' (fst kv) \<or> key_matches ''ToMe'' (fst kv)")
    case True
    from derived_key_no_field [OF ok True] have "find_field fs (fst kv) = None" .
    with True w Cons.IH show ?thesis by simp
  next
    case False
    with w Cons.IH show ?thesis by (simp split: option.splits)
  qed
qed

lemma Event_fields_ok: "list_all field_ok Event_fields"
  by (simp add: Event_fields_def field_ok_post_type field_ok_intros foldName_names)

lemma Event_fields_post_type: "\<exists>f \<in> set Event_fields. foldName (fst f) = ''POST_TYPE''"
  by (simp add: Event_fields_def foldName_names)

lemma MessageEvent_fields_ok: "list_all field_ok (MessageEvent_fields M)"
  by (simp add: MessageEvent_fields_def Event_fields_ok field_ok_intros foldName_names)

lemma MessageEvent_fields_post_type:
  "\<exists>f \<in> set (MessageEvent_fields M). foldName (fst f) = ''POST_TYPE''"
  using Event_fields_post_type by (auto simp: MessageEvent_fields_def)

lemma PrivateMessageEvent_fields_ok: "list_all field_ok (PrivateMessageEvent_fields M)"
  by (simp add: PrivateMessageEvent_fields_def MessageEvent_fields_ok field_ok_intros foldName_names)

lemma PrivateMessageEvent_fields_post_type:
  "\<exists>f \<in> set (PrivateMessageEvent_fields M). foldName (fst f) = ''POST_TYPE''"
  using MessageEvent_fields_post_type by (auto simp: PrivateMessageEvent_fields_def)

lemma GroupMessageEvent_fields_ok: "list_all field_ok (GroupMessageEvent_fields M)"
  by (simp add: GroupMessageEvent_fields_def MessageEvent_fields_ok field_ok_intros foldName_names)

lemma GroupMessageEvent_fields_post_type:
  "\<exists>f \<in> set (GroupMessageEvent_fields M). foldName (fst f) = ''POST_TYPE''"
  using MessageEvent_fields_post_type by (auto simp: GroupMessageEvent_fields_def)

lemma LifeCycleMetaEvent_fields_ok: "list_all field_ok LifeCycleMetaEvent_fields"
  by (simp add: LifeCycleMetaEvent_fields_def Event_fields_ok field_ok_intros foldName_names)

lemma LifeCycleMetaEvent_fields_post_type:
  "\<exists>f \<in> set LifeCycleMetaEvent_fields. foldName (fst f) = ''POST_TYPE''"
  using Event_fields_post_type by (auto simp: LifeCycleMetaEvent_fields_def)

lemma HeartbeatMetaEvent_fields_ok: "list_all field_ok HeartbeatMetaEvent_fields"
  by (simp add: HeartbeatMetaEvent_fields_def Event_fields_ok field_ok_intros foldName_names)

lemma HeartbeatMetaEvent_fields_post_type:
  "\<exists>f \<in> set HeartbeatMetaEvent_fields. foldName (fst f) = ''POST_TYPE''"
  using Event_fields_post_type by (auto simp: HeartbeatMetaEvent_fields_def)

lemma NoticeEvent_fields_ok: "list_all field_ok NoticeEvent_fields"
  by (simp add: NoticeEvent_fields_def Event_fields_ok field_ok_intros foldName_names)

lemma NoticeEvent_fields_post_type:
  "\<exists>f \<in> set NoticeEvent_fields. foldName (fst f) = ''POST_TYPE''"
  using Event_fields_post_type by (auto simp: NoticeEvent_fields_def)

lemma GroupUploadNoticeEvent_fields_ok: "list_all field_ok GroupUploadNoticeEvent_fields"
  by (simp add: GroupUploadNoticeEvent_fields_def NoticeEvent_fields_ok field_ok_intros foldName_names)

lemma GroupUploadNoticeEvent_fields_post_type:
  "\<exists>f \<in> set GroupUploadNoticeEvent_fields. foldName (fst f) = ''POST_TYPE''"
  using NoticeEvent_fields_post_type by (auto simp: GroupUploadNoticeEvent_fields_def)

lemma GroupAdminNoticeEvent_fields_ok: "list_all field_ok GroupAdminNoticeEvent_fields"
  by (simp add: GroupAdminNoticeEvent_fields_def NoticeEvent_fields_ok field_ok_intros foldName_names)

lemma GroupAdminNoticeEvent_fields_post_type:
  "\<exists>f \<in> set GroupAdminNoticeEvent_fields. foldName (fst f) = ''POST_TYPE''"
  using NoticeEvent_fields_post_type by (auto simp: GroupAdminNoticeEvent_fields_def)

lemma GroupIncreaseNoticeEvent_fields_ok: "list_all field_ok GroupIncreaseNoticeEvent_fields"
  by (simp add: GroupIncreaseNoticeEvent_fields_def NoticeEvent_fields_ok field_ok_intros foldName_names)

lemma GroupIncreaseNoticeEvent_fields_post_type:
  "\<exists>f \<in> set GroupIncreaseNoticeEvent_fields. foldName (fst f) = ''POST_TYPE''"
  using NoticeEvent_fields_post_type by (auto simp: GroupIncreaseNoticeEvent_fields_def)

lemma GroupDecreaseNoticeEvent_fields_ok: "list_all field_ok GroupDecreaseNoticeEvent_fields"
  by (simp add: GroupDecreaseNoticeEvent_fields_def NoticeEvent_fields_ok field_ok_intros foldName_names)

lemma GroupDecreaseNoticeEvent_fields_post_type:
  "\<exists>f \<in> set GroupDecreaseNoticeEvent_fields. foldName (fst f) = ''POST_TYPE''"
  using NoticeEvent_fields_post_type by (auto simp: GroupDecreaseNoticeEvent_fields_def)

lemma GroupBanNoticeEvent_fields_ok: "list_all field_ok GroupBanNoticeEvent_fields"
  by (simp add: GroupBanNoticeEvent_fields_def NoticeEvent_fields_ok field_ok_intros foldName_names)

lemma GroupBanNoticeEvent_fields_post_type:
  "\<exists>f \<in> set GroupBanNoticeEvent_fields. foldName (fst f) = ''POST_TYPE''"
  using NoticeEvent_fields_post_type by (auto simp: GroupBanNoticeEvent_fields_def)

lemma FriendAddNoticeEvent_fields_ok: "list_all field_ok FriendAddNoticeEvent_fields"
  by (simp add: FriendAddNoticeEvent_fields_def NoticeEvent_fields_ok field_ok_intros foldName_names)

lemma FriendAddNoticeEvent_fields_post_type:
  "\<exists>f \<in> set FriendAddNoticeEvent_fields. foldName (fst f) = ''POST_TYPE''"
  using NoticeEvent_fields_post_type by (auto simp: FriendAddNoticeEvent_fields_def)

lemma GroupRecallNoticeEvent_fields_ok: "list_all field_ok GroupRecallNoticeEvent_fields"
  by (simp add: GroupRecallNoticeEvent_fields_def NoticeEvent_fields_ok field_ok_intros foldName_names)

lemma GroupRecallNoticeEvent_fields_post_type:
  "\<exists>f \<in> set GroupRecallNoticeEvent_fields. foldName (fst f) = ''POST_TYPE''"
  using NoticeEvent_fields_post_type by (auto simp: GroupRecallNoticeEvent_fields_def)

lemma FriendRecallNoticeEvent_fields_ok: "list_all field_ok FriendRecallNoticeEvent_fields"
  by (simp add: FriendRecallNoticeEvent_fields_def NoticeEvent_fields_ok field_ok_intros foldName_names)

lemma FriendRecallNoticeEvent_fields_post_type:
  "\<exists>f \<in> set FriendRecallNoticeEvent_fields. foldName (fst f) = ''POST_TYPE''"
  using NoticeEvent_fields_post_type by (auto simp: FriendRecallNoticeEvent_fields_def)

lemma PokeNoticeEvent_fields_ok: "list_all field_ok PokeNoticeEvent_fields"
  by (simp add: PokeNoticeEvent_fields_def NoticeEvent_fields_ok field_ok_intros foldName_names)

lemma PokeNoticeEvent_fields_post_type:
  "\<exists>f \<in> set PokeNoticeEvent_fields. foldName (fst f) = ''POST_TYPE''"
  using NoticeEvent_fields_post_type by (auto simp: PokeNoticeEvent_fields_def)

lemma LuckyKingNoticeEvent_fields_ok: "list_all field_ok LuckyKingNoticeEvent_fields"
  by (simp add: LuckyKingNoticeEvent_fields_def NoticeEvent_fields_ok field_ok_intros foldName_names)

lemma LuckyKingNoticeEvent_fields_post_type:
  "\<exists>f \<in> set LuckyKingNoticeEvent_fields. foldName (fst f) = ''POST_TYPE''"
  using NoticeEvent_fields_post_type by (auto simp: LuckyKingNoticeEvent_fields_def)

lemma HonorNoticeEvent_fields_ok: "list_all field_ok HonorNoticeEvent_fields"
  by (simp add: HonorNoticeEvent_fields_def NoticeEvent_fields_ok field_ok_intros foldName_names)

lemma HonorNoticeEvent_fields_post_type:
  "\<exists>f \<in> set HonorNoticeEvent_fields. foldName (fst f) = ''POST_TYPE''"
  using NoticeEvent_fields_post_type by (auto simp: HonorNoticeEvent_fields_def)

lemma FriendRequestEvent_fields_ok: "list_all field_ok FriendRequestEvent_fields"
  by (simp add: FriendRequestEvent_fields_def Event_fields_ok field_ok_intros foldName_names)

lemma FriendRequestEvent_fields_post_type:
  "\<exists>f \<in> set FriendRequestEvent_fields. foldName (fst f) = ''POST_TYPE''"
  using Event_fields_post_type by (auto simp: FriendRequestEvent_fields_def)

lemma GroupRequestEvent_fields_ok: "list_all field_ok GroupRequestEvent_fields"
  by (simp add: GroupRequestEvent_fields_def Event_fields_ok field_ok_intros foldName_names)

lemma GroupRequestEvent_fields_post_type:
  "\<exists>f \<in> set GroupRequestEvent_fields. foldName (fst f) = ''POST_TYPE''"
  using Event_fields_post_type by (auto simp: GroupRequestEvent_fields_def)

lemmas fields_ok =
  PrivateMessageEvent_fields_ok GroupMessageEvent_fields_ok
      GroupUploadNoticeEvent_fields_ok GroupAdminNoticeEvent_fields_ok
      GroupDecreaseNoticeEvent_fields_ok GroupIncreaseNoticeEvent_fields_ok
      GroupBanNoticeEvent_fields_ok FriendAddNoticeEvent_fields_ok
      GroupRecallNoticeEvent_fields_ok FriendRecallNoticeEvent_fields_ok
      PokeNoticeEvent_fields_ok LuckyKingNoticeEvent_fields_ok HonorNoticeEvent_fields_ok
      FriendRequestEvent_fields_ok GroupRequestEvent_fields_ok
      LifeCycleMetaEvent_fields_ok HeartbeatMetaEvent_fields_ok

lemmas fields_post_type =
  PrivateMessageEvent_fields_post_type GroupMessageEvent_fields_post_type
      GroupUploadNoticeEvent_fields_post_type GroupAdminNoticeEvent_fields_post_type
      GroupDecreaseNoticeEvent_fields_post_type GroupIncreaseNoticeEvent_fields_post_type
      GroupBanNoticeEvent_fields_post_type FriendAddNoticeEvent_fields_post_type
      GroupRecallNoticeEvent_fields_post_type FriendRecallNoticeEvent_fields_post_type
      PokeNoticeEvent_fields_post_type LuckyKingNoticeEvent_fields_post_type
      HonorNoticeEvent_fields_post_type FriendRequestEvent_fields_post_type
      GroupRequestEvent_fields_post_type LifeCycleMetaEvent_fields_post_type
      HeartbeatMetaEvent_fields_post_type

lemmas fields_derived = fields_ok [THEN unmarshal_object_derived]
lemmas fields_sound = fields_ok [THEN unmarshal_object_sound]
lemmas fields_without_derived = fields_ok [THEN unmarshal_object_without_derived]

lemmas fields_PostType =
  unmarshal_object_PostType [OF PrivateMessageEvent_fields_ok PrivateMessageEvent_fields_post_type]
  unmarshal_object_PostType [OF GroupMessageEvent_fields_ok GroupMessageEvent_fields_post_type]
  unmarshal_object_PostType [OF GroupUploadNoticeEvent_fields_ok GroupUploadNoticeEvent_fields_post_type]
  unmarshal_object_PostType [OF GroupAdminNoticeEvent_fields_ok GroupAdminNoticeEvent_fields_post_type]
  unmarshal_object_PostType [OF GroupDecreaseNoticeEvent_fields_ok GroupDecreaseNoticeEvent_fields_post_type]
  unmarshal_object_PostType [OF GroupIncreaseNoticeEvent_fields_ok GroupIncreaseNoticeEvent_fields_post_type]
  unmarshal_object_PostType [OF GroupBanNoticeEvent_fields_ok GroupBanNoticeEvent_fields_post_type]
  unmarshal_object_PostType [OF FriendAddNoticeEvent_fields_ok FriendAddNoticeEvent_fields_post_type]
  unmarshal_object_PostType [OF GroupRecallNoticeEvent_fields_ok GroupRecallNoticeEvent_fields_post_type]
  unmarshal_object_PostType [OF FriendRecallNoticeEvent_fields_ok FriendRecallNoticeEvent_fields_post_type]
  unmarshal_object_PostType [OF PokeNoticeEvent_fields_ok PokeNoticeEvent_fields_post_type]
  unmarshal_object_PostType [OF LuckyKingNoticeEvent_fields_ok LuckyKingNoticeEvent_fields_post_type]
  unmarshal_object_PostType [OF HonorNoticeEvent_fields_ok HonorNoticeEvent_fields_post_type]
  unmarshal_object_PostType [OF FriendRequestEvent_fields_ok FriendRequestEvent_fields_post_type]
  unmarshal_object_PostType [OF GroupRequestEvent_fields_ok GroupRequestEvent_fields_post_type]
  unmarshal_object_PostType [OF LifeCycleMetaEvent_fields_ok LifeCycleMetaEvent_fields_post_type]
  unmarshal_object_PostType [OF HeartbeatMetaEvent_fields_ok HeartbeatMetaEvent_fields_post_type]

lemma unmarshal_struct_derived:
  assumes "unmarshal_struct M kvs ev = Some ev'"
  shows "ToMe (Event_of ev') = ToMe (Event_of ev) \<and> EventName (Event_of ev') = EventName (Event_of ev)
         \<and> TypeOf ev' = TypeOf ev"
  using assms
  by (cases ev) (auto simp: Event.truncate_def dest: fields_derived)

lemma unmarshal_struct_PostType:
  assumes "unmarshal_struct M kvs ev = Some ev'"
    and "filter (\<lambda>kv. foldName (fst kv) = ''POST_TYPE'') kvs = [(k, JStr p)]"
  shows "PostType (Event_of ev') = p"
  using assms
  by (cases ev) (auto simp: Event.truncate_def dest: fields_PostType)

lemma unmarshal_struct_sound:
  assumes "unmarshal_struct M kvs ev = Some ev'" and "(k, v) \<in> set kvs"
    and "field_kind M ev k = Some kd"
  shows "\<not> type_mismatch kd v"
  using assms
  by (cases ev) (auto simp: kind_of_key_def dest: fields_sound)

lemma unmarshal_struct_without_derived:
  "unmarshal_struct M (without_keys [''EventName'', ''ToMe''] kvs) ev = unmarshal_struct M kvs ev"
  by (cases ev) (simp_all add: fields_without_derived)

section \<open>Properties: the switch and a successful decoding\<close>

lemma split_dot:
  "CHR ''.'' \<notin> set a \<Longrightarrow> CHR ''.'' \<notin> set b \<Longrightarrow>
     (p @ CHR ''.'' # n = a @ CHR ''.'' # b) = (p = a \<and> n = b)"
proof (induction a arbitrary: p)
  case Nil
  then show ?case by (cases p) auto
next
  case (Cons x a)
  then show ?case by (cases p) auto
qed

lemma typeName_eqs:
  "(p @ CHR ''.'' # n = ''message.private'') = (p = ''message'' \<and> n = ''private'')"
  "(p @ CHR ''.'' # n = ''message.group'') = (p = ''message'' \<and> n = ''group'')"
  "(p @ CHR ''.'' # n = ''notice.group_upload'') = (p = ''notice'' \<and> n = ''group_upload'')"
  "(p @ CHR ''.'' # n = ''notice.group_admin'') = (p = ''notice'' \<and> n = ''group_admin'')"
  "(p @ CHR ''.'' # n = ''notice.group_decrease'') = (p = ''notice'' \<and> n = ''group_decrease'')"
  "(p @ CHR ''.'' # n = ''notice.group_increase'') = (p = ''notice'' \<and> n = ''group_increase'')"
  "(p @ CHR ''.'' # n = ''notice.group_ban'') = (p = ''notice'' \<and> n = ''group_ban'')"
  "(p @ CHR ''.'' # n = ''notice.friend_add'') = (p = ''notice'' \<and> n = ''friend_add'')"
  "(p @ CHR ''.'' # n = ''notice.group_recall'') = (p = ''notice'' \<and> n = ''group_recall'')"
  "(p @ CHR ''.'' # n = ''notice.friend_recall'') = (p = ''notice'' \<and> n = ''friend_recall'')"
  "(p @ CHR ''.'' # n = ''notice.notify'') = (p = ''notice'' \<and> n = ''notify'')"
  "(p @ CHR ''.'' # n = ''request.friend'') = (p = ''request'' \<and> n = ''friend'')"
  "(p @ CHR ''.'' # n = ''request.group'') = (p = ''request'' \<and> n = ''group'')"
  "(p @ CHR ''.'' # n = ''meta_event.lifecycle'') = (p = ''meta_event'' \<and> n = ''lifecycle'')"
  "(p @ CHR ''.'' # n = ''meta_event.heartbeat'') = (p = ''meta_event'' \<and> n = ''heartbeat'')"
  using split_dot [of "''message''" "''private''" p n]
    split_dot [of "''message''" "''group''" p n]
    split_dot [of "''notice''" "''group_upload''" p n]
    split_dot [of "''notice''" "''group_admin''" p n]
    split_dot [of "''notice''" "''group_decrease''" p n]
    split_dot [of "''notice''" "''group_increase''" p n]
    split_dot [of "''notice''" "''group_ban''" p n]
    split_dot [of "''notice''" "''friend_add''" p n]
    split_dot [of "''notice''" "''group_recall''" p n]
    split_dot [of "''notice''" "''friend_recall''" p n]
    split_dot [of "''notice''" "''notify''" p n]
    split_dot [of "''request''" "''friend''" p n]
    split_dot [of "''request''" "''group''" p n]
    split_dot [of "''meta_event''" "''lifecycle''" p n]
    split_dot [of "''meta_event''" "''heartbeat''" p n]
  by simp_all

lemma newEvent_unknown:
  assumes "(p, n) \<notin> set typeName_table"
  shows "newEvent M (p @ ''.'' @ n) sub = Inl (PanicString (''unknown event type: '' @ p @ ''.'' @ n))"
  using assms by (simp add: newEvent_def typeName_eqs typeName_table_def)

lemma newEvent_known:
  assumes "newEvent M (p @ ''.'' @ n) sub = Inr r"
  shows "(p, n) \<in> set typeName_table"
  using assms newEvent_unknown [of p n M sub] by auto

lemma newEvent_sub:
  "tn \<noteq> ''notice.notify'' \<Longrightarrow> newEvent M tn sub = newEvent M tn sub'"
  by (simp add: newEvent_def)

lemma table_postType:
  assumes "(p, n) \<in> set typeName_table"
  shows "p = ''message'' \<or> p = ''notice'' \<or> p = ''request'' \<or> p = ''meta_event''"
  using assms by (auto simp: typeName_table_def)

lemma table_no_dots:
  assumes "(p, n) \<in> set typeName_table"
  shows "CHR ''.'' \<notin> set p \<and> CHR ''.'' \<notin> set n"
  using assms by (auto simp: typeName_table_def)

lemma plain_names:
  "plain_key ''post_type''" "plain_key ''sub_type''" "plain_key ''message_type''"
  "plain_key ''notice_type''" "plain_key ''request_type''" "plain_key ''meta_event_type''"
  by (simp_all add: plain_key_def plain_char_def byte_def)

lemma newEvent_zero:
  assumes "newEvent M tn sub = Inr (Some ev0)"
  shows "ToMe (Event_of ev0) = False"
  using assms
  by (auto simp: newEvent_def Event.truncate_def PrivateMessageEvent_zero_def GroupMessageEvent_zero_def
      GroupUploadNoticeEvent_zero_def GroupAdminNoticeEvent_zero_def GroupDecreaseNoticeEvent_zero_def
      GroupIncreaseNoticeEvent_zero_def GroupBanNoticeEvent_zero_def FriendAddNoticeEvent_zero_def
      GroupRecallNoticeEvent_zero_def FriendRecallNoticeEvent_zero_def PokeNoticeEvent_zero_def
      LuckyKingNoticeEvent_zero_def HonorNoticeEvent_zero_def FriendRequestEvent_zero_def
      GroupRequestEvent_zero_def LifeCycleMetaEvent_zero_def HeartbeatMetaEvent_zero_def
      split: if_splits)

lemmas convert_eval = convertJsonObjectToEvent_def typeName_of_def postType_of_def nextType_of_def
  subType_of_def fullTypeName_of_def gjson_Get_def plain_key_def plain_char_def byte_def
  gjson_String_def gjson_Exists_def newEvent_def json_Unmarshal_def
  find_field_def string_field_def int_field_def bool_field_def struct_field_def ptr_field_def
  message_field_def G0_def M0_def

lemmas foldName_eval = foldName.simps upper_def char_of_def bit_Suc_0_iff

lemma private_message_decoded:
  "convertJsonObjectToEvent G0 M0 (isEventRelativeToBot M0) private_message_payload
     = Inr private_message_event"
  by (simp add: private_message_payload_def private_message_event_def convert_eval
      PrivateMessageEvent_fields_def MessageEvent_fields_def Event_fields_def
      PrivateMessageEvent_zero_def)

lemma shadowed_post_type_decoded:
  "convertJsonObjectToEvent G0 M0 (isEventRelativeToBot M0) shadowed_post_type_payload
     = Inr shadowed_post_type_event"
  by (simp add: shadowed_post_type_payload_def shadowed_post_type_event_def convert_eval
      PrivateMessageEvent_fields_def MessageEvent_fields_def Event_fields_def
      PrivateMessageEvent_zero_def foldName_eval)

lemma gjson_Get_plain_obj: "plain_key k \<Longrightarrow> gjson_Get G (JObj kvs) k = map_of kvs k"
  by (simp add: gjson_Get_def)

lemma gjson_Get_plain_other: "plain_key k \<Longrightarrow> \<forall>kvs. obj \<noteq> JObj kvs \<Longrightarrow> gjson_Get G obj k = None"
  by (cases obj) (simp_all add: gjson_Get_def)

lemma postType_of_other: "\<forall>kvs. obj \<noteq> JObj kvs \<Longrightarrow> postType_of G obj = []"
  by (simp add: postType_of_def gjson_Get_plain_other plain_names gjson_String_def)

lemma Event_of_setEventName:
  "Event_of (setEventField_EventName ev x) = (Event_of ev)\<lparr>EventName := x\<rparr>"
  by (cases ev) (simp_all add: Event.truncate_def)

lemma Event_of_setToMe:
  "Event_of (setEventField_ToMe ev x) = (Event_of ev)\<lparr>ToMe := x\<rparr>"
  by (cases ev) (simp_all add: Event.truncate_def)

lemma TypeOf_setEventName: "TypeOf (setEventField_EventName ev x) = TypeOf ev"
  by (cases ev) simp_all

lemma TypeOf_setToMe: "TypeOf (setEventField_ToMe ev x) = TypeOf ev"
  by (cases ev) simp_all

lemma convert_InrD:
  assumes "convertJsonObjectToEvent G M rel obj = Inr ev"
  obtains kvs ev0 ev1 where
    "obj = JObj kvs"
    "(postType_of G obj, nextType_of G obj) \<in> set typeName_table"
    "newEvent M (typeName_of G obj) (subType_of G obj) = Inr (Some ev0)"
    "unmarshal_struct M kvs ev0 = Some ev1"
    "ev = (if rel (setEventField_EventName ev1 (fullTypeName_of G obj))
           then setEventField_ToMe (setEventField_EventName ev1 (fullTypeName_of G obj)) True
           else setEventField_EventName ev1 (fullTypeName_of G obj))"
proof -
  from assms obtain r ev1 where
    n: "newEvent M (typeName_of G obj) (subType_of G obj) = Inr r"
    and u: "json_Unmarshal M obj r = Inr ev1"
    and e: "ev = (if rel (setEventField_EventName ev1 (fullTypeName_of G obj))
           then setEventField_ToMe (setEventField_EventName ev1 (fullTypeName_of G obj)) True
           else setEventField_EventName ev1 (fullTypeName_of G obj))"
    by (auto simp: convertJsonObjectToEvent_def Let_def split: sum.splits)
  from n have t: "(postType_of G obj, nextType_of G obj) \<in> set typeName_table"
    unfolding typeName_of_def by (rule newEvent_known)
  from u obtain ev0 where r: "r = Some ev0"
    by (cases r) (simp_all add: json_Unmarshal_def)
  from table_postType [OF t] have "postType_of G obj \<noteq> []" by auto
  with postType_of_other [of obj G] obtain kvs where o: "obj = JObj kvs" by blast
  from u r o have "unmarshal_struct M kvs ev0 = Some ev1"
    by (simp add: json_Unmarshal_def split: option.splits)
  with that o t n r e show thesis by blast
qed

lemma first_segment_dot: "CHR ''.'' \<notin> set p \<Longrightarrow> first_segment (p @ CHR ''.'' # r) = p"
  by (induction p) (auto simp: first_segment_def)

lemma dots_append: "dots (a @ b) = dots a + dots b"
  by (simp add: dots_def)

lemma dots_none: "CHR ''.'' \<notin> set a \<Longrightarrow> dots a = 0"
  by (induction a) (auto simp: dots_def)

lemma filter_single:
  assumes "length (filter P xs) \<le> 1" and "x \<in> set xs" and "P x"
  shows "filter P xs = [x]"
proof -
  from assms(2,3) have m: "x \<in> set (filter P xs)" by simp
  then obtain y ys where f: "filter P xs = y # ys" by (cases "filter P xs") auto
  with assms(1) have "ys = []" by simp
  with f m show ?thesis by simp
qed

lemma key_matches_post_type: "key_matches ''post_type'' k = (foldName k = ''POST_TYPE'')"
  by (auto simp: key_matches_def foldName_names)

lemma field_kind_post_type: "field_kind M ev ''post_type'' = Some KString"
  by (cases ev)
    (simp_all add: kind_of_key_def find_field_def string_field_def int_field_def
      PrivateMessageEvent_fields_def GroupMessageEvent_fields_def MessageEvent_fields_def
      Event_fields_def NoticeEvent_fields_def GroupUploadNoticeEvent_fields_def
      GroupAdminNoticeEvent_fields_def GroupDecreaseNoticeEvent_fields_def
      GroupIncreaseNoticeEvent_fields_def GroupBanNoticeEvent_fields_def
      FriendAddNoticeEvent_fields_def GroupRecallNoticeEvent_fields_def
      FriendRecallNoticeEvent_fields_def PokeNoticeEvent_fields_def
      LuckyKingNoticeEvent_fields_def HonorNoticeEvent_fields_def FriendRequestEvent_fields_def
      GroupRequestEvent_fields_def LifeCycleMetaEvent_fields_def HeartbeatMetaEvent_fields_def)

lemma decoded_post_type_member:
  assumes "convertJsonObjectToEvent G M rel (JObj kvs) = Inr ev"
  shows "map_of kvs ''post_type'' = Some (JStr (postType_of G (JObj kvs)))"
proof -
  from assms obtain kvs' ev0 ev1 where o: "JObj kvs = JObj kvs'"
    and t: "(postType_of G (JObj kvs), nextType_of G (JObj kvs)) \<in> set typeName_table"
    and u: "unmarshal_struct M kvs' ev0 = Some ev1"
    by (rule convert_InrD)
  from o u have u: "unmarshal_struct M kvs ev0 = Some ev1" by simp
  from table_postType [OF t] have ne: "postType_of G (JObj kvs) \<noteq> []" by auto
  have p: "postType_of G (JObj kvs) = gjson_String G (map_of kvs ''post_type'')"
    by (simp add: postType_of_def gjson_Get_plain_obj plain_names)
  with ne obtain v where v: "map_of kvs ''post_type'' = Some v"
    by (cases "map_of kvs ''post_type''") (simp_all add: gjson_String_def)
  then have "(''post_type'', v) \<in> set kvs" by (rule map_of_SomeD)
  from unmarshal_struct_sound [OF u this field_kind_post_type]
  have "v = JNull \<or> (\<exists>x. v = JStr x)"
    by (simp add: type_mismatch_simps)
  with ne p v obtain x where "v = JStr x"
    by (auto simp: gjson_String_def)
  with p v show ?thesis by (simp add: gjson_String_def)
qed

section \<open>Properties: the event name\<close>

lemma poke_decoded:
  "convertJsonObjectToEvent G0 M0 (isEventRelativeToBot M0) poke_payload = Inr poke_event"
  by (simp add: poke_payload_def poke_event_def convert_eval
      PokeNoticeEvent_fields_def NoticeEvent_fields_def Event_fields_def PokeNoticeEvent_zero_def)

lemma dotted_sub_type_decoded:
  "convertJsonObjectToEvent G0 M0 (isEventRelativeToBot M0) dotted_sub_type_payload
     = Inr dotted_sub_type_event"
  by (simp add: dotted_sub_type_payload_def dotted_sub_type_event_def convert_eval
      FriendAddNoticeEvent_fields_def NoticeEvent_fields_def Event_fields_def
      FriendAddNoticeEvent_zero_def foldName_eval)

text \<open>
  C1 (amended). For every payload that decodes, \<open>eventName\<close> is
  \<open>post_type.second_type\<close>, followed by a dot and the text of \<open>sub_type\<close> exactly
  when the payload has a \<open>sub_type\<close> member. It has 2 segments exactly when the
  payload has no \<open>sub_type\<close>; with one it has 2 and the segments of the text of
  \<open>sub_type\<close>, so 3 exactly when that text holds no dot. Its first segment is the
  \<open>post_type\<close> the switch read.
\<close>

theorem decoded_eventName:
  assumes "convertJsonObjectToEvent G M rel obj = Inr ev"
  shows
  "GetEventName ev
     = (if gjson_Exists (gjson_Get G obj ''sub_type'')
        then postType_of G obj @ ''.'' @ nextType_of G obj @ ''.''
             @ gjson_String G (gjson_Get G obj ''sub_type'')
        else postType_of G obj @ ''.'' @ nextType_of G obj)
   \<and> segment_count (GetEventName ev)
     = (if gjson_Exists (gjson_Get G obj ''sub_type'')
        then 2 + segment_count (gjson_String G (gjson_Get G obj ''sub_type'')) else 2)
   \<and> (segment_count (GetEventName ev) = 2) = (\<not> gjson_Exists (gjson_Get G obj ''sub_type''))
   \<and> (segment_count (GetEventName ev) = 3)
     = (gjson_Exists (gjson_Get G obj ''sub_type'')
        \<and> CHR ''.'' \<notin> set (gjson_String G (gjson_Get G obj ''sub_type'')))
   \<and> first_segment (GetEventName ev) = postType_of G obj"
proof -
  from assms obtain kvs ev0 ev1 where o: "obj = JObj kvs"
    and t: "(postType_of G obj, nextType_of G obj) \<in> set typeName_table"
    and u: "unmarshal_struct M kvs ev0 = Some ev1"
    and e: "ev = (if rel (setEventField_EventName ev1 (fullTypeName_of G obj))
           then setEventField_ToMe (setEventField_EventName ev1 (fullTypeName_of G obj)) True
           else setEventField_EventName ev1 (fullTypeName_of G obj))"
    by (rule convert_InrD)
  let ?p = "postType_of G obj" and ?n = "nextType_of G obj"
  let ?s = "gjson_String G (gjson_Get G obj ''sub_type'')"
  have name: "GetEventName ev = fullTypeName_of G obj"
    by (simp add: e GetEventName_def Event_of_setToMe Event_of_setEventName)
  have full: "fullTypeName_of G obj
     = (if gjson_Exists (gjson_Get G obj ''sub_type'') then ?p @ ''.'' @ ?n @ ''.'' @ ?s
        else ?p @ ''.'' @ ?n)"
    by (simp add: fullTypeName_of_def typeName_of_def subType_of_def)
  from table_no_dots [OF t] have nd: "CHR ''.'' \<notin> set ?p" "CHR ''.'' \<notin> set ?n" by simp_all
  have seg: "first_segment (fullTypeName_of G obj) = ?p"
    using first_segment_dot [OF nd(1)] by (simp add: full)
  have cnt: "segment_count (fullTypeName_of G obj)
     = (if gjson_Exists (gjson_Get G obj ''sub_type'') then 2 + segment_count ?s else 2)"
    using dots_none [OF nd(1)] dots_none [OF nd(2)]
    by (simp add: full dots_append segment_count_def) (simp add: dots_def)
  have none: "(segment_count ?s = 1) = (CHR ''.'' \<notin> set ?s)"
    by (auto simp: segment_count_def dots_def filter_empty_conv)
  from cnt have two: "(segment_count (fullTypeName_of G obj) = 2)
      = (\<not> gjson_Exists (gjson_Get G obj ''sub_type''))"
    by (simp add: segment_count_def)
  from cnt none have three: "(segment_count (fullTypeName_of G obj) = 3)
      = (gjson_Exists (gjson_Get G obj ''sub_type'') \<and> CHR ''.'' \<notin> set ?s)"
    by auto
  from name full cnt two three seg show ?thesis
    by (simp only: )
qed

theorem decoded_eventName_witness:
  "convertJsonObjectToEvent G0 M0 (isEventRelativeToBot M0) private_message_payload
     = Inr private_message_event
   \<and> GetEventName private_message_event = ''message.private''
   \<and> segment_count (GetEventName private_message_event) = 2
   \<and> first_segment (GetEventName private_message_event) = ''message''
   \<and> convertJsonObjectToEvent G0 M0 (isEventRelativeToBot M0) poke_payload = Inr poke_event
   \<and> GetEventName poke_event = ''notice.notify.poke''
   \<and> segment_count (GetEventName poke_event) = 3
   \<and> first_segment (GetEventName poke_event) = ''notice''"
proof -
  have p: "postType_of G0 private_message_payload = ''message''"
    by (simp add: private_message_payload_def postType_of_def gjson_Get_def gjson_String_def
        plain_names)
  have n: "nextType_of G0 private_message_payload = ''private''"
    by (simp add: nextType_of_def p)
      (simp add: private_message_payload_def gjson_Get_def gjson_String_def plain_names)
  have s: "\<not> gjson_Exists (gjson_Get G0 private_message_payload ''sub_type'')"
    by (simp add: private_message_payload_def gjson_Get_def gjson_Exists_def plain_names)
  from decoded_eventName [OF private_message_decoded]
  have a: "GetEventName private_message_event = ''message.private''"
    and b: "segment_count (GetEventName private_message_event) = 2"
    and c: "first_segment (GetEventName private_message_event) = ''message''"
    by (simp_all add: p n s segment_count_def dots_def first_segment_def)
  have p': "postType_of G0 poke_payload = ''notice''"
    by (simp add: poke_payload_def postType_of_def gjson_Get_def gjson_String_def plain_names)
  have n': "nextType_of G0 poke_payload = ''notify''"
    by (simp add: nextType_of_def p')
      (simp add: poke_payload_def gjson_Get_def gjson_String_def plain_names)
  have s': "gjson_Exists (gjson_Get G0 poke_payload ''sub_type'')"
    "gjson_String G0 (gjson_Get G0 poke_payload ''sub_type'') = ''poke''"
    by (simp_all add: poke_payload_def gjson_Get_def gjson_Exists_def gjson_String_def
        plain_names)
  from decoded_eventName [OF poke_decoded]
  have a': "GetEventName poke_event = ''notice.notify.poke''"
    and b': "segment_count (GetEventName poke_event) = 3"
    and c': "first_segment (GetEventName poke_event) = ''notice''"
    by (simp_all add: p' n' s' segment_count_def dots_def first_segment_def)
  from a b c a' b' c' private_message_decoded poke_decoded show ?thesis by simp
qed

text \<open>
  A name need not have 3 segments when \<open>sub_type\<close> is present: the text of
  \<open>sub_type\<close> is appended as it is, dots included. The payload
  \<open>{"post_type":"notice","notice_type":"friend_add","sub_type":"a.b","self_id":1,"user_id":2}\<close>
  decodes to an event named \<open>notice.friend_add.a.b\<close>, of 4 segments.
\<close>

theorem decoded_segments_counterexample:
  "convertJsonObjectToEvent G0 M0 (isEventRelativeToBot M0) dotted_sub_type_payload
     = Inr dotted_sub_type_event
   \<and> gjson_Exists (gjson_Get G0 dotted_sub_type_payload ''sub_type'')
   \<and> GetEventName dotted_sub_type_event = ''notice.friend_add.a.b''
   \<and> segment_count (GetEventName dotted_sub_type_event) = 4
   \<and> segment_count (GetEventName dotted_sub_type_event) \<noteq> 3"
  by (simp add: dotted_sub_type_decoded)
    (simp add: dotted_sub_type_event_def dotted_sub_type_payload_def GetEventName_def
      Event.truncate_def segment_count_def dots_def gjson_Get_def gjson_Exists_def plain_names)

subsection \<open>The first segment and PostType\<close>

text \<open>
  The first segment of \<open>eventName\<close> is the \<open>PostType\<close> of the event when at most one
  member of the payload has a key that \<open>encoding/json\<close> takes for \<open>post_type\<close>.
\<close>

lemma decoded_postType_single_member:
  assumes d: "convertJsonObjectToEvent G M rel (JObj kvs) = Inr ev"
    and one: "length (filter (\<lambda>kv. key_matches ''post_type'' (fst kv)) kvs) \<le> 1"
  shows "GetPostType ev = first_segment (GetEventName ev)"
proof -
  let ?obj = "JObj kvs"
  let ?p = "postType_of G ?obj"
  from d obtain kvs' ev0 ev1 where o: "?obj = JObj kvs'"
    and t: "(?p, nextType_of G ?obj) \<in> set typeName_table"
    and u: "unmarshal_struct M kvs' ev0 = Some ev1"
    and e: "ev = (if rel (setEventField_EventName ev1 (fullTypeName_of G ?obj))
           then setEventField_ToMe (setEventField_EventName ev1 (fullTypeName_of G ?obj)) True
           else setEventField_EventName ev1 (fullTypeName_of G ?obj))"
    by (rule convert_InrD)
  from o have k: "kvs' = kvs" by simp
  from table_no_dots [OF t] have nd: "CHR ''.'' \<notin> set ?p" by simp
  have name: "GetEventName ev = fullTypeName_of G ?obj"
    by (simp add: e GetEventName_def Event_of_setToMe Event_of_setEventName)
  have seg: "first_segment (fullTypeName_of G ?obj) = ?p"
    using first_segment_dot [OF nd]
    by (simp add: fullTypeName_of_def typeName_of_def subType_of_def)
  from d have m: "map_of kvs ''post_type'' = Some (JStr ?p)"
    using decoded_post_type_member by blast
  then have "(''post_type'', JStr ?p) \<in> set kvs" by (rule map_of_SomeD)
  with one have "filter (\<lambda>kv. key_matches ''post_type'' (fst kv)) kvs = [(''post_type'', JStr ?p)]"
    by (intro filter_single) (simp_all add: key_matches_def)
  then have "filter (\<lambda>kv. foldName (fst kv) = ''POST_TYPE'') kvs = [(''post_type'', JStr ?p)]"
    by (simp add: key_matches_post_type)
  from unmarshal_struct_PostType [OF u [unfolded k] this] have "PostType (Event_of ev1) = ?p" .
  then have "GetPostType ev = ?p"
    by (simp add: e GetPostType_def Event_of_setToMe Event_of_setEventName)
  with name seg show ?thesis by simp
qed

text \<open>
  With a second such member the two part: \<open>gjson\<close> reads the first member named
  \<open>post_type\<close>, \<open>encoding/json\<close> stores the last member that matches the field
  without regard to case, and nothing in \<open>convertJsonObjectToEvent\<close> compares them.
  The payload \<open>{"post_type":"message","message_type":"private","POST_TYPE":"notice"}\<close>
  decodes to a \<open>*PrivateMessageEvent\<close> named \<open>message.private\<close> whose \<open>PostType\<close>
  is \<open>notice\<close>, so that \<open>IsMessageEvent\<close> is false of it.
\<close>

lemma shadowed_post_type_mismatch:
  "convertJsonObjectToEvent G0 M0 (isEventRelativeToBot M0) shadowed_post_type_payload
     = Inr shadowed_post_type_event
   \<and> TypeOf shadowed_post_type_event = T_PrivateMessageEvent
   \<and> first_segment (GetEventName shadowed_post_type_event) = ''message''
   \<and> GetPostType shadowed_post_type_event = ''notice''
   \<and> \<not> IsMessageEvent shadowed_post_type_event"
  by (simp add: shadowed_post_type_decoded)
    (simp add: shadowed_post_type_event_def GetEventName_def GetPostType_def IsMessageEvent_def
      Event.truncate_def first_segment_def)

section \<open>Properties: failures of the switch, and toMe\<close>

lemma group_message_decoded:
  "convertJsonObjectToEvent G0 M0 (isEventRelativeToBot M0) group_message_payload
     = Inr group_message_event"
  by (simp add: group_message_payload_def group_message_event_def convert_eval
      GroupMessageEvent_fields_def MessageEvent_fields_def Event_fields_def
      GroupMessageEvent_zero_def)

text \<open>
  C2 (the code departs from the claim). A \<open>notice.notify\<close> payload whose \<open>sub_type\<close>
  is none of \<open>poke\<close>, \<open>lucky_king\<close>, \<open>honor\<close> leaves \<open>ev\<close> nil, since the inner
  switch has no default case; \<open>json.Unmarshal\<close> then fails on the nil target and the
  panic carries its \<open>InvalidUnmarshalError\<close>, not the type name. No event is returned.
\<close>

theorem unknown_notify_sub_type_panic:
  "typeName_of G0 unknown_notify_payload = ''notice.notify''
   \<and> subType_of G0 unknown_notify_payload = ''unknown_sub''
   \<and> convertJsonObjectToEvent G0 M0 (isEventRelativeToBot M0) unknown_notify_payload
       = Inl (PanicError InvalidUnmarshalError)
   \<and> convertJsonObjectToEvent G0 M0 (isEventRelativeToBot M0) unknown_notify_payload
       \<noteq> Inl (PanicString (''unknown event type: '' @ typeName_of G0 unknown_notify_payload))"
  by (simp add: unknown_notify_payload_def convert_eval)

text \<open>
  The outer switch does have a default: a payload whose pair of \<open>post_type\<close> and
  second-level type has no entry in the table panics with the type name, and returns no event.
\<close>

theorem unknown_typeName_panic:
  assumes "(postType_of G obj, nextType_of G obj) \<notin> set typeName_table"
  shows "convertJsonObjectToEvent G M rel obj
           = Inl (PanicString (''unknown event type: '' @ typeName_of G obj))"
  using newEvent_unknown [OF assms, of M "subType_of G obj"]
  by (simp add: convertJsonObjectToEvent_def typeName_of_def)

theorem unknown_typeName_panic_witness:
  "(postType_of G0 oracle_payload, nextType_of G0 oracle_payload) \<notin> set typeName_table
   \<and> convertJsonObjectToEvent G0 M0 (isEventRelativeToBot M0) oracle_payload
       = Inl (PanicString ''unknown event type: oracle.'')"
proof -
  have t: "(postType_of G0 oracle_payload, nextType_of G0 oracle_payload) \<notin> set typeName_table"
    by (simp add: oracle_payload_def convert_eval typeName_table_def)
  have "typeName_of G0 oracle_payload = ''oracle.''"
    by (simp add: oracle_payload_def convert_eval)
  with unknown_typeName_panic [OF t, of M0 "isEventRelativeToBot M0"] t show ?thesis
    by simp
qed

lemma unknown_notify_panic:
  assumes "typeName_of G obj = ''notice.notify''"
    and "subType_of G obj \<noteq> ''poke''" "subType_of G obj \<noteq> ''lucky_king''"
    and "subType_of G obj \<noteq> ''honor''"
  shows "convertJsonObjectToEvent G M rel obj = Inl (PanicError InvalidUnmarshalError)"
  using assms by (simp add: convertJsonObjectToEvent_def newEvent_def json_Unmarshal_def)

lemma isEventRelativeToBot_setEventName:
  "isEventRelativeToBot M (setEventField_EventName ev x) = isEventRelativeToBot M ev"
  by (cases ev) simp_all

lemma isEventRelativeToBot_setToMe:
  "isEventRelativeToBot M (setEventField_ToMe ev x) = isEventRelativeToBot M ev"
  by (cases ev) simp_all

lemma decoded_TypeOf:
  assumes "convertJsonObjectToEvent G M rel obj = Inr ev"
  shows "resolved_type G M obj = Some (TypeOf ev)"
proof -
  from assms obtain kvs ev0 ev1 where
    n: "newEvent M (typeName_of G obj) (subType_of G obj) = Inr (Some ev0)"
    and u: "unmarshal_struct M kvs ev0 = Some ev1"
    and e: "ev = (if rel (setEventField_EventName ev1 (fullTypeName_of G obj))
           then setEventField_ToMe (setEventField_EventName ev1 (fullTypeName_of G obj)) True
           else setEventField_EventName ev1 (fullTypeName_of G obj))"
    by (rule convert_InrD)
  from unmarshal_struct_derived [OF u] have "TypeOf ev1 = TypeOf ev0" by simp
  with e have "TypeOf ev = TypeOf ev0"
    by (simp add: TypeOf_setToMe TypeOf_setEventName)
  with n show ?thesis by (simp add: resolved_type_def)
qed

lemma resolved_type_names:
  assumes "resolved_type G M obj = Some t"
  shows "(t = T_PrivateMessageEvent) = (typeName_of G obj = ''message.private'')"
    and "(t = T_GroupMessageEvent) = (typeName_of G obj = ''message.group'')"
    and "(t = T_GroupDecreaseNoticeEvent) = (typeName_of G obj = ''notice.group_decrease'')"
    and "(t = T_PokeNoticeEvent)
           = (typeName_of G obj = ''notice.notify'' \<and> subType_of G obj = ''poke'')"
    and "(t = T_FriendAddNoticeEvent) = (typeName_of G obj = ''notice.friend_add'')"
    and "(t = T_FriendRequestEvent) = (typeName_of G obj = ''request.friend'')"
    and "(t = T_GroupRequestEvent) = (typeName_of G obj = ''request.group'')"
  using assms
  by (auto simp: resolved_type_def newEvent_def split: if_splits)

text \<open>
  C3. With \<open>isEventRelativeToBot\<close> as the spec describes it, \<open>toMe\<close> of a decoded event
  is true exactly for a private message, a group message whose content addresses
  \<open>selfId\<close>, a group decrease whose user is \<open>selfId\<close>, a poke whose target is
  \<open>selfId\<close>, a friend add and a request; the struct of the event is the one the type
  name stands for. So a private message is to the bot and a group message that does
  not address it is not.
\<close>

theorem toMe_after_enrichment:
  assumes "convertJsonObjectToEvent G M (isEventRelativeToBot M) obj = Inr ev"
  shows
  "IsToMe ev
     = (case ev of
          I_PrivateMessageEvent e \<Rightarrow> True
        | I_GroupMessageEvent e \<Rightarrow> Message_IsToMe M (Message e) (SelfId e)
        | I_GroupDecreaseNoticeEvent e \<Rightarrow> GroupDecreaseNoticeEvent.UserId e = SelfId e
        | I_PokeNoticeEvent e \<Rightarrow> PokeNoticeEvent.TargetId e = SelfId e
        | I_FriendAddNoticeEvent e \<Rightarrow> True
        | I_FriendRequestEvent e \<Rightarrow> True
        | I_GroupRequestEvent e \<Rightarrow> True
        | _ \<Rightarrow> False)
   \<and> (TypeOf ev = T_PrivateMessageEvent) = (typeName_of G obj = ''message.private'')
   \<and> (TypeOf ev = T_GroupMessageEvent) = (typeName_of G obj = ''message.group'')
   \<and> (TypeOf ev = T_GroupDecreaseNoticeEvent) = (typeName_of G obj = ''notice.group_decrease'')
   \<and> (TypeOf ev = T_PokeNoticeEvent)
       = (typeName_of G obj = ''notice.notify'' \<and> subType_of G obj = ''poke'')
   \<and> (TypeOf ev = T_FriendAddNoticeEvent) = (typeName_of G obj = ''notice.friend_add'')
   \<and> (TypeOf ev = T_FriendRequestEvent) = (typeName_of G obj = ''request.friend'')
   \<and> (TypeOf ev = T_GroupRequestEvent) = (typeName_of G obj = ''request.group'')"
proof -
  from assms obtain kvs ev0 ev1 where
    n: "newEvent M (typeName_of G obj) (subType_of G obj) = Inr (Some ev0)"
    and u: "unmarshal_struct M kvs ev0 = Some ev1"
    and e: "ev = (if isEventRelativeToBot M (setEventField_EventName ev1 (fullTypeName_of G obj))
           then setEventField_ToMe (setEventField_EventName ev1 (fullTypeName_of G obj)) True
           else setEventField_EventName ev1 (fullTypeName_of G obj))"
    by (rule convert_InrD)
  from unmarshal_struct_derived [OF u] newEvent_zero [OF n]
  have z: "ToMe (Event_of ev1) = False" by simp
  have rel: "isEventRelativeToBot M ev = isEventRelativeToBot M ev1"
    by (simp add: e isEventRelativeToBot_setToMe isEventRelativeToBot_setEventName)
  have "IsToMe ev = isEventRelativeToBot M ev1"
    using z
    by (simp add: e IsToMe_def Event_of_setToMe Event_of_setEventName
        isEventRelativeToBot_setEventName)
  with rel have "IsToMe ev = isEventRelativeToBot M ev" by simp
  then have tab: "IsToMe ev
     = (case ev of
          I_PrivateMessageEvent e \<Rightarrow> True
        | I_GroupMessageEvent e \<Rightarrow> Message_IsToMe M (Message e) (SelfId e)
        | I_GroupDecreaseNoticeEvent e \<Rightarrow> GroupDecreaseNoticeEvent.UserId e = SelfId e
        | I_PokeNoticeEvent e \<Rightarrow> PokeNoticeEvent.TargetId e = SelfId e
        | I_FriendAddNoticeEvent e \<Rightarrow> True
        | I_FriendRequestEvent e \<Rightarrow> True
        | I_GroupRequestEvent e \<Rightarrow> True
        | _ \<Rightarrow> False)"
    by (cases ev) simp_all
  from resolved_type_names [OF decoded_TypeOf [OF assms]] tab
  show ?thesis by blast
qed

theorem toMe_after_enrichment_witness:
  "convertJsonObjectToEvent G0 M0 (isEventRelativeToBot M0) private_message_payload
     = Inr private_message_event
   \<and> IsToMe private_message_event
   \<and> convertJsonObjectToEvent G0 M0 (isEventRelativeToBot M0) group_message_payload
     = Inr group_message_event
   \<and> \<not> IsToMe group_message_event
   \<and> convertJsonObjectToEvent G0 M0 (isEventRelativeToBot M0) poke_payload = Inr poke_event
   \<and> IsToMe poke_event"
proof -
  from toMe_after_enrichment [OF private_message_decoded]
  have a: "IsToMe private_message_event"
    by (simp add: private_message_event_def)
  from toMe_after_enrichment [OF group_message_decoded]
  have b: "\<not> IsToMe group_message_event"
    by (simp add: group_message_event_def M0_def)
  from toMe_after_enrichment [OF poke_decoded]
  have c: "IsToMe poke_event"
    by (simp add: poke_event_def)
  from a b c private_message_decoded group_message_decoded poke_decoded
  show ?thesis by simp
qed

section \<open>Properties: the switch and sub_type\<close>

lemma map_of_filter_key:
  "k \<noteq> x \<Longrightarrow> map_of (filter (\<lambda>kv. fst kv \<noteq> x) kvs) k = map_of kvs k"
  by (induction kvs) auto

lemma second_level_keys:
  assumes "p = ''message'' \<or> p = ''notice'' \<or> p = ''request'' \<or> p = ''meta_event''"
  shows "plain_key (p @ ''_type'')" and "p @ ''_type'' \<noteq> ''sub_type''"
    and "\<not> key_matches ''EventName'' (p @ ''_type'')" and "\<not> key_matches ''ToMe'' (p @ ''_type'')"
  using assms plain_names by (auto simp: key_matches_def foldName_names)

lemma resolved_type_unknown:
  assumes "(postType_of G obj, nextType_of G obj) \<notin> set typeName_table"
  shows "resolved_type G M obj = None"
  using newEvent_unknown [OF assms, of M "subType_of G obj"]
  by (simp add: resolved_type_def typeName_of_def)

lemma same_typeName:
  assumes eq: "filter (\<lambda>kv. fst kv \<noteq> ''sub_type'') kvs1 = filter (\<lambda>kv. fst kv \<noteq> ''sub_type'') kvs2"
  shows "postType_of G (JObj kvs1) = postType_of G (JObj kvs2)"
    and "(postType_of G (JObj kvs1), nextType_of G (JObj kvs1)) \<in> set typeName_table
         \<Longrightarrow> nextType_of G (JObj kvs1) = nextType_of G (JObj kvs2)"
proof -
  have m: "map_of kvs1 k = map_of kvs2 k" if "k \<noteq> ''sub_type''" for k
    using map_of_filter_key [OF that, of kvs1] map_of_filter_key [OF that, of kvs2] eq by simp
  show p: "postType_of G (JObj kvs1) = postType_of G (JObj kvs2)"
    by (simp add: postType_of_def gjson_Get_plain_obj plain_names m)
  assume "(postType_of G (JObj kvs1), nextType_of G (JObj kvs1)) \<in> set typeName_table"
  from second_level_keys(1,2) [OF table_postType [OF this]]
  show "nextType_of G (JObj kvs1) = nextType_of G (JObj kvs2)"
    by (simp add: nextType_of_def p [symmetric] gjson_Get_plain_obj m)
qed

lemma FromJsonObject_convert:
  "FromJsonObject G M obj = convertJsonObjectToEvent G M (\<lambda>ev. False) obj"
  by (simp add: FromJsonObject_def convertJsonObjectToEvent_def split: sum.splits)

text \<open>
  C5. Two payloads that differ only in their \<open>sub_type\<close> members, the type name of one
  not being \<open>notice.notify\<close>, make the switch allocate the same struct, or none for
  both; when both decode, the events have the same dynamic type, through
  \<open>convertJsonObjectToEvent\<close> and through \<open>FromJsonObject\<close>.
\<close>

theorem resolver_ignores_sub_type:
  assumes "filter (\<lambda>kv. fst kv \<noteq> ''sub_type'') kvs1 = filter (\<lambda>kv. fst kv \<noteq> ''sub_type'') kvs2"
    and "typeName_of G (JObj kvs1) \<noteq> ''notice.notify''"
  shows "resolved_type G M (JObj kvs1) = resolved_type G M (JObj kvs2)
         \<and> (\<forall>ev1 ev2. convertJsonObjectToEvent G M rel (JObj kvs1) = Inr ev1
               \<and> convertJsonObjectToEvent G M rel (JObj kvs2) = Inr ev2
             \<longrightarrow> TypeOf ev1 = TypeOf ev2)
         \<and> (\<forall>ev1 ev2. FromJsonObject G M (JObj kvs1) = Inr ev1
               \<and> FromJsonObject G M (JObj kvs2) = Inr ev2
             \<longrightarrow> TypeOf ev1 = TypeOf ev2)"
proof -
  let ?o1 = "JObj kvs1" and ?o2 = "JObj kvs2"
  have p: "postType_of G ?o1 = postType_of G ?o2"
    using assms(1) by (rule same_typeName(1))
  from assms(1) have sym: "filter (\<lambda>kv. fst kv \<noteq> ''sub_type'') kvs2
                             = filter (\<lambda>kv. fst kv \<noteq> ''sub_type'') kvs1" by simp
  have res: "resolved_type G M ?o1 = resolved_type G M ?o2"
  proof (cases "(postType_of G ?o1, nextType_of G ?o1) \<in> set typeName_table")
    case True
    from same_typeName(2) [OF assms(1) True] p
    have tn: "typeName_of G ?o2 = typeName_of G ?o1"
      by (simp add: typeName_of_def)
    from assms(2) have "newEvent M (typeName_of G ?o1) (subType_of G ?o1)
                      = newEvent M (typeName_of G ?o1) (subType_of G ?o2)"
      by (rule newEvent_sub)
    then show ?thesis
      by (simp add: resolved_type_def tn)
  next
    case False
    have "(postType_of G ?o2, nextType_of G ?o2) \<notin> set typeName_table"
    proof
      assume t: "(postType_of G ?o2, nextType_of G ?o2) \<in> set typeName_table"
      from same_typeName(2) [OF sym t] p t False show False by simp
    qed
    with False show ?thesis
      by (simp add: resolved_type_unknown)
  qed
  have "TypeOf ev1 = TypeOf ev2"
    if "convertJsonObjectToEvent G M r ?o1 = Inr ev1"
      and "convertJsonObjectToEvent G M r ?o2 = Inr ev2" for ev1 ev2 r
    using decoded_TypeOf [OF that(1)] decoded_TypeOf [OF that(2)] res by simp
  with res show ?thesis
    unfolding FromJsonObject_convert by blast
qed

lemma lifecycle_resolved:
  "resolved_type G0 M0
     (JObj [(''post_type'', JStr ''meta_event''), (''meta_event_type'', JStr ''lifecycle''),
            (''sub_type'', JStr ''enable'')]) = Some T_LifeCycleMetaEvent"
  by (simp add: resolved_type_def convert_eval)

theorem resolver_ignores_sub_type_witness:
  "typeName_of G0
     (JObj [(''post_type'', JStr ''meta_event''), (''meta_event_type'', JStr ''lifecycle''),
            (''sub_type'', JStr ''enable'')]) = ''meta_event.lifecycle''
   \<and> resolved_type G0 M0
     (JObj [(''post_type'', JStr ''meta_event''), (''meta_event_type'', JStr ''lifecycle''),
            (''sub_type'', JStr ''enable'')]) = Some T_LifeCycleMetaEvent
   \<and> resolved_type G0 M0
     (JObj [(''post_type'', JStr ''meta_event''), (''meta_event_type'', JStr ''lifecycle'')])
     = Some T_LifeCycleMetaEvent"
proof -
  let ?k1 = "[(''post_type'', JStr ''meta_event''), (''meta_event_type'', JStr ''lifecycle''),
            (''sub_type'', JStr ''enable'')]"
  let ?k2 = "[(''post_type'', JStr ''meta_event''), (''meta_event_type'', JStr ''lifecycle'')]"
  have f: "filter (\<lambda>kv. fst kv \<noteq> ''sub_type'') ?k1 = filter (\<lambda>kv. fst kv \<noteq> ''sub_type'') ?k2"
    by simp
  have t: "typeName_of G0 (JObj ?k1) = ''meta_event.lifecycle''"
    by (simp add: convert_eval)
  then have n: "typeName_of G0 (JObj ?k1) \<noteq> ''notice.notify''" by simp
  from resolver_ignores_sub_type [OF f n, of M0 "isEventRelativeToBot M0"] lifecycle_resolved
  have "resolved_type G0 M0 (JObj ?k2) = Some T_LifeCycleMetaEvent" by simp
  with t lifecycle_resolved show ?thesis by simp
qed

section \<open>Properties: the derived fields and the wire\<close>

lemma map_of_without_keys:
  "\<not> list_ex (\<lambda>n. key_matches n k) ns \<Longrightarrow> map_of (without_keys ns kvs) k = map_of kvs k"
  by (induction kvs) (auto simp: without_keys_def key_matches_def)

lemma derived_keys_not_read:
  "\<not> list_ex (\<lambda>n. key_matches n ''post_type'') [''EventName'', ''ToMe'']"
  "\<not> list_ex (\<lambda>n. key_matches n ''sub_type'') [''EventName'', ''ToMe'']"
  by (simp_all add: key_matches_def foldName_names)

lemma decoded_in_table:
  assumes "convertJsonObjectToEvent G M rel obj = Inr ev"
  shows "(postType_of G obj, nextType_of G obj) \<in> set typeName_table"
  using assms by (rule convert_InrD)

lemma derived_keys_one_way:
  assumes eq: "without_keys [''EventName'', ''ToMe''] kvs1 = without_keys [''EventName'', ''ToMe''] kvs2"
    and dec: "convertJsonObjectToEvent G M rel (JObj kvs1) = Inr ev"
  shows "convertJsonObjectToEvent G M rel (JObj kvs2) = Inr ev"
proof -
  let ?o1 = "JObj kvs1" and ?o2 = "JObj kvs2"
  have m: "map_of kvs1 k = map_of kvs2 k"
    if "\<not> list_ex (\<lambda>n. key_matches n k) [''EventName'', ''ToMe'']" for k
    using map_of_without_keys [OF that, of kvs1] map_of_without_keys [OF that, of kvs2] eq
    by simp
  from dec have t: "(postType_of G ?o1, nextType_of G ?o1) \<in> set typeName_table"
    by (rule decoded_in_table)
  have p: "postType_of G ?o2 = postType_of G ?o1"
    using m [OF derived_keys_not_read(1)]
    by (simp add: postType_of_def gjson_Get_plain_obj plain_names)
  from second_level_keys [OF table_postType [OF t]]
  have "plain_key (postType_of G ?o1 @ ''_type'')"
    and "\<not> list_ex (\<lambda>n. key_matches n (postType_of G ?o1 @ ''_type'')) [''EventName'', ''ToMe'']"
    by simp_all
  then have n: "nextType_of G ?o2 = nextType_of G ?o1"
    using m [of "postType_of G ?o1 @ ''_type''"]
    by (simp add: nextType_of_def p gjson_Get_plain_obj)
  have s: "gjson_Get G ?o2 ''sub_type'' = gjson_Get G ?o1 ''sub_type''"
    using m [OF derived_keys_not_read(2)]
    by (simp add: gjson_Get_plain_obj plain_names)
  have tn: "typeName_of G ?o2 = typeName_of G ?o1"
    by (simp add: typeName_of_def p n)
  have st: "subType_of G ?o2 = subType_of G ?o1"
    by (simp add: subType_of_def s)
  have ft: "fullTypeName_of G ?o2 = fullTypeName_of G ?o1"
    by (simp add: fullTypeName_of_def s tn st)
  have u: "unmarshal_struct M kvs2 e = unmarshal_struct M kvs1 e" for e
    using unmarshal_struct_without_derived [of M kvs1 e]
      unmarshal_struct_without_derived [of M kvs2 e] eq by simp
  have ju: "json_Unmarshal M ?o2 r = json_Unmarshal M ?o1 r" for r
    by (cases r) (simp_all add: json_Unmarshal_def u)
  have "convertJsonObjectToEvent G M rel ?o2 = convertJsonObjectToEvent G M rel ?o1"
    unfolding convertJsonObjectToEvent_def tn st ft ju by (rule refl)
  with dec show ?thesis by simp
qed

text \<open>
  C9. Two payloads that differ only in members whose key is \<open>EventName\<close> or \<open>ToMe\<close>,
  in any case, decode to the same event or both fail: no decoder field goes by these
  names, and the derived fields are written by the enrichment alone. This holds for
  every \<open>isEventRelativeToBot\<close>.
\<close>

theorem derived_fields_not_on_the_wire:
  assumes "without_keys [''EventName'', ''ToMe''] kvs1 = without_keys [''EventName'', ''ToMe''] kvs2"
  shows "(convertJsonObjectToEvent G M rel (JObj kvs1) = Inr ev)
         = (convertJsonObjectToEvent G M rel (JObj kvs2) = Inr ev)"
proof
  assume "convertJsonObjectToEvent G M rel (JObj kvs1) = Inr ev"
  with assms show "convertJsonObjectToEvent G M rel (JObj kvs2) = Inr ev"
    by (rule derived_keys_one_way)
next
  from assms have "without_keys [''EventName'', ''ToMe''] kvs2
                     = without_keys [''EventName'', ''ToMe''] kvs1" by simp
  moreover assume "convertJsonObjectToEvent G M rel (JObj kvs2) = Inr ev"
  ultimately show "convertJsonObjectToEvent G M rel (JObj kvs1) = Inr ev"
    by (rule derived_keys_one_way)
qed

theorem derived_fields_not_on_the_wire_witness:
  "convertJsonObjectToEvent G0 M0 (isEventRelativeToBot M0) private_message_payload
     = Inr private_message_event
   \<and> convertJsonObjectToEvent G0 M0 (isEventRelativeToBot M0) forged_payload
     = Inr private_message_event
   \<and> GetEventName private_message_event = ''message.private''
   \<and> IsToMe private_message_event"
proof -
  let ?k1 = "[(''post_type'', JStr ''message''), (''message_type'', JStr ''private''),
           (''time'', JInt 100), (''self_id'', JInt 1), (''user_id'', JInt 2),
           (''message_id'', JInt 5), (''message'', JStr ''hi'')]"
  let ?k2 = "[(''EventName'', JStr ''notice.forged''), (''post_type'', JStr ''message''),
           (''message_type'', JStr ''private''), (''time'', JInt 100), (''self_id'', JInt 1),
           (''user_id'', JInt 2), (''message_id'', JInt 5), (''message'', JStr ''hi''),
           (''tome'', JBool False)]"
  have w: "without_keys [''EventName'', ''ToMe''] ?k1 = without_keys [''EventName'', ''ToMe''] ?k2"
    by (simp add: without_keys_def key_matches_def foldName_names) (simp add: foldName_eval byte_def)
  from private_message_decoded
  have "convertJsonObjectToEvent G0 M0 (isEventRelativeToBot M0) (JObj ?k1)
          = Inr private_message_event"
    by (simp add: private_message_payload_def)
  with derived_fields_not_on_the_wire [OF w]
  have "convertJsonObjectToEvent G0 M0 (isEventRelativeToBot M0) (JObj ?k2)
          = Inr private_message_event"
    by blast
  then have "convertJsonObjectToEvent G0 M0 (isEventRelativeToBot M0) forged_payload
          = Inr private_message_event"
    by (simp add: forged_payload_def)
  with private_message_decoded show ?thesis
    by (simp add: private_message_event_def GetEventName_def IsToMe_def Event.truncate_def)
qed

section \<open>Properties: pointer fields\<close>

lemma unmarshal_object_frame:
  assumes fr: "\<forall>f \<in> set fs. foldName (fst f) \<noteq> N \<longrightarrow>
                 (\<forall>v s s'. snd (snd f) v s = Some s' \<longrightarrow> obs s' = obs s)"
    and un: "unmarshal_object fs kvs s = Some s'"
    and no: "\<forall>kv \<in> set kvs. foldName (fst kv) \<noteq> N"
  shows "obs s' = obs s"
  using un no
proof (induction kvs arbitrary: s)
  case Nil
  then show ?case by simp
next
  case (Cons kv kvs)
  show ?case
  proof (cases "find_field fs (fst kv)")
    case None
    with Cons show ?thesis by simp
  next
    case (Some f)
    with Cons.prems obtain s1 where d: "snd (snd f) (snd kv) s = Some s1"
      and r: "unmarshal_object fs kvs s1 = Some s'"
      by (auto split: option.splits)
    from find_field_SomeD [OF Some] Cons.prems(2)
    have "f \<in> set fs" "foldName (fst f) \<noteq> N" by simp_all
    with fr d have "obs s1 = obs s" by blast
    moreover from Cons.IH [OF r] Cons.prems(2) have "obs s' = obs s1" by simp
    ultimately show ?thesis by simp
  qed
qed

lemmas field_defs = int_field_def string_field_def bool_field_def struct_field_def ptr_field_def
  message_field_def

lemma group_Sender_frame:
  "\<forall>f \<in> set (GroupMessageEvent_fields M). foldName (fst f) \<noteq> ''SENDER'' \<longrightarrow>
     (\<forall>v s s'. snd (snd f) v s = Some s' \<longrightarrow> GroupMessageEvent.Sender s' = GroupMessageEvent.Sender s)"
  by (auto simp: GroupMessageEvent_fields_def MessageEvent_fields_def Event_fields_def field_defs
      foldName_names split: json.splits if_splits)

lemma group_Anonymous_frame:
  "\<forall>f \<in> set (GroupMessageEvent_fields M). foldName (fst f) \<noteq> ''ANONYMOUS'' \<longrightarrow>
     (\<forall>v s s'. snd (snd f) v s = Some s' \<longrightarrow> Anonymous s' = Anonymous s)"
  by (auto simp: GroupMessageEvent_fields_def MessageEvent_fields_def Event_fields_def field_defs
      foldName_names split: json.splits if_splits)

lemma private_Sender_frame:
  "\<forall>f \<in> set (PrivateMessageEvent_fields M). foldName (fst f) \<noteq> ''SENDER'' \<longrightarrow>
     (\<forall>v s s'. snd (snd f) v s = Some s' \<longrightarrow>
        PrivateMessageEvent.Sender s' = PrivateMessageEvent.Sender s)"
  by (auto simp: PrivateMessageEvent_fields_def MessageEvent_fields_def Event_fields_def field_defs
      foldName_names split: json.splits if_splits)

lemma newEvent_group:
  "newEvent M tn sub = Inr (Some (I_GroupMessageEvent g0)) \<Longrightarrow> g0 = GroupMessageEvent_zero M"
  by (auto simp: newEvent_def split: if_splits)

lemma newEvent_private:
  "newEvent M tn sub = Inr (Some (I_PrivateMessageEvent e0)) \<Longrightarrow> e0 = PrivateMessageEvent_zero M"
  by (auto simp: newEvent_def split: if_splits)

lemma enriched_group:
  assumes "(if rel (setEventField_EventName ev1 x)
            then setEventField_ToMe (setEventField_EventName ev1 x) True
            else setEventField_EventName ev1 x) = I_GroupMessageEvent g"
  shows "\<exists>g1. ev1 = I_GroupMessageEvent g1
           \<and> GroupMessageEvent.Sender g1 = GroupMessageEvent.Sender g \<and> Anonymous g1 = Anonymous g"
  using assms by (cases ev1) (auto split: if_splits)

lemma enriched_private:
  assumes "(if rel (setEventField_EventName ev1 x)
            then setEventField_ToMe (setEventField_EventName ev1 x) True
            else setEventField_EventName ev1 x) = I_PrivateMessageEvent e"
  shows "\<exists>e1. ev1 = I_PrivateMessageEvent e1
           \<and> PrivateMessageEvent.Sender e1 = PrivateMessageEvent.Sender e"
  using assms by (cases ev1) (auto split: if_splits)

lemma unmarshal_struct_group:
  assumes "unmarshal_struct M kvs ev0 = Some (I_GroupMessageEvent g1)"
  shows "\<exists>g0. ev0 = I_GroupMessageEvent g0
           \<and> unmarshal_object (GroupMessageEvent_fields M) kvs g0 = Some g1"
  using assms by (cases ev0) auto

lemma unmarshal_struct_private:
  assumes "unmarshal_struct M kvs ev0 = Some (I_PrivateMessageEvent e1)"
  shows "\<exists>e0. ev0 = I_PrivateMessageEvent e0
           \<and> unmarshal_object (PrivateMessageEvent_fields M) kvs e0 = Some e1"
  using assms by (cases ev0) auto

lemma decoded_group:
  assumes "convertJsonObjectToEvent G M rel (JObj kvs) = Inr (I_GroupMessageEvent g)"
  shows "\<exists>g1. unmarshal_object (GroupMessageEvent_fields M) kvs (GroupMessageEvent_zero M) = Some g1
           \<and> GroupMessageEvent.Sender g1 = GroupMessageEvent.Sender g \<and> Anonymous g1 = Anonymous g"
proof -
  from assms obtain kvs' ev0 ev1 where o: "JObj kvs = JObj kvs'"
    and n: "newEvent M (typeName_of G (JObj kvs)) (subType_of G (JObj kvs)) = Inr (Some ev0)"
    and u: "unmarshal_struct M kvs' ev0 = Some ev1"
    and e: "I_GroupMessageEvent g
          = (if rel (setEventField_EventName ev1 (fullTypeName_of G (JObj kvs)))
             then setEventField_ToMe (setEventField_EventName ev1 (fullTypeName_of G (JObj kvs))) True
             else setEventField_EventName ev1 (fullTypeName_of G (JObj kvs)))"
    by (rule convert_InrD)
  from enriched_group [of rel ev1 "fullTypeName_of G (JObj kvs)" g, OF e [symmetric]] obtain g1 where g1: "ev1 = I_GroupMessageEvent g1"
    and s: "GroupMessageEvent.Sender g1 = GroupMessageEvent.Sender g" "Anonymous g1 = Anonymous g"
    by blast
  from u g1 o unmarshal_struct_group obtain g0 where g0: "ev0 = I_GroupMessageEvent g0"
    and d: "unmarshal_object (GroupMessageEvent_fields M) kvs g0 = Some g1"
    by blast
  from n g0 have "g0 = GroupMessageEvent_zero M" using newEvent_group by blast
  with d s show ?thesis by blast
qed

lemma decoded_private:
  assumes "convertJsonObjectToEvent G M rel (JObj kvs) = Inr (I_PrivateMessageEvent e)"
  shows "\<exists>e1. unmarshal_object (PrivateMessageEvent_fields M) kvs (PrivateMessageEvent_zero M) = Some e1
           \<and> PrivateMessageEvent.Sender e1 = PrivateMessageEvent.Sender e"
proof -
  from assms obtain kvs' ev0 ev1 where o: "JObj kvs = JObj kvs'"
    and n: "newEvent M (typeName_of G (JObj kvs)) (subType_of G (JObj kvs)) = Inr (Some ev0)"
    and u: "unmarshal_struct M kvs' ev0 = Some ev1"
    and en: "I_PrivateMessageEvent e
          = (if rel (setEventField_EventName ev1 (fullTypeName_of G (JObj kvs)))
             then setEventField_ToMe (setEventField_EventName ev1 (fullTypeName_of G (JObj kvs))) True
             else setEventField_EventName ev1 (fullTypeName_of G (JObj kvs)))"
    by (rule convert_InrD)
  from enriched_private [of rel ev1 "fullTypeName_of G (JObj kvs)" e, OF en [symmetric]] obtain e1 where e1: "ev1 = I_PrivateMessageEvent e1"
    and s: "PrivateMessageEvent.Sender e1 = PrivateMessageEvent.Sender e"
    by blast
  from u e1 o unmarshal_struct_private obtain e0 where e0: "ev0 = I_PrivateMessageEvent e0"
    and d: "unmarshal_object (PrivateMessageEvent_fields M) kvs e0 = Some e1"
    by blast
  from n e0 have "e0 = PrivateMessageEvent_zero M" using newEvent_private by blast
  with d s show ?thesis by blast
qed

lemma key_matches_fold:
  "key_matches ''sender'' k = (foldName k = ''SENDER'')"
  "key_matches ''Sender'' k = (foldName k = ''SENDER'')"
  "key_matches ''anonymous'' k = (foldName k = ''ANONYMOUS'')"
  by (auto simp: key_matches_def foldName_names)

lemma group_message_sender_decoded:
  "convertJsonObjectToEvent G0 M0 (isEventRelativeToBot M0) group_message_sender_payload
     = Inr group_message_sender_event"
  by (simp add: group_message_sender_payload_def group_message_sender_event_def convert_eval
      GroupMessageEvent_fields_def MessageEvent_fields_def Event_fields_def
      GroupMessageEvent_zero_def GroupMessageEventSender_zero_def Anonymous_zero_def)

lemma private_message_sender_decoded:
  "convertJsonObjectToEvent G0 M0 (isEventRelativeToBot M0) private_message_sender_payload
     = Inr private_message_sender_event"
  by (simp add: private_message_sender_payload_def private_message_sender_event_def convert_eval
      PrivateMessageEvent_fields_def MessageEvent_fields_def Event_fields_def
      PrivateMessageEvent_zero_def MessageEventSender_zero_def foldName_eval)

lemma find_field_NoneD:
  assumes "find_field fs k = None" and "g \<in> set fs"
  shows "foldName (fst g) \<noteq> foldName k"
  using assms find_field_SomeI [of g fs k] by auto

lemma unmarshal_object_pointer:
  assumes fr: "\<forall>f \<in> set fs. foldName (fst f) \<noteq> N \<longrightarrow>
                 (\<forall>v s s'. snd (snd f) v s = Some s' \<longrightarrow> obs s' = obs s)"
    and st: "\<forall>f \<in> set fs. foldName (fst f) = N \<longrightarrow>
                 (\<forall>v s s'. snd (snd f) v s = Some s' \<longrightarrow>
                    (obs s' \<noteq> None) = (json_type_of v = TObject))"
    and ex: "\<exists>f \<in> set fs. foldName (fst f) = N"
    and un: "unmarshal_object fs kvs s = Some s'"
  shows "(obs s' \<noteq> None)
     = (case filter (\<lambda>kv. foldName (fst kv) = N) kvs of
          [] \<Rightarrow> obs s \<noteq> None
        | m # ms \<Rightarrow> json_type_of (snd (last (m # ms))) = TObject)"
  using un
proof (induction kvs arbitrary: s)
  case Nil
  then show ?case by simp
next
  case (Cons kv kvs)
  show ?case
  proof (cases "find_field fs (fst kv)")
    case None
    with ex have "foldName (fst kv) \<noteq> N"
      using find_field_NoneD by metis
    moreover from None Cons.prems have "unmarshal_object fs kvs s = Some s'" by simp
    ultimately show ?thesis using Cons.IH by simp
  next
    case (Some f)
    with Cons.prems obtain s1 where d: "snd (snd f) (snd kv) s = Some s1"
      and r: "unmarshal_object fs kvs s1 = Some s'"
      by (auto split: option.splits)
    from find_field_SomeD [OF Some]
    have f: "f \<in> set fs" "foldName (fst f) = foldName (fst kv)" by simp_all
    note ih = Cons.IH [OF r]
    show ?thesis
    proof (cases "foldName (fst kv) = N")
      case True
      with f st d have "(obs s1 \<noteq> None) = (json_type_of (snd kv) = TObject)" by metis
      with ih True show ?thesis
        by (simp split: list.splits)
    next
      case False
      with f fr d have "obs s1 = obs s" by metis
      with ih False show ?thesis by (simp split: list.splits)
    qed
  qed
qed

lemma stored_member_fold:
  assumes "\<And>k. key_matches n k = (foldName k = N)"
  shows "(map_option json_type_of (stored_member n kvs) = Some TObject)
     = (case filter (\<lambda>kv. foldName (fst kv) = N) kvs of
          [] \<Rightarrow> False
        | m # ms \<Rightarrow> json_type_of (snd (last (m # ms))) = TObject)"
  by (simp add: stored_member_def assms split: list.splits)

lemma group_Sender_stored:
  "\<forall>f \<in> set (GroupMessageEvent_fields M). foldName (fst f) = ''SENDER'' \<longrightarrow>
     (\<forall>v s s'. snd (snd f) v s = Some s' \<longrightarrow>
        (GroupMessageEvent.Sender s' \<noteq> None) = (json_type_of v = TObject))"
  by (auto simp: GroupMessageEvent_fields_def MessageEvent_fields_def Event_fields_def field_defs
      foldName_names split: json.splits if_splits)

lemma group_Anonymous_stored:
  "\<forall>f \<in> set (GroupMessageEvent_fields M). foldName (fst f) = ''ANONYMOUS'' \<longrightarrow>
     (\<forall>v s s'. snd (snd f) v s = Some s' \<longrightarrow>
        (Anonymous s' \<noteq> None) = (json_type_of v = TObject))"
  by (auto simp: GroupMessageEvent_fields_def MessageEvent_fields_def Event_fields_def field_defs
      foldName_names split: json.splits if_splits)

lemma private_Sender_stored:
  "\<forall>f \<in> set (PrivateMessageEvent_fields M). foldName (fst f) = ''SENDER'' \<longrightarrow>
     (\<forall>v s s'. snd (snd f) v s = Some s' \<longrightarrow>
        (PrivateMessageEvent.Sender s' \<noteq> None) = (json_type_of v = TObject))"
  by (auto simp: PrivateMessageEvent_fields_def MessageEvent_fields_def Event_fields_def field_defs
      foldName_names split: json.splits if_splits)

lemma pointer_fields_exist:
  "\<exists>f \<in> set (GroupMessageEvent_fields M). foldName (fst f) = ''SENDER''"
  "\<exists>f \<in> set (GroupMessageEvent_fields M). foldName (fst f) = ''ANONYMOUS''"
  "\<exists>f \<in> set (PrivateMessageEvent_fields M). foldName (fst f) = ''SENDER''"
  by (simp_all add: GroupMessageEvent_fields_def PrivateMessageEvent_fields_def foldName_names)

lemma group_pointer_stored:
  assumes "convertJsonObjectToEvent G M rel (JObj kvs) = Inr (I_GroupMessageEvent g)"
  shows "(GroupMessageEvent.Sender g \<noteq> None)
           = (map_option json_type_of (stored_member ''sender'' kvs) = Some TObject)"
    and "(Anonymous g \<noteq> None)
           = (map_option json_type_of (stored_member ''anonymous'' kvs) = Some TObject)"
proof -
  from decoded_group [OF assms] obtain g1 where
    u: "unmarshal_object (GroupMessageEvent_fields M) kvs (GroupMessageEvent_zero M) = Some g1"
    and s: "GroupMessageEvent.Sender g1 = GroupMessageEvent.Sender g" "Anonymous g1 = Anonymous g"
    by blast
  have z: "GroupMessageEvent.Sender (GroupMessageEvent_zero M) = None"
    "Anonymous (GroupMessageEvent_zero M) = None"
    by (simp_all add: GroupMessageEvent_zero_def)
  have "(GroupMessageEvent.Sender g1 \<noteq> None)
      = (case filter (\<lambda>kv. foldName (fst kv) = ''SENDER'') kvs of
           [] \<Rightarrow> False
         | m # ms \<Rightarrow> json_type_of (snd (last (m # ms))) = TObject)"
    using unmarshal_object_pointer [OF group_Sender_frame group_Sender_stored
        pointer_fields_exist(1) u] z(1)
    by (simp split: list.splits)
  also have "\<dots> = (map_option json_type_of (stored_member ''sender'' kvs) = Some TObject)"
    by (rule stored_member_fold [symmetric]) (rule key_matches_fold)
  finally show "(GroupMessageEvent.Sender g \<noteq> None)
           = (map_option json_type_of (stored_member ''sender'' kvs) = Some TObject)"
    by (simp only: s)
  have "(Anonymous g1 \<noteq> None)
      = (case filter (\<lambda>kv. foldName (fst kv) = ''ANONYMOUS'') kvs of
           [] \<Rightarrow> False
         | m # ms \<Rightarrow> json_type_of (snd (last (m # ms))) = TObject)"
    using unmarshal_object_pointer [OF group_Anonymous_frame group_Anonymous_stored
        pointer_fields_exist(2) u] z(2)
    by (simp split: list.splits)
  also have "\<dots> = (map_option json_type_of (stored_member ''anonymous'' kvs) = Some TObject)"
    by (rule stored_member_fold [symmetric]) (rule key_matches_fold)
  finally show "(Anonymous g \<noteq> None)
           = (map_option json_type_of (stored_member ''anonymous'' kvs) = Some TObject)"
    by (simp only: s)
qed

lemma private_pointer_stored:
  assumes "convertJsonObjectToEvent G M rel (JObj kvs) = Inr (I_PrivateMessageEvent e)"
  shows "(PrivateMessageEvent.Sender e \<noteq> None)
           = (map_option json_type_of (stored_member ''Sender'' kvs) = Some TObject)"
proof -
  from decoded_private [OF assms] obtain e1 where
    u: "unmarshal_object (PrivateMessageEvent_fields M) kvs (PrivateMessageEvent_zero M) = Some e1"
    and s: "PrivateMessageEvent.Sender e1 = PrivateMessageEvent.Sender e"
    by blast
  have z: "PrivateMessageEvent.Sender (PrivateMessageEvent_zero M) = None"
    by (simp add: PrivateMessageEvent_zero_def)
  have "(PrivateMessageEvent.Sender e1 \<noteq> None)
      = (case filter (\<lambda>kv. foldName (fst kv) = ''SENDER'') kvs of
           [] \<Rightarrow> False
         | m # ms \<Rightarrow> json_type_of (snd (last (m # ms))) = TObject)"
    using unmarshal_object_pointer [OF private_Sender_frame private_Sender_stored
        pointer_fields_exist(3) u] z
    by (simp split: list.splits)
  also have "\<dots> = (map_option json_type_of (stored_member ''Sender'' kvs) = Some TObject)"
    by (rule stored_member_fold [symmetric]) (rule key_matches_fold)
  finally show ?thesis
    by (simp only: s)
qed

text \<open>
  C10. When no member of a group message payload has a key that \<open>encoding/json\<close> takes
  for \<open>sender\<close>, the decoded \<open>Sender\<close> is the nil pointer; likewise for
  \<open>anonymous\<close>, and for the \<open>Sender\<close> of a private message. And each of these
  pointers is not nil exactly when the value stored last in the field is an object, be
  it the empty one: an event tells a missing descriptor from one whose fields are all
  zero. (A \<open>null\<close> stored last sets the pointer to nil as well.)
\<close>

theorem absent_pointer_fields_are_nil:
  "(convertJsonObjectToEvent G M rel (JObj kvs) = Inr (I_GroupMessageEvent g)
      \<and> list_all (\<lambda>kv. \<not> key_matches ''sender'' (fst kv)) kvs
    \<longrightarrow> GroupMessageEvent.Sender g = None)
   \<and> (convertJsonObjectToEvent G M rel (JObj kvs) = Inr (I_GroupMessageEvent g)
      \<and> list_all (\<lambda>kv. \<not> key_matches ''anonymous'' (fst kv)) kvs
    \<longrightarrow> Anonymous g = None)
   \<and> (convertJsonObjectToEvent G M rel (JObj kvs) = Inr (I_PrivateMessageEvent e)
      \<and> list_all (\<lambda>kv. \<not> key_matches ''Sender'' (fst kv)) kvs
    \<longrightarrow> PrivateMessageEvent.Sender e = None)
   \<and> (convertJsonObjectToEvent G M rel (JObj kvs) = Inr (I_GroupMessageEvent g)
    \<longrightarrow> (GroupMessageEvent.Sender g \<noteq> None)
          = (map_option json_type_of (stored_member ''sender'' kvs) = Some TObject)
      \<and> (Anonymous g \<noteq> None)
          = (map_option json_type_of (stored_member ''anonymous'' kvs) = Some TObject))
   \<and> (convertJsonObjectToEvent G M rel (JObj kvs) = Inr (I_PrivateMessageEvent e)
    \<longrightarrow> (PrivateMessageEvent.Sender e \<noteq> None)
          = (map_option json_type_of (stored_member ''Sender'' kvs) = Some TObject))"
proof (intro conjI impI; (elim conjE)?)
  assume d: "convertJsonObjectToEvent G M rel (JObj kvs) = Inr (I_GroupMessageEvent g)"
    and a: "list_all (\<lambda>kv. \<not> key_matches ''sender'' (fst kv)) kvs"
  from decoded_group [OF d] obtain g1 where
    u: "unmarshal_object (GroupMessageEvent_fields M) kvs (GroupMessageEvent_zero M) = Some g1"
    and s: "GroupMessageEvent.Sender g1 = GroupMessageEvent.Sender g" by blast
  from a have "\<forall>kv \<in> set kvs. foldName (fst kv) \<noteq> ''SENDER''"
    by (simp add: list_all_iff key_matches_fold)
  from unmarshal_object_frame [OF group_Sender_frame u this] s
  show "GroupMessageEvent.Sender g = None"
    by (simp add: GroupMessageEvent_zero_def)
next
  assume d: "convertJsonObjectToEvent G M rel (JObj kvs) = Inr (I_GroupMessageEvent g)"
    and a: "list_all (\<lambda>kv. \<not> key_matches ''anonymous'' (fst kv)) kvs"
  from decoded_group [OF d] obtain g1 where
    u: "unmarshal_object (GroupMessageEvent_fields M) kvs (GroupMessageEvent_zero M) = Some g1"
    and s: "Anonymous g1 = Anonymous g" by blast
  from a have "\<forall>kv \<in> set kvs. foldName (fst kv) \<noteq> ''ANONYMOUS''"
    by (simp add: list_all_iff key_matches_fold)
  from unmarshal_object_frame [OF group_Anonymous_frame u this] s
  show "Anonymous g = None"
    by (simp add: GroupMessageEvent_zero_def)
next
  assume d: "convertJsonObjectToEvent G M rel (JObj kvs) = Inr (I_PrivateMessageEvent e)"
    and a: "list_all (\<lambda>kv. \<not> key_matches ''Sender'' (fst kv)) kvs"
  from decoded_private [OF d] obtain e1 where
    u: "unmarshal_object (PrivateMessageEvent_fields M) kvs (PrivateMessageEvent_zero M) = Some e1"
    and s: "PrivateMessageEvent.Sender e1 = PrivateMessageEvent.Sender e" by blast
  from a have "\<forall>kv \<in> set kvs. foldName (fst kv) \<noteq> ''SENDER''"
    by (simp add: list_all_iff key_matches_fold)
  from unmarshal_object_frame [OF private_Sender_frame u this] s
  show "PrivateMessageEvent.Sender e = None"
    by (simp add: PrivateMessageEvent_zero_def)
next
  assume "convertJsonObjectToEvent G M rel (JObj kvs) = Inr (I_GroupMessageEvent g)"
  then show "(GroupMessageEvent.Sender g \<noteq> None)
          = (map_option json_type_of (stored_member ''sender'' kvs) = Some TObject)"
    by (rule group_pointer_stored)
next
  assume "convertJsonObjectToEvent G M rel (JObj kvs) = Inr (I_GroupMessageEvent g)"
  then show "(Anonymous g \<noteq> None)
          = (map_option json_type_of (stored_member ''anonymous'' kvs) = Some TObject)"
    by (rule group_pointer_stored)
next
  assume "convertJsonObjectToEvent G M rel (JObj kvs) = Inr (I_PrivateMessageEvent e)"
  then show "(PrivateMessageEvent.Sender e \<noteq> None)
          = (map_option json_type_of (stored_member ''Sender'' kvs) = Some TObject)"
    by (rule private_pointer_stored)
qed

theorem absent_pointer_fields_are_nil_witness:
  "convertJsonObjectToEvent G0 M0 (isEventRelativeToBot M0) group_message_payload
     = Inr group_message_event
   \<and> (\<exists>g. group_message_event = I_GroupMessageEvent g
          \<and> GroupMessageEvent.Sender g = None \<and> Anonymous g = None)
   \<and> convertJsonObjectToEvent G0 M0 (isEventRelativeToBot M0) group_message_sender_payload
     = Inr group_message_sender_event
   \<and> (\<exists>g. group_message_sender_event = I_GroupMessageEvent g
          \<and> GroupMessageEvent.Sender g = Some GroupMessageEventSender_zero
          \<and> Anonymous g = Some Anonymous_zero
          \<and> GroupMessageEvent.Sender g \<noteq> None \<and> Anonymous g \<noteq> None)
   \<and> convertJsonObjectToEvent G0 M0 (isEventRelativeToBot M0) private_message_payload
     = Inr private_message_event
   \<and> (\<exists>e. private_message_event = I_PrivateMessageEvent e
          \<and> PrivateMessageEvent.Sender e = None)
   \<and> convertJsonObjectToEvent G0 M0 (isEventRelativeToBot M0) private_message_sender_payload
     = Inr private_message_sender_event
   \<and> (\<exists>e. private_message_sender_event = I_PrivateMessageEvent e
          \<and> PrivateMessageEvent.Sender e = Some MessageEventSender_zero
          \<and> PrivateMessageEvent.Sender e \<noteq> None)"
proof -
  let ?kvs = "[(''post_type'', JStr ''message''), (''message_type'', JStr ''group''),
           (''time'', JInt 100), (''self_id'', JInt 1), (''user_id'', JInt 2),
           (''group_id'', JInt 10), (''message_id'', JInt 5), (''message'', JStr ''hi'')]"
  let ?kvs' = "?kvs @ [(''sender'', JObj []), (''anonymous'', JObj [])]"
  let ?pkvs = "[(''post_type'', JStr ''message''), (''message_type'', JStr ''private''),
           (''time'', JInt 100), (''self_id'', JInt 1), (''user_id'', JInt 2),
           (''message_id'', JInt 5), (''message'', JStr ''hi'')]"
  let ?pkvs' = "?pkvs @ [(''sender'', JObj [])]"
  let ?rel = "isEventRelativeToBot M0"
  obtain g where g: "group_message_event = I_GroupMessageEvent g"
    by (simp add: group_message_event_def)
  obtain g' where g': "group_message_sender_event = I_GroupMessageEvent g'"
    and z: "GroupMessageEvent.Sender g' = Some GroupMessageEventSender_zero"
      "Anonymous g' = Some Anonymous_zero"
    by (simp add: group_message_sender_event_def)
  obtain e where e: "private_message_event = I_PrivateMessageEvent e"
    by (simp add: private_message_event_def)
  obtain e' where e': "private_message_sender_event = I_PrivateMessageEvent e'"
    and pz: "PrivateMessageEvent.Sender e' = Some MessageEventSender_zero"
    by (simp add: private_message_sender_event_def)
  from group_message_decoded
  have d: "convertJsonObjectToEvent G0 M0 ?rel (JObj ?kvs) = Inr (I_GroupMessageEvent g)"
    by (simp add: group_message_payload_def g)
  have s: "list_all (\<lambda>kv. \<not> key_matches ''sender'' (fst kv)) ?kvs"
    by (simp add: key_matches_def foldName_names)
  have a: "list_all (\<lambda>kv. \<not> key_matches ''anonymous'' (fst kv)) ?kvs"
    by (simp add: key_matches_def foldName_names)
  from absent_pointer_fields_are_nil [of G0 M0 ?rel ?kvs g] d s a
  have absent: "GroupMessageEvent.Sender g = None \<and> Anonymous g = None"
    by blast
  from group_message_sender_decoded
  have d': "convertJsonObjectToEvent G0 M0 ?rel (JObj ?kvs') = Inr (I_GroupMessageEvent g')"
    by (simp add: group_message_sender_payload_def g')
  have s': "map_option json_type_of (stored_member ''sender'' ?kvs') = Some TObject"
    by (simp add: stored_member_def key_matches_def foldName_names)
  have a': "map_option json_type_of (stored_member ''anonymous'' ?kvs') = Some TObject"
    by (simp add: stored_member_def key_matches_def foldName_names)
  from absent_pointer_fields_are_nil [of G0 M0 ?rel ?kvs' g'] d' s' a'
  have present: "GroupMessageEvent.Sender g' \<noteq> None \<and> Anonymous g' \<noteq> None"
    by blast
  from private_message_decoded
  have pd: "convertJsonObjectToEvent G0 M0 ?rel (JObj ?pkvs) = Inr (I_PrivateMessageEvent e)"
    by (simp add: private_message_payload_def e)
  have ps: "list_all (\<lambda>kv. \<not> key_matches ''Sender'' (fst kv)) ?pkvs"
    by (simp add: key_matches_def foldName_names)
  from absent_pointer_fields_are_nil [of G0 M0 ?rel ?pkvs _ e] pd ps
  have pabsent: "PrivateMessageEvent.Sender e = None"
    by blast
  from private_message_sender_decoded
  have pd': "convertJsonObjectToEvent G0 M0 ?rel (JObj ?pkvs') = Inr (I_PrivateMessageEvent e')"
    by (simp add: private_message_sender_payload_def e')
  have ps': "map_option json_type_of (stored_member ''Sender'' ?pkvs') = Some TObject"
    by (simp add: stored_member_def key_matches_def foldName_names)
  from absent_pointer_fields_are_nil [of G0 M0 ?rel ?pkvs' _ e'] pd' ps'
  have ppresent: "PrivateMessageEvent.Sender e' \<noteq> None"
    by blast
  from g absent group_message_decoded g' z present group_message_sender_decoded
    e pabsent private_message_decoded e' pz ppresent private_message_sender_decoded
  show ?thesis by blast
qed

section \<open>Properties: a member that does not fit its field\<close>

lemma unmarshal_object_reject:
  assumes "(k, v) \<in> set kvs" and "find_field fs k = Some f" and "\<forall>s. snd (snd f) v s = None"
  shows "unmarshal_object fs kvs s = None"
  using assms(1)
proof (induction kvs arbitrary: s)
  case Nil
  then show ?case by simp
next
  case (Cons kv kvs)
  show ?case
  proof (cases "kv = (k, v)")
    case True
    with assms(2,3) show ?thesis by simp
  next
    case False
    with Cons.prems have "(k, v) \<in> set kvs" by simp
    from Cons.IH [OF this] show ?thesis
      by (simp split: option.splits)
  qed
qed

lemma nested_reject:
  assumes "\<forall>f \<in> set nfs. \<forall>v t. type_mismatch (fst (snd f)) v \<longrightarrow> snd (snd f) v t = None"
    and "(k2, v2) \<in> set kvs'" and "kind_of_key nfs z k2 = Some kd2" and "type_mismatch kd2 v2"
  shows "unmarshal_object nfs kvs' t = None"
proof -
  from assms(3) obtain f where f: "find_field nfs k2 = Some f" and k: "fst (snd f) = kd2"
    by (auto simp: kind_of_key_def)
  from find_field_SomeD [OF f] assms(1,4) k have "\<forall>s. snd (snd f) v2 s = None" by blast
  from unmarshal_object_reject [OF assms(2) f this] show ?thesis .
qed

lemma nested_sound:
  "\<forall>f \<in> set MessageEventSender_fields. \<forall>v t. type_mismatch (fst (snd f)) v \<longrightarrow> snd (snd f) v t = None"
  "\<forall>f \<in> set GroupMessageEventSender_fields. \<forall>v t. type_mismatch (fst (snd f)) v \<longrightarrow> snd (snd f) v t = None"
  "\<forall>f \<in> set Anonymous_fields. \<forall>v t. type_mismatch (fst (snd f)) v \<longrightarrow> snd (snd f) v t = None"
  "\<forall>f \<in> set HeartbeatStatus_fields. \<forall>v t. type_mismatch (fst (snd f)) v \<longrightarrow> snd (snd f) v t = None"
  "\<forall>f \<in> set GroupUploadFile_fields. \<forall>v t. type_mismatch (fst (snd f)) v \<longrightarrow> snd (snd f) v t = None"
  by (auto simp: MessageEventSender_fields_def GroupMessageEventSender_fields_def
      Anonymous_fields_def HeartbeatStatus_fields_def GroupUploadFile_fields_def field_defs
      type_mismatch_simps split: json.splits)

lemma name_of_keyD:
  assumes "name_of_key fs s k = Some n"
  shows "\<exists>f. find_field fs k = Some f \<and> f \<in> set fs \<and> fst f = n"
  using assms find_field_SomeD [of fs k] by (auto simp: name_of_key_def)

lemma private_Sender_field:
  assumes "f \<in> set (PrivateMessageEvent_fields M)" and "fst f = ''Sender''"
  shows "snd (snd f) = snd (ptr_field MessageEventSender_fields MessageEventSender_zero
           PrivateMessageEvent.Sender PrivateMessageEvent.Sender_update)"
  using assms
  by (auto simp: PrivateMessageEvent_fields_def MessageEvent_fields_def Event_fields_def)

lemma group_sender_field:
  assumes "f \<in> set (GroupMessageEvent_fields M)" and "fst f = ''sender''"
  shows "snd (snd f) = snd (ptr_field GroupMessageEventSender_fields GroupMessageEventSender_zero
           GroupMessageEvent.Sender GroupMessageEvent.Sender_update)"
  using assms
  by (auto simp: GroupMessageEvent_fields_def MessageEvent_fields_def Event_fields_def)

lemma group_anonymous_field:
  assumes "f \<in> set (GroupMessageEvent_fields M)" and "fst f = ''anonymous''"
  shows "snd (snd f) = snd (ptr_field Anonymous_fields Anonymous_zero Anonymous Anonymous_update)"
  using assms
  by (auto simp: GroupMessageEvent_fields_def MessageEvent_fields_def Event_fields_def)

lemma upload_file_field:
  assumes "f \<in> set GroupUploadNoticeEvent_fields" and "fst f = ''file''"
  shows "snd (snd f) = snd (struct_field GroupUploadFile_fields File File_update)"
  using assms
  by (auto simp: GroupUploadNoticeEvent_fields_def NoticeEvent_fields_def Event_fields_def)

lemma heartbeat_status_field:
  assumes "f \<in> set HeartbeatMetaEvent_fields" and "fst f = ''status''"
  shows "snd (snd f) = snd (struct_field HeartbeatStatus_fields Status Status_update)"
  using assms
  by (auto simp: HeartbeatMetaEvent_fields_def Event_fields_def)

lemma ptr_field_reject:
  "\<forall>t. unmarshal_object nfs kvs' t = None \<Longrightarrow> snd (ptr_field nfs zero get upd) (JObj kvs') s = None"
  by (simp add: ptr_field_def)

lemma struct_field_reject:
  "\<forall>t. unmarshal_object nfs kvs' t = None \<Longrightarrow> snd (struct_field nfs get upd) (JObj kvs') s = None"
  by (simp add: struct_field_def)

lemma nested_mismatch_rejected:
  fixes M :: "'m Message_ops"
  assumes "(k, JObj kvs') \<in> set kvs" and "(k2, v2) \<in> set kvs'"
    and "nested_field_kind M ev k k2 = Some kd2" and "type_mismatch kd2 v2"
  shows "unmarshal_struct M kvs ev = None"
proof -
  have rej: "unmarshal_object nfs kvs' t = None"
    if "\<forall>f \<in> set nfs. \<forall>v t. type_mismatch (fst (snd f)) v \<longrightarrow> snd (snd f) v t = None"
      and "kind_of_key nfs z k2 = Some kd2" for nfs :: "'t field list" and z t
    using nested_reject [OF that(1) assms(2) that(2) assms(4)] .
  show ?thesis
  proof (cases ev)
    case (I_PrivateMessageEvent e)
    with assms(3) have n: "name_of_key (PrivateMessageEvent_fields M) e k = Some ''Sender''"
      and kk: "kind_of_key MessageEventSender_fields MessageEventSender_zero k2 = Some kd2"
      by (simp_all split: if_splits)
    from name_of_keyD [OF n] obtain f :: "'m PrivateMessageEvent field"
      where f: "find_field (PrivateMessageEvent_fields M) k = Some f"
        "f \<in> set (PrivateMessageEvent_fields M)" "fst f = ''Sender''" by blast
    from rej [OF nested_sound(1) kk] private_Sender_field [OF f(2,3)]
    have "\<forall>s. snd (snd f) (JObj kvs') s = None"
      by (simp add: ptr_field_reject)
    from unmarshal_object_reject [OF assms(1) f(1) this] I_PrivateMessageEvent
    show ?thesis by simp
  next
    case (I_GroupMessageEvent e)
    show ?thesis
    proof (cases "name_of_key (GroupMessageEvent_fields M) e k = Some ''sender''")
      case True
      with assms(3) I_GroupMessageEvent
      have kk: "kind_of_key GroupMessageEventSender_fields GroupMessageEventSender_zero k2 = Some kd2"
        by simp
      from name_of_keyD [OF True] obtain f :: "'m GroupMessageEvent field"
        where f: "find_field (GroupMessageEvent_fields M) k = Some f"
        "f \<in> set (GroupMessageEvent_fields M)" "fst f = ''sender''" by blast
      from rej [OF nested_sound(2) kk] group_sender_field [OF f(2,3)]
      have "\<forall>s. snd (snd f) (JObj kvs') s = None"
        by (simp add: ptr_field_reject)
      from unmarshal_object_reject [OF assms(1) f(1) this] I_GroupMessageEvent
      show ?thesis by simp
    next
      case False
      with assms(3) I_GroupMessageEvent
      have n: "name_of_key (GroupMessageEvent_fields M) e k = Some ''anonymous''"
        and kk: "kind_of_key Anonymous_fields Anonymous_zero k2 = Some kd2"
        by (simp_all split: if_splits)
      from name_of_keyD [OF n] obtain f :: "'m GroupMessageEvent field"
        where f: "find_field (GroupMessageEvent_fields M) k = Some f"
        "f \<in> set (GroupMessageEvent_fields M)" "fst f = ''anonymous''" by blast
      from rej [OF nested_sound(3) kk] group_anonymous_field [OF f(2,3)]
      have "\<forall>s. snd (snd f) (JObj kvs') s = None"
        by (simp add: ptr_field_reject)
      from unmarshal_object_reject [OF assms(1) f(1) this] I_GroupMessageEvent
      show ?thesis by simp
    qed
  next
    case (I_GroupUploadNoticeEvent e)
    with assms(3) have n: "name_of_key GroupUploadNoticeEvent_fields e k = Some ''file''"
      and kk: "kind_of_key GroupUploadFile_fields GroupUploadFile_zero k2 = Some kd2"
      by (simp_all split: if_splits)
    from name_of_keyD [OF n] obtain f :: "GroupUploadNoticeEvent field"
      where f: "find_field GroupUploadNoticeEvent_fields k = Some f"
        "f \<in> set GroupUploadNoticeEvent_fields" "fst f = ''file''" by blast
    from rej [OF nested_sound(5) kk] upload_file_field [OF f(2,3)]
    have "\<forall>s. snd (snd f) (JObj kvs') s = None"
      by (simp add: struct_field_reject)
    from unmarshal_object_reject [OF assms(1) f(1) this] I_GroupUploadNoticeEvent
    show ?thesis by simp
  next
    case (I_HeartbeatMetaEvent e)
    with assms(3) have n: "name_of_key HeartbeatMetaEvent_fields e k = Some ''status''"
      and kk: "kind_of_key HeartbeatStatus_fields HeartbeatStatus_zero k2 = Some kd2"
      by (simp_all split: if_splits)
    from name_of_keyD [OF n] obtain f :: "HeartbeatMetaEvent field"
      where f: "find_field HeartbeatMetaEvent_fields k = Some f"
        "f \<in> set HeartbeatMetaEvent_fields" "fst f = ''status''" by blast
    from rej [OF nested_sound(4) kk] heartbeat_status_field [OF f(2,3)]
    have "\<forall>s. snd (snd f) (JObj kvs') s = None"
      by (simp add: struct_field_reject)
    from unmarshal_object_reject [OF assms(1) f(1) this] I_HeartbeatMetaEvent
    show ?thesis by simp
  qed (use assms(3) in simp_all)
qed

lemma unmarshal_failed:
  assumes "newEvent M (typeName_of G (JObj kvs)) (subType_of G (JObj kvs)) = Inr (Some ev0)"
    and "unmarshal_struct M kvs ev0 = None"
  shows "convertJsonObjectToEvent G M rel (JObj kvs) = Inl (PanicError UnmarshalFailed)"
  using assms by (simp add: convertJsonObjectToEvent_def json_Unmarshal_def)

text \<open>
  C6. Once the switch has allocated a struct, a member of the payload whose JSON type
  its field does not take (a string for an integer, say) makes the call panic with the
  error of \<open>json.Unmarshal\<close>, and no event is returned; so does such a member of the
  object stored in \<open>Sender\<close>, \<open>Anonymous\<close>, \<open>File\<close> or \<open>Status\<close>.
\<close>

theorem type_mismatch_is_fatal:
  assumes "newEvent M (typeName_of G (JObj kvs)) (subType_of G (JObj kvs)) = Inr (Some ev0)"
  shows
  "((k, v) \<in> set kvs \<and> field_kind M ev0 k = Some kd \<and> type_mismatch kd v
      \<longrightarrow> convertJsonObjectToEvent G M rel (JObj kvs) = Inl (PanicError UnmarshalFailed))
   \<and> ((k, JObj nkvs) \<in> set kvs \<and> (nk, nv) \<in> set nkvs
       \<and> nested_field_kind M ev0 k nk = Some nkd \<and> type_mismatch nkd nv
      \<longrightarrow> convertJsonObjectToEvent G M rel (JObj kvs) = Inl (PanicError UnmarshalFailed))"
proof (intro conjI impI; elim conjE)
  assume m: "(k, v) \<in> set kvs" "field_kind M ev0 k = Some kd" "type_mismatch kd v"
  have "unmarshal_struct M kvs ev0 = None"
  proof (cases "unmarshal_struct M kvs ev0")
    case (Some ev1)
    from unmarshal_struct_sound [OF Some m(1,2)] m(3) show ?thesis by simp
  qed simp
  with assms show "convertJsonObjectToEvent G M rel (JObj kvs) = Inl (PanicError UnmarshalFailed)"
    by (rule unmarshal_failed)
next
  assume "(k, JObj nkvs) \<in> set kvs" "(nk, nv) \<in> set nkvs"
    "nested_field_kind M ev0 k nk = Some nkd" "type_mismatch nkd nv"
  then have "unmarshal_struct M kvs ev0 = None"
    by (rule nested_mismatch_rejected)
  with assms show "convertJsonObjectToEvent G M rel (JObj kvs) = Inl (PanicError UnmarshalFailed)"
    by (rule unmarshal_failed)
qed

theorem type_mismatch_is_fatal_witness:
  "newEvent M0 (typeName_of G0 bad_user_id_payload) (subType_of G0 bad_user_id_payload)
     = Inr (Some (I_PrivateMessageEvent (PrivateMessageEvent_zero M0)))
   \<and> field_kind M0 (I_PrivateMessageEvent (PrivateMessageEvent_zero M0)) ''user_id''
     = Some (KInt 64)
   \<and> type_mismatch (KInt 64) (JStr ''2'')
   \<and> convertJsonObjectToEvent G0 M0 (isEventRelativeToBot M0) bad_user_id_payload
     = Inl (PanicError UnmarshalFailed)
   \<and> nested_field_kind M0 (I_GroupMessageEvent (GroupMessageEvent_zero M0)) ''sender'' ''age''
     = Some (KInt 32)
   \<and> convertJsonObjectToEvent G0 M0 (isEventRelativeToBot M0) bad_sender_age_payload
     = Inl (PanicError UnmarshalFailed)"
proof -
  let ?k1 = "[(''post_type'', JStr ''message''), (''message_type'', JStr ''private''),
           (''user_id'', JStr ''2'')]"
  let ?k2 = "[(''post_type'', JStr ''message''), (''message_type'', JStr ''group''),
           (''sender'', JObj [(''age'', JStr ''old'')])]"
  have n1: "newEvent M0 (typeName_of G0 (JObj ?k1)) (subType_of G0 (JObj ?k1))
     = Inr (Some (I_PrivateMessageEvent (PrivateMessageEvent_zero M0)))"
    by (simp add: convert_eval)
  have n2: "newEvent M0 (typeName_of G0 (JObj ?k2)) (subType_of G0 (JObj ?k2))
     = Inr (Some (I_GroupMessageEvent (GroupMessageEvent_zero M0)))"
    by (simp add: convert_eval)
  have fk: "field_kind M0 (I_PrivateMessageEvent (PrivateMessageEvent_zero M0)) ''user_id''
     = Some (KInt 64)"
    by (simp add: kind_of_key_def find_field_def PrivateMessageEvent_fields_def
        MessageEvent_fields_def Event_fields_def field_defs)
  have nk: "nested_field_kind M0 (I_GroupMessageEvent (GroupMessageEvent_zero M0)) ''sender'' ''age''
     = Some (KInt 32)"
    by (simp add: name_of_key_def kind_of_key_def find_field_def GroupMessageEvent_fields_def
        MessageEvent_fields_def Event_fields_def GroupMessageEventSender_fields_def
        MessageEventSender_fields_def field_defs)
  have tm: "type_mismatch (KInt 64) (JStr ''2'')" "type_mismatch (KInt 32) (JStr ''old'')"
    by (simp_all add: type_mismatch_def)
  from type_mismatch_is_fatal [OF n1, where k = "''user_id''" and v = "JStr ''2''"
      and kd = "KInt 64" and rel = "isEventRelativeToBot M0"] fk tm(1)
  have c1: "convertJsonObjectToEvent G0 M0 (isEventRelativeToBot M0) (JObj ?k1)
     = Inl (PanicError UnmarshalFailed)"
    by simp
  from type_mismatch_is_fatal [OF n2, where k = "''sender''"
      and nkvs = "[(''age'', JStr ''old'')]" and nk = "''age''" and nv = "JStr ''old''"
      and nkd = "KInt 32" and rel = "isEventRelativeToBot M0"] nk tm(2)
  have c2: "convertJsonObjectToEvent G0 M0 (isEventRelativeToBot M0) (JObj ?k2)
     = Inl (PanicError UnmarshalFailed)"
    by simp
  from n1 fk tm(1) c1 nk c2 show ?thesis
    by (simp add: bad_user_id_payload_def bad_sender_age_payload_def)
qed

end
